theory Spec2Isabelle
  imports Complex_Main "HOL-Library.Mapping"
begin


section \<open>Data model (package db)\<close>

text \<open>
  \<open>db.Role\<close> is a string type; \<open>db.None\<close> is its zero value. The status constants are
  those declared next to \<open>db.Machine\<close>: Booting, Connecting, Connected and Stopping.
  The file that declares \<open>db.Role\<close> is not among the sources; the role names are the
  ones the blueprint documentation lists (Master, Worker).
\<close>

type_synonym Role = string

definition db_None :: Role where "db_None = ''''"
definition Master :: Role where "Master = ''Master''"
definition Worker :: Role where "Worker = ''Worker''"

definition Booting :: string where "Booting = ''booting''"
definition Connecting :: string where "Connecting = ''connecting''"
definition Connected :: string where "Connected = ''connected''"
definition Stopping :: string where "Stopping = ''stopping''"

text \<open>
  Modelled from the spec: the constant \<open>db.Reconnecting\<close> is not declared by the
  \<open>db.Machine\<close> source (it is only referred to by \<open>connectionStatus\<close> in cloud/join.go);
  the spec lists it among the values of \<open>Status\<close>.
\<close>

definition Reconnecting :: string where "Reconnecting = ''reconnecting''"

text \<open>
  \<open>time.Time\<close> is modelled as an integer count of nanoseconds, \<open>Add\<close> as addition and
  \<open>After\<close> as \<open>>\<close>; the zero \<open>time.Time\<close> is 0. The integers are unbounded: Go's
  instants are not, but no instant a clock reports is within five minutes of the end of
  their range. All readings of \<open>time.Now()\<close> within one transaction are one value \<open>now\<close>.
\<close>

type_synonym Time = int

definition Minute :: int where "Minute = 60 * 1000000000"

definition Add :: "Time \<Rightarrow> int \<Rightarrow> Time" where "Add t d = t + d"

definition After :: "Time \<Rightarrow> Time \<Rightarrow> bool" where "After t u = (u < t)"

text \<open>
  A Go \<open>[]string\<close>. \<open>reflect.DeepEqual\<close> tells the nil slice from an empty one, so the
  model keeps them apart: \<open>nil\<close> is the zero value, and \<open>append\<close> always gives a slice
  that is not nil.
\<close>

datatype strings = nil | Slice "string list"

fun elems :: "strings \<Rightarrow> string list" where
  "elems nil = []"
| "elems (Slice xs) = xs"

definition append_string :: "strings \<Rightarrow> string \<Rightarrow> strings" where
  "append_string s x = Slice (elems s @ [x])"

record Machine =
  ID :: int
  Role :: Role
  DesiredRole :: Role
  Provider :: string
  Region :: string
  Size :: string
  DiskSize :: int
  SSHKeys :: strings
  FloatingIP :: string
  Preemptible :: bool
  CloudID :: string
  PublicIP :: string
  PrivateIP :: string
  Status :: string
  StatusTime :: Time

text \<open>The Go zero value \<open>Machine{}\<close>.\<close>

definition emptyMachine :: Machine where
  "emptyMachine = \<lparr>ID = 0, Role = db_None, DesiredRole = db_None, Provider = '''',
     Region = '''', Size = '''', DiskSize = 0, SSHKeys = nil, FloatingIP = '''',
     Preemptible = False, CloudID = '''', PublicIP = '''', PrivateIP = '''',
     Status = '''', StatusTime = 0\<rparr>"

text \<open>
  \<open>func (m *Machine) SetStatus(status string)\<close>; \<open>now\<close> is the reading of
  \<open>time.Now()\<close>.
\<close>

definition SetStatus :: "Time \<Rightarrow> string \<Rightarrow> Machine \<Rightarrow> Machine" where
  "SetStatus now status m =
     (if Status m \<noteq> status then m\<lparr>Status := status, StatusTime := now\<rparr> else m)"

text \<open>Blueprint rows: \<open>stitch.Machine\<close>, \<open>stitch.Connection\<close> and \<open>db.Blueprint\<close>
  (the fields the reconciler and the foreman read). The \<open>float64\<close> fields are only
  handed on to \<open>machine.ChooseSize\<close>; they are typed \<open>real\<close>.\<close>

record StitchMachine =
  sm_Provider :: string
  sm_Role :: string
  sm_Region :: string
  sm_Size :: string
  sm_FloatingIP :: string
  sm_DiskSize :: int
  sm_SSHKeys :: strings
  sm_Preemptible :: bool
  sm_RAM :: "real \<times> real"
  sm_CPU :: "real \<times> real"

record Connection =
  From :: string
  To :: string
  conn_MinPort :: int
  conn_MaxPort :: int

record Blueprint =
  Namespace :: string
  Machines :: "StitchMachine list"
  MaxPrice :: real
  AdminACL :: "string list"
  Connections :: "Connection list"

subsection \<open>The datastore view\<close>

text \<open>
  Modelled from the spec: the transaction view \<open>db.Database\<close> (its \<open>nextID\<close>, \<open>insert\<close>,
  \<open>selectRows\<close>, \<open>Commit\<close>, \<open>Remove\<close> and \<open>GetBlueprint\<close>) is not among the sources. Per
  section 4.1 of the spec a table is a sequence of rows with an integer primary key
  allocated on insert; \<open>Commit\<close> updates the existing row with the same key, \<open>Remove\<close>
  deletes by key. The Blueprint table holds at most one row.
\<close>

record Database =
  machineRows :: "Machine list"
  blueprintRow :: "Blueprint option"
  idAlloc :: int

definition removeRow :: "Machine list \<Rightarrow> Machine \<Rightarrow> Machine list" where
  "removeRow rows r = filter (\<lambda>x. ID x \<noteq> ID r) rows"

definition commitRow :: "Machine list \<Rightarrow> Machine \<Rightarrow> Machine list" where
  "commitRow rows r = map (\<lambda>x. if ID x = ID r then r else x) rows"

definition Remove :: "Database \<Rightarrow> Machine \<Rightarrow> Database" where
  "Remove view r = view\<lparr>machineRows := removeRow (machineRows view) r\<rparr>"

definition Commit :: "Database \<Rightarrow> Machine \<Rightarrow> Database" where
  "Commit view r = view\<lparr>machineRows := commitRow (machineRows view) r\<rparr>"

text \<open>\<open>func (db Database) InsertMachine() Machine\<close>: the new row and the view holding it.\<close>

definition InsertMachine :: "Database \<Rightarrow> Machine \<times> Database" where
  "InsertMachine view =
     (let result = emptyMachine\<lparr>ID := idAlloc view\<rparr>
      in (result, view\<lparr>machineRows := machineRows view @ [result],
                        idAlloc := idAlloc view + 1\<rparr>))"

text \<open>\<open>func (db Database) SelectFromMachine(check func(Machine) bool) []Machine\<close>;
  a nil \<open>check\<close> is the predicate that holds everywhere.\<close>

definition SelectFromMachine :: "Database \<Rightarrow> (Machine \<Rightarrow> bool) \<Rightarrow> Machine list" where
  "SelectFromMachine view check = filter check (machineRows view)"

text \<open>The row stored under a primary key, if any.\<close>

definition lookupRow :: "Machine list \<Rightarrow> int \<Rightarrow> Machine option" where
  "lookupRow rows k = find (\<lambda>x. ID x = k) rows"

section \<open>Foreman (package foreman)\<close>

record update =
  ip :: string
  role :: Role
  status :: string

text \<open>
  One pass of the outer loop of \<open>updateRoutine\<close>: \<open>m\<close> is the update received from the
  channel, \<open>ms\<close> are the updates found in the channel after the 250 ms sleep, in
  arrival order. \<open>drain\<close> is the \<open>updateMap\<close> built from them.
\<close>

definition drain :: "update \<Rightarrow> update list \<Rightarrow> (string \<rightharpoonup> update)" where
  "drain m ms = foldl (\<lambda>updateMap u. updateMap(ip u \<mapsto> u)) (Map.empty(ip m \<mapsto> m)) ms"

definition applyUpdate :: "update \<Rightarrow> Machine \<Rightarrow> Machine" where
  "applyUpdate u dbm =
     (let dbm1 = (if status u \<noteq> '''' then dbm\<lparr>Status := status u\<rparr> else dbm)
      in (if role u \<noteq> db_None then dbm1\<lparr>Role := role u\<rparr> else dbm1))"

definition updateTxn :: "(string \<rightharpoonup> update) \<Rightarrow> Database \<Rightarrow> Database" where
  "updateTxn updateMap view =
     foldl (\<lambda>v dbm. case updateMap (PublicIP dbm) of
                       Some u \<Rightarrow> Commit v (applyUpdate u dbm)
                     | None \<Rightarrow> v)
       view
       (SelectFromMachine view (\<lambda>m. PublicIP m \<noteq> '''' \<and> Status m \<noteq> Stopping))"

definition updateWindow :: "update \<Rightarrow> update list \<Rightarrow> Database \<Rightarrow> Database" where
  "updateWindow m ms view = updateTxn (drain m ms) view"

text \<open>\<open>updateRoutine\<close> over the successive windows of the channel.\<close>

definition updateRoutine :: "(update \<times> update list) list \<Rightarrow> Database \<Rightarrow> Database" where
  "updateRoutine windows view = foldl (\<lambda>v (m, ms). updateWindow m ms v) view windows"

subsection \<open>One iteration of a foreman\<close>

text \<open>
  \<open>pb.MinionConfig\<close> as the foreman reads and builds it. The \<open>pb\<close> package is not among
  the sources: the role is kept as the protobuf enum's number and \<open>db.PBToRole\<close>, like
  \<open>Stitch.String\<close>, is a parameter of the model.
\<close>

record MinionConfig =
  cfg_Role :: int
  cfg_FloatingIP :: string
  cfg_PrivateIP :: string
  cfg_Blueprint :: string
  cfg_Provider :: string
  cfg_Size :: string
  cfg_Region :: string
  cfg_EtcdMembers :: strings
  cfg_AuthorizedKeys :: strings

type_synonym error = string

text \<open>A connected minion client; \<open>newClientImpl\<close> dials \<open>ip:9999\<close>.\<close>

datatype client = MinionClient string

record foreman =
  fm_client :: "client option"
  fm_ip :: string
  fm_status :: string

text \<open>What the outside world answers during one iteration: the dial, \<open>getMinion\<close> and
  \<open>setMinion\<close> (\<open>Inl\<close> and \<open>Some\<close> carry the Go error).\<close>

record ForemanWorld =
  PBToRole :: "int \<Rightarrow> Role"
  StitchString :: "Blueprint \<Rightarrow> string"
  newClient :: "string \<Rightarrow> error + client"
  getMinion :: "error + MinionConfig"
  setMinion :: "MinionConfig \<Rightarrow> error option"

datatype rpc = Dial string | GetMinionConfig | SetMinionConfig MinionConfig

record RunOnce =
  after :: foreman
  sent :: "update list"
  rpcs :: "rpc list"
  returned :: "error option"

definition emptyBlueprint :: Blueprint where
  "emptyBlueprint = \<lparr>Namespace = '''', Machines = [], MaxPrice = 0, AdminACL = [],
     Connections = []\<rparr>"

text \<open>\<open>view.GetBlueprint()\<close>: the blueprint row, or an error when there is none.\<close>

definition GetBlueprint :: "Database \<Rightarrow> error + Blueprint" where
  "GetBlueprint view =
     (case blueprintRow view of None \<Rightarrow> Inl ''no blueprint'' | Some bp \<Rightarrow> Inr bp)"

text \<open>
  \<open>func (f foreman) setStatus(status string)\<close> and \<open>setRole\<close>: the updates they put on
  \<open>updateChan\<close>. Both have a value receiver, so the assignment \<open>f.status = status\<close> in
  \<open>setStatus\<close> changes a copy and the caller's foreman is as before.
\<close>

definition setStatus :: "foreman \<Rightarrow> string \<Rightarrow> update list" where
  "setStatus f st =
     (if fm_status f \<noteq> st then [\<lparr>ip = fm_ip f, role = db_None, status = st\<rparr>] else [])"

definition setRole :: "foreman \<Rightarrow> Role \<Rightarrow> update list" where
  "setRole f r = [\<lparr>ip = fm_ip f, role = r, status = ''''\<rparr>]"

text \<open>The loop of \<open>runOnce\<close> over the machines that are not Stopping: the foreman's own
  row (the last one with its public IP), whether it is missing, and the etcd members.\<close>

definition scanMachines :: "string \<Rightarrow> Machine list \<Rightarrow> Machine \<times> bool \<times> strings" where
  "scanMachines fip dbms =
     foldl (\<lambda>(dbm, missing, etcdIPs) m.
              (if PublicIP m = fip then m else dbm,
               if PublicIP m = fip then False else missing,
               if Role m = Master \<and> PrivateIP m \<noteq> ''''
               then append_string etcdIPs (PrivateIP m)
               else etcdIPs))
       (emptyMachine, True, nil) dbms"

text \<open>
  The part of \<open>runOnce\<close> after a client is at hand. \<open>reflect.DeepEqual\<close> on the two
  configurations is equality of the records: the fields are strings, a number and two
  slices, whose type keeps the nil slice apart from an empty one as \<open>DeepEqual\<close> does.
\<close>

definition talk ::
  "ForemanWorld \<Rightarrow> foreman \<Rightarrow> Machine \<Rightarrow> Blueprint \<Rightarrow> strings \<Rightarrow> update list \<Rightarrow> rpc list
     \<Rightarrow> RunOnce" where
  "talk w f dbm bp etcdIPs sent0 rpcs0 =
     (case getMinion w of
        Inl e \<Rightarrow>
          \<lparr>after = f\<lparr>fm_client := None\<rparr>, sent = sent0 @ setStatus f Connecting,
           rpcs = rpcs0 @ [GetMinionConfig], returned = None\<rparr>
      | Inr cfg \<Rightarrow>
          (let sent1 = sent0 @ setStatus f Connected;
               r = PBToRole w (cfg_Role cfg);
               sent2 = (if r \<noteq> db_None \<and> r \<noteq> Role dbm then sent1 @ setRole f r else sent1);
               newConfig = \<lparr>cfg_Role = 0, cfg_FloatingIP = FloatingIP dbm,
                 cfg_PrivateIP = PrivateIP dbm, cfg_Blueprint = StitchString w bp,
                 cfg_Provider = Provider dbm, cfg_Size = Size dbm, cfg_Region = Region dbm,
                 cfg_EtcdMembers = etcdIPs, cfg_AuthorizedKeys = SSHKeys dbm\<rparr>
           in if newConfig = cfg
              then \<lparr>after = f, sent = sent2, rpcs = rpcs0 @ [GetMinionConfig], returned = None\<rparr>
              else (case setMinion w newConfig of
                      Some e \<Rightarrow>
                        \<lparr>after = f\<lparr>fm_client := None\<rparr>, sent = sent2 @ setStatus f Connecting,
                         rpcs = rpcs0 @ [GetMinionConfig, SetMinionConfig newConfig],
                         returned = None\<rparr>
                    | None \<Rightarrow>
                        \<lparr>after = f, sent = sent2,
                         rpcs = rpcs0 @ [GetMinionConfig, SetMinionConfig newConfig],
                         returned = None\<rparr>)))"

text \<open>\<open>func (f *foreman) runOnce() error\<close>.\<close>

definition runOnce :: "ForemanWorld \<Rightarrow> Database \<Rightarrow> foreman \<Rightarrow> RunOnce" where
  "runOnce w view f =
     (let dbms = SelectFromMachine view (\<lambda>m. Status m \<noteq> Stopping);
          bp = (case GetBlueprint view of Inl e \<Rightarrow> emptyBlueprint | Inr b \<Rightarrow> b)
      in case scanMachines (fm_ip f) dbms of
           (dbm, missing, etcdIPs) \<Rightarrow>
             if missing
             then \<lparr>after = f, sent = [], rpcs = [], returned = Some ''missing machine''\<rparr>
             else (let f1 = f\<lparr>fm_status := Status dbm\<rparr>
                   in case fm_client f1 of
                        None \<Rightarrow>
                          (case newClient w (fm_ip f1) of
                             Inl e \<Rightarrow>
                               \<lparr>after = f1, sent = setStatus f1 Connecting,
                                rpcs = [Dial (fm_ip f1)], returned = None\<rparr>
                           | Inr c \<Rightarrow>
                               talk w (f1\<lparr>fm_client := Some c\<rparr>) dbm bp etcdIPs
                                 (setStatus f1 Connecting) [Dial (fm_ip f1)])
                      | Some c \<Rightarrow> talk w f1 dbm bp etcdIPs [] []))"

section \<open>Cloud reconciler (package cloud)\<close>

record ACL =
  CidrIP :: string
  MinPort :: int
  MaxPort :: int

text \<open>\<open>stitch.PublicInternetLabel\<close> (\<open>blueprint.PublicInternetLabel\<close> in cloud/join.go);
  the JavaScript bindings declare the same label as \<open>'public'\<close>.\<close>

definition PublicInternetLabel :: string where "PublicInternetLabel = ''public''"

text \<open>Modelled from the spec: the provider names \<open>db.Amazon\<close>, \<open>db.Google\<close>,
  \<open>db.DigitalOcean\<close> and \<open>db.Vagrant\<close> are declared outside the sources; section 4.3 of the
  spec names the four providers.\<close>

definition Amazon :: string where "Amazon = ''Amazon''"
definition Google :: string where "Google = ''Google''"
definition DigitalOcean :: string where "DigitalOcean = ''DigitalOcean''"
definition Vagrant :: string where "Vagrant = ''Vagrant''"

definition defaultDiskSize :: int where "defaultDiskSize = 32"

text \<open>The \<open>cloud\<close> struct; \<open>transact\<close> and \<open>desiredMachines\<close> read the provider name as
  \<open>cld.providerType\<close>.\<close>

record cloud =
  namespace :: string
  providerName :: string
  region :: string

datatype call =
  Boot "Machine list"
| Stop "Machine list"
| UpdateFloatingIPs "Machine list"
| SetACLs "ACL list"

text \<open>
  What the reconciler takes from outside its own file. Functions of the repository that
  are not among the sources (\<open>join.Join\<close>, \<open>db.ParseProvider\<close>, \<open>db.ParseRole\<close>,
  \<open>machine.ChooseSize\<close>, the providers' default regions, \<open>blueprintToACLs\<close>), the package
  variables \<open>adminKey\<close> and \<open>myIP\<close>, the variable \<open>empty\<close> that \<open>syncACLs\<close> reads without
  declaring it, and the provider's answer to \<open>List\<close>. \<open>Inl\<close> carries a Go error.
\<close>

record CloudWorld =
  Join :: "Machine list \<Rightarrow> Machine list \<Rightarrow> (Machine \<Rightarrow> Machine \<Rightarrow> int)
             \<Rightarrow> (Machine \<times> Machine) list \<times> Machine list \<times> Machine list"
  ParseProvider :: "string \<Rightarrow> error + string"
  ParseRole :: "string \<Rightarrow> error + Role"
  ChooseSize :: "string \<Rightarrow> real \<times> real \<Rightarrow> real \<times> real \<Rightarrow> real \<Rightarrow> string"
  amazon_DefaultRegion :: string
  digitalocean_DefaultRegion :: string
  google_DefaultRegion :: string
  adminKey :: string
  blueprintToACLs :: "Blueprint \<Rightarrow> ACL list"
  myIP :: "error + string"
  empty :: bool
  provider_List :: "error + Machine list"

subsection \<open>Scores\<close>

definition mFilter :: "cloud \<Rightarrow> Machine \<Rightarrow> bool" where
  "mFilter cld m = (providerName cld = Provider m \<and> region cld = Region m)"

definition phase1Score :: "Machine \<Rightarrow> Machine \<Rightarrow> int" where
  "phase1Score cm dbm =
     (if CloudID cm = CloudID dbm then 0
      else if CloudID dbm \<noteq> '''' then - 1
      else if Size cm \<noteq> Size dbm \<or> Preemptible cm \<noteq> Preemptible dbm \<or>
              (DiskSize cm \<noteq> 0 \<and> DiskSize cm \<noteq> DiskSize dbm) then - 1
      else 1)"

definition phase2Score :: "Machine \<Rightarrow> Machine \<Rightarrow> int" where
  "phase2Score dbm sm =
     (if Size sm \<noteq> Size dbm \<or> Preemptible sm \<noteq> Preemptible dbm \<or>
         (DiskSize dbm \<noteq> 0 \<and> DiskSize sm \<noteq> DiskSize dbm) \<or>
         (Role dbm \<noteq> db_None \<and> Role sm \<noteq> Role dbm) then - 1
      else
        (let score = 7;
             score = (if Role dbm \<noteq> db_None \<and> Role dbm = Role sm then score - 4 else score);
             score = (if DesiredRole dbm \<noteq> db_None \<and> DesiredRole dbm = Role sm
                      then score - 2 else score);
             score = (if FloatingIP dbm = FloatingIP sm then score - 1 else score)
         in score))"

subsection \<open>The desired machines\<close>

text \<open>\<open>defaultRegion\<close> panics on a provider it does not know: \<open>Inl\<close> is the panic.\<close>

definition defaultRegion :: "CloudWorld \<Rightarrow> string \<Rightarrow> string \<Rightarrow> error + string" where
  "defaultRegion w provider reg =
     (if reg \<noteq> '''' then Inr reg
      else if provider = Amazon then Inr (amazon_DefaultRegion w)
      else if provider = DigitalOcean then Inr (digitalocean_DefaultRegion w)
      else if provider = Google then Inr (google_DefaultRegion w)
      else if provider = Vagrant then Inr ''''
      else Inl (''Unknown Cloud Provider: '' @ provider))"

text \<open>The body of the loop of \<open>desiredMachines\<close> for one blueprint machine: a panic, a
  skipped machine (\<open>continue\<close>) or the machine appended to \<open>dbms\<close>.\<close>

definition desiredMachine ::
  "CloudWorld \<Rightarrow> cloud \<Rightarrow> real \<Rightarrow> StitchMachine \<Rightarrow> error + Machine option" where
  "desiredMachine w cld maxPrice sm =
     (case ParseProvider w (sm_Provider sm) of
        Inl e \<Rightarrow> Inr None
      | Inr provider \<Rightarrow>
          if provider \<noteq> providerName cld then Inr None
          else
            (case defaultRegion w provider (sm_Region sm) of
               Inl p \<Rightarrow> Inl p
             | Inr reg \<Rightarrow>
                 if reg \<noteq> region cld then Inr None
                 else
                   (case ParseRole w (sm_Role sm) of
                      Inl e \<Rightarrow> Inr None
                    | Inr rl \<Rightarrow>
                        (let dbm = emptyMachine\<lparr>Region := reg, FloatingIP := sm_FloatingIP sm,
                               Role := rl, Provider := provider,
                               Preemptible := sm_Preemptible sm, Size := sm_Size sm,
                               DiskSize := sm_DiskSize sm, SSHKeys := sm_SSHKeys sm\<rparr>;
                             dbm = (if Size dbm = ''''
                                    then dbm\<lparr>Size := ChooseSize w provider (sm_RAM sm)
                                                       (sm_CPU sm) maxPrice\<rparr>
                                    else dbm)
                         in if Size dbm = '''' then Inr None
                            else
                              (let dbm = (if DiskSize dbm = 0
                                          then dbm\<lparr>DiskSize := defaultDiskSize\<rparr> else dbm);
                                   dbm = (if adminKey w \<noteq> ''''
                                          then dbm\<lparr>SSHKeys := append_string (SSHKeys dbm)
                                                                    (adminKey w)\<rparr>
                                          else dbm)
                               in Inr (Some dbm))))))"

fun desiredMachinesLoop ::
  "CloudWorld \<Rightarrow> cloud \<Rightarrow> real \<Rightarrow> Machine list \<Rightarrow> StitchMachine list \<Rightarrow> error + Machine list"
  where
  "desiredMachinesLoop w cld maxPrice dbms [] = Inr dbms"
| "desiredMachinesLoop w cld maxPrice dbms (sm # sms) =
     (case desiredMachine w cld maxPrice sm of
        Inl p \<Rightarrow> Inl p
      | Inr None \<Rightarrow> desiredMachinesLoop w cld maxPrice dbms sms
      | Inr (Some dbm) \<Rightarrow> desiredMachinesLoop w cld maxPrice (dbms @ [dbm]) sms)"

definition desiredMachines :: "CloudWorld \<Rightarrow> cloud \<Rightarrow> Blueprint \<Rightarrow> error + Machine list" where
  "desiredMachines w cld stitch = desiredMachinesLoop w cld (MaxPrice stitch) [] (Machines stitch)"

subsection \<open>The transaction\<close>

text \<open>The garbage collection at the head of \<open>txnFunc\<close>.\<close>

definition gcStale :: "cloud \<Rightarrow> Database \<Rightarrow> Database" where
  "gcStale cld view =
     foldl (\<lambda>v dbm.
              if (Status dbm = Booting \<or> Status dbm = Stopping) \<and>
                 After (StatusTime dbm) (Add (StatusTime dbm) (5 * Minute))
              then Remove v dbm else v)
       view (SelectFromMachine view (mFilter cld))"

text \<open>Phase 1: the three loops that follow the join of the cloud's machines with the
  database's.\<close>

definition phase1Remove :: "Database \<Rightarrow> Machine list \<Rightarrow> Database" where
  "phase1Remove view dbmis =
     foldl (\<lambda>v dbm. if Status dbm \<noteq> Booting then Remove v dbm else v) view dbmis"

definition phase1Insert ::
  "(Machine \<times> Machine) list \<times> Database \<Rightarrow> Machine list \<Rightarrow> (Machine \<times> Machine) list \<times> Database"
  where
  "phase1Insert start cmis =
     foldl (\<lambda>(pairs, v) cmi. case InsertMachine v of (r, v') \<Rightarrow> (pairs @ [(cmi, r)], v'))
       start cmis"

definition copyCloud :: "Machine \<Rightarrow> Machine \<Rightarrow> Machine" where
  "copyCloud cm dbm =
     (let dbm = dbm\<lparr>CloudID := CloudID cm, PublicIP := PublicIP cm, PrivateIP := PrivateIP cm,
                     Provider := Provider cm, Region := Region cm, Size := Size cm,
                     FloatingIP := FloatingIP cm, Preemptible := Preemptible cm\<rparr>
      in if DiskSize cm \<noteq> DiskSize dbm then dbm\<lparr>DiskSize := DiskSize cm\<rparr> else dbm)"

definition phase1Commit :: "Database \<Rightarrow> (Machine \<times> Machine) list \<Rightarrow> Database" where
  "phase1Commit view pairs = foldl (\<lambda>v (cm, dbm). Commit v (copyCloud cm dbm)) view pairs"

definition phase1 :: "CloudWorld \<Rightarrow> cloud \<Rightarrow> Machine list \<Rightarrow> Database \<Rightarrow> Database" where
  "phase1 w cld cloudMachines view =
     (case Join w cloudMachines (SelectFromMachine view (mFilter cld)) phase1Score of
        (pairs, cmis, dbmis) \<Rightarrow>
          (case phase1Insert (pairs, phase1Remove view dbmis) cmis of
             (pairs', v) \<Rightarrow> phase1Commit v pairs'))"

text \<open>Phase 2: the loops over the unmatched database rows (stops), the unmatched desired
  machines (boots) and the pairs, each as the fold of its body.\<close>

fun stopStep :: "Time \<Rightarrow> Database \<times> Machine list \<Rightarrow> Machine \<Rightarrow> Database \<times> Machine list"
  where
  "stopStep now (v, stop) dbm =
     (if CloudID dbm = '''' then (Remove v dbm, stop)
      else if Status dbm = Stopping then (v, stop)
      else (Commit v (SetStatus now Stopping dbm), stop @ [dbm]))"

definition phase2Stop :: "Time \<Rightarrow> Database \<times> Machine list \<Rightarrow> Machine list \<Rightarrow> Database \<times> Machine list"
  where
  "phase2Stop now start dbmis = foldl (stopStep now) start dbmis"

definition bootRow :: "Time \<Rightarrow> Machine \<Rightarrow> Machine \<Rightarrow> Machine" where
  "bootRow now dbm sm =
     (SetStatus now Booting dbm)\<lparr>Provider := Provider sm, Region := Region sm, Size := Size sm,
        DiskSize := DiskSize sm, Preemptible := Preemptible sm, DesiredRole := Role sm,
        SSHKeys := SSHKeys sm\<rparr>"

fun bootStep ::
  "Time \<Rightarrow> Database \<times> (Machine \<times> Machine) list \<times> Machine list \<Rightarrow> Machine
     \<Rightarrow> Database \<times> (Machine \<times> Machine) list \<times> Machine list" where
  "bootStep now (v, pairs, boot) sm =
     (case InsertMachine v of
        (r, v') \<Rightarrow>
          (let dbm = bootRow now r sm
           in (Commit v' dbm, pairs @ [(dbm, sm)], boot @ [dbm])))"

definition phase2Boot ::
  "Time \<Rightarrow> Database \<times> (Machine \<times> Machine) list \<times> Machine list \<Rightarrow> Machine list
     \<Rightarrow> Database \<times> (Machine \<times> Machine) list \<times> Machine list" where
  "phase2Boot now start smis = foldl (bootStep now) start smis"

fun updateStep :: "Database \<times> Machine list \<Rightarrow> Machine \<times> Machine \<Rightarrow> Database \<times> Machine list"
  where
  "updateStep (v, updateIP) (dbm, sm) =
     (let drift = (CloudID dbm \<noteq> '''' \<and> FloatingIP dbm \<noteq> FloatingIP sm);
          dbm = (if drift then dbm\<lparr>FloatingIP := FloatingIP sm\<rparr> else dbm);
          updateIP = (if drift then updateIP @ [dbm] else updateIP);
          dbm = dbm\<lparr>DesiredRole := Role sm, SSHKeys := SSHKeys sm\<rparr>
      in (Commit v dbm, updateIP))"

definition phase2Update ::
  "Database \<times> Machine list \<Rightarrow> (Machine \<times> Machine) list \<Rightarrow> Database \<times> Machine list" where
  "phase2Update start pairs = foldl updateStep start pairs"

record Phase2 =
  view2 :: Database
  boot2 :: "Machine list"
  stop2 :: "Machine list"
  updateIP2 :: "Machine list"

definition phase2 :: "CloudWorld \<Rightarrow> cloud \<Rightarrow> Time \<Rightarrow> Blueprint \<Rightarrow> Database \<Rightarrow> error + Phase2" where
  "phase2 w cld now stitch view =
     (case desiredMachines w cld stitch of
        Inl p \<Rightarrow> Inl p
      | Inr desired \<Rightarrow>
          (case Join w (SelectFromMachine view (mFilter cld)) desired phase2Score of
             (pairs, dbmis, smis) \<Rightarrow>
               (case phase2Stop now (view, []) dbmis of
                  (v1, stop) \<Rightarrow>
                    (case phase2Boot now (v1, pairs, []) smis of
                       (v2, pairs', boot) \<Rightarrow>
                         (case phase2Update (v2, []) pairs' of
                            (v3, updateIP) \<Rightarrow>
                              Inr \<lparr>view2 = v3, boot2 = boot, stop2 = stop,
                                   updateIP2 = updateIP\<rparr>)))))"

text \<open>
  \<open>func (cld cloud) transact(cloudMachines []db.Machine)\<close>: the view after the
  transaction and the named results. \<open>txnFunc\<close> returns before any write when there is
  no blueprint or the namespace has changed, and \<open>transact\<close> drops the error of \<open>Run\<close>:
  the results are then all nil and \<open>err\<close> is nil. \<open>Inl\<close> is the panic of \<open>defaultRegion\<close>.
  The loop over \<open>cld.blueprintToACLs(bp)\<close> is read with the transaction's blueprint.
\<close>

record Plan =
  acls :: "ACL list"
  machines :: "Machine list"
  boot :: "Machine list"
  stop :: "Machine list"
  updateIP :: "Machine list"

definition noPlan :: Plan where
  "noPlan = \<lparr>acls = [], machines = [], boot = [], stop = [], updateIP = []\<rparr>"

definition transact ::
  "CloudWorld \<Rightarrow> cloud \<Rightarrow> Time \<Rightarrow> Machine list \<Rightarrow> Database \<Rightarrow> error + Database \<times> Plan" where
  "transact w cld now cloudMachines view =
     (case GetBlueprint view of
        Inl e \<Rightarrow> Inr (view, noPlan)
      | Inr dbcld \<Rightarrow>
          if Namespace dbcld \<noteq> namespace cld then Inr (view, noPlan)
          else
            (case phase2 w cld now dbcld (phase1 w cld cloudMachines (gcStale cld view)) of
               Inl p \<Rightarrow> Inl p
             | Inr r \<Rightarrow>
                 Inr (view2 r,
                      \<lparr>acls = blueprintToACLs w dbcld,
                       machines = SelectFromMachine (view2 r) (\<lambda>m. True),
                       boot = boot2 r, stop = stop2 r, updateIP = updateIP2 r\<rparr>)))"

subsection \<open>ACLs\<close>

text \<open>
  \<open>getACLs\<close> builds a Go map used as a set. The model lists the set without repetition,
  in the order of first insertion; Go leaves the order of iteration open and nothing
  below depends on it. \<open>getACLs\<close> is the method of cloud/join.go, \<open>getACLsMachines\<close> the
  one of the reconciler's file, which also admits every machine's public IP.
\<close>

definition adminACLs :: "Blueprint \<Rightarrow> ACL list" where
  "adminACLs bp =
     map (\<lambda>cidr. \<lparr>CidrIP = cidr, MinPort = 1, MaxPort = 65535\<rparr>) (AdminACL bp @ [''local''])"

definition publicACLs :: "Blueprint \<Rightarrow> ACL list" where
  "publicACLs bp =
     map (\<lambda>conn. \<lparr>CidrIP = ''0.0.0.0/0'', MinPort = conn_MinPort conn,
                   MaxPort = conn_MaxPort conn\<rparr>)
       (filter (\<lambda>conn. From conn = PublicInternetLabel) (Connections bp))"

definition machineACLs :: "Machine list \<Rightarrow> ACL list" where
  "machineACLs ms =
     map (\<lambda>m. \<lparr>CidrIP = PublicIP m @ ''/32'', MinPort = 1, MaxPort = 65535\<rparr>)
       (filter (\<lambda>m. PublicIP m \<noteq> '''') ms)"

definition getACLs :: "Blueprint \<Rightarrow> ACL list" where
  "getACLs bp = remdups (adminACLs bp @ publicACLs bp)"

definition getACLsMachines :: "Blueprint \<Rightarrow> Machine list \<Rightarrow> ACL list" where
  "getACLsMachines bp ms = remdups (adminACLs bp @ machineACLs ms @ publicACLs bp)"

text \<open>\<open>syncACLs\<close>: the loop that resolves \<open>local\<close> (it gives up on the first failure of
  \<open>myIP\<close>), then the calls to \<open>SetACLs\<close>.\<close>

fun resolveACLs :: "error + string \<Rightarrow> ACL list \<Rightarrow> ACL list \<Rightarrow> error + ACL list" where
  "resolveACLs ipAnswer out [] = Inr out"
| "resolveACLs ipAnswer out (a # unresolved) =
     (if CidrIP a = ''local''
      then (case ipAnswer of
              Inl e \<Rightarrow> Inl e
            | Inr addr \<Rightarrow> resolveACLs ipAnswer (out @ [a\<lparr>CidrIP := addr @ ''/32''\<rparr>]) unresolved)
      else resolveACLs ipAnswer (out @ [a]) unresolved)"

definition syncACLs :: "CloudWorld \<Rightarrow> ACL list \<Rightarrow> call list" where
  "syncACLs w unresolvedACLs =
     (case resolveACLs (myIP w) [] unresolvedACLs of
        Inl e \<Rightarrow> []
      | Inr resolved \<Rightarrow> [SetACLs resolved, SetACLs (if empty w then [] else resolved)])"

subsection \<open>One iteration of the reconciler\<close>

text \<open>\<open>get\<close>, the method that lists the provider's machines and stamps them with the
  loop's provider and region; \<open>runOnce\<close> calls it under the name \<open>list\<close>.\<close>

definition get :: "CloudWorld \<Rightarrow> cloud \<Rightarrow> error + Machine list" where
  "get w cld =
     (case provider_List w of
        Inl e \<Rightarrow> Inl e
      | Inr ms \<Rightarrow> Inr (map (\<lambda>m. m\<lparr>Provider := providerName cld, Region := region cld\<rparr>) ms))"

text \<open>The part of \<open>runOnce\<close> after the transaction: the provider calls it makes, in
  order, and the value it returns.\<close>

definition apply_plan :: "CloudWorld \<Rightarrow> Plan \<Rightarrow> call list \<times> bool" where
  "apply_plan w p =
     (let calls = (if length (boot p) > 0 then [Boot (boot p)] else []) @
                  (if length (stop p) > 0 then [Stop (stop p)] else []) @
                  (if length (updateIP p) > 0 then [UpdateFloatingIPs (updateIP p)] else [])
      in if length (boot p) = 0 \<and> length (stop p) = 0 \<and> length (updateIP p) = 0
         then (calls @ syncACLs w (acls p), False)
         else (calls, True))"

record Iteration =
  viewAfter :: Database
  calls :: "call list"
  expedite :: bool

text \<open>\<open>func (cld cloud) runOnce() bool\<close>; \<open>Inl\<close> is the panic of \<open>defaultRegion\<close>.\<close>

definition cloud_runOnce :: "CloudWorld \<Rightarrow> cloud \<Rightarrow> Time \<Rightarrow> Database \<Rightarrow> error + Iteration" where
  "cloud_runOnce w cld now view =
     (case get w cld of
        Inl e \<Rightarrow> Inr \<lparr>viewAfter = view, calls = [], expedite = False\<rparr>
      | Inr cloudMachines \<Rightarrow>
          (case transact w cld now cloudMachines view of
             Inl p \<Rightarrow> Inl p
           | Inr (view', plan) \<Rightarrow>
               (case apply_plan w plan of
                  (cs, again) \<Rightarrow> Inr \<lparr>viewAfter = view', calls = cs, expedite = again\<rparr>)))"

text \<open>The rows that \<open>n\<close> successive calls of \<open>InsertMachine\<close> create when the next key is
  \<open>a\<close>.\<close>

definition freshRows :: "int \<Rightarrow> nat \<Rightarrow> Machine list" where
  "freshRows a n = map (\<lambda>i. emptyMachine\<lparr>ID := a + int i\<rparr>) [0..<n]"

subsection \<open>A join engine\<close>

text \<open>
  Modelled from the spec: \<open>join.Join\<close> is not among the sources. Section 4.2 of the spec
  asks for a pairing in which every pair has a score of at least 0 and lets a greedy
  implementation satisfy it. \<open>greedyJoin\<close> takes the left elements in order and gives each
  the remaining right element of least non-negative score (the first among equals). The
  general theorems below hold for every join; \<open>greedyJoin\<close> only instantiates them.
\<close>

fun best :: "('b \<Rightarrow> int) \<Rightarrow> 'b list \<Rightarrow> 'b option" where
  "best sc [] = None"
| "best sc (r # rs) =
     (if sc r < 0 then best sc rs
      else (case best sc rs of
              None \<Rightarrow> Some r
            | Some r' \<Rightarrow> if sc r' < sc r then Some r' else Some r))"

fun greedyJoin ::
  "'a list \<Rightarrow> 'b list \<Rightarrow> ('a \<Rightarrow> 'b \<Rightarrow> int) \<Rightarrow> ('a \<times> 'b) list \<times> 'a list \<times> 'b list" where
  "greedyJoin [] rs score = ([], [], rs)"
| "greedyJoin (l # ls) rs score =
     (case best (score l) rs of
        None \<Rightarrow> (case greedyJoin ls rs score of (pairs, ul, ur) \<Rightarrow> (pairs, l # ul, ur))
      | Some r \<Rightarrow>
          (case greedyJoin ls (remove1 r rs) score of
             (pairs, ul, ur) \<Rightarrow> ((l, r) # pairs, ul, ur)))"

text \<open>
  The same engine for a score that may panic, as \<open>machineScore\<close> of cloud/join.go does:
  a panic of the score on any pair of a left and a right element is the panic of the
  join, and without one the pairing is the greedy one.
\<close>

definition scoredJoin ::
  "'a list \<Rightarrow> 'b list \<Rightarrow> ('a \<Rightarrow> 'b \<Rightarrow> error + int) \<Rightarrow> error + ('a \<times> 'b) list \<times> 'a list \<times> 'b list"
  where
  "scoredJoin ls rs score =
     (case find isl (concat (map (\<lambda>l. map (score l) rs) ls)) of
        Some (Inl p) \<Rightarrow> Inl p
      | _ \<Rightarrow> Inr (greedyJoin ls rs (\<lambda>l r. projr (score l r))))"

section \<open>Worker scheduler (package scheduler)\<close>

text \<open>
  The rows joined by \<open>syncWorker\<close>: \<open>db.Container\<close> and \<open>docker.Container\<close>, with the
  fields minion/scheduler/worker.go reads and writes (neither struct is declared in the
  sources). Go maps are \<open>mapping\<close>s; reading a missing key of a \<open>map[string]string\<close>
  gives the empty string.
\<close>

record dbContainer =
  dbc_IP :: string
  dbc_Minion :: string
  dbc_Hostname :: string
  dbc_Image :: string
  dbc_ImageID :: string
  dbc_Command :: "string list"
  dbc_Env :: "(string, string) mapping"
  dbc_FilepathToContent :: "(string, string) mapping"
  dbc_DockerID :: string
  dbc_EndpointID :: string
  dbc_Status :: string
  dbc_Created :: Time

record dkContainer =
  dkc_ID :: string
  dkc_EID :: string
  dkc_Image :: string
  dkc_ImageID :: string
  dkc_IP :: string
  dkc_Path :: string
  dkc_Args :: "string list"
  dkc_Env :: "(string, string) mapping"
  dkc_Labels :: "(string, string) mapping"
  dkc_Status :: string
  dkc_Created :: Time

definition filesKey :: string where "filesKey = ''files''"

text \<open>Indexing a Go \<open>map[string]string\<close>.\<close>

definition index :: "(string, string) mapping \<Rightarrow> string \<Rightarrow> string" where
  "index m k = (case Mapping.lookup m k of None \<Rightarrow> '''' | Some v \<Rightarrow> v)"

text \<open>
  \<open>filesHash\<close> renders the SHA-1 sum of \<open>util.MapAsString(filepathToContent)\<close> in
  hexadecimal. The standard library's \<open>sha1.Sum\<close> (with the \<open>%x\<close> formatting) and the
  repository's \<open>util.MapAsString\<close>, which is not among the sources, are parameters.
\<close>

record Hashing =
  sha1_hex :: "string \<Rightarrow> string"
  MapAsString :: "(string, string) mapping \<Rightarrow> string"

definition filesHash :: "Hashing \<Rightarrow> (string, string) mapping \<Rightarrow> string" where
  "filesHash h filepathToContent = sha1_hex h (MapAsString h filepathToContent)"

text \<open>Modelled from the spec: \<open>util.StrSliceEqual\<close> is not among the sources; the spec
  reads it as equality of the two commands (\<open>cmd == dkc.Args\<close>).\<close>

definition StrSliceEqual :: "string list \<Rightarrow> string list \<Rightarrow> bool" where
  "StrSliceEqual x y = (x = y)"

text \<open>\<open>func syncJoinScore(left, right interface{}) int\<close>. The loop over \<open>dbc.Env\<close>
  returns \<open>-1\<close> at the first entry that the Docker container's environment does not
  repeat; the order in which Go visits the entries does not change the outcome.\<close>

definition syncJoinScore :: "Hashing \<Rightarrow> dbContainer \<Rightarrow> dkContainer \<Rightarrow> int" where
  "syncJoinScore h dbc dkc =
     (if dbc_IP dbc \<noteq> dkc_IP dkc \<or>
         filesHash h (dbc_FilepathToContent dbc) \<noteq> index (dkc_Labels dkc) filesKey
      then - 1
      else
        (let compareIDs = (dbc_ImageID dbc \<noteq> '''');
             namesMatch = (dkc_Image dkc = dbc_Image dbc);
             idsMatch = (dkc_ImageID dkc = dbc_ImageID dbc)
         in if (compareIDs \<and> \<not> idsMatch) \<or> (\<not> compareIDs \<and> \<not> namesMatch) then - 1
            else if \<exists>key \<in> Mapping.keys (dbc_Env dbc).
                      index (dkc_Env dkc) key \<noteq> the (Mapping.lookup (dbc_Env dbc) key)
            then - 1
            else
              (let cmd1 = dkc_Args dkc;
                   cmd2 = [dkc_Path dkc] @ dkc_Args dkc
               in if length (dbc_Command dbc) \<noteq> 0 \<and>
                     \<not> StrSliceEqual (dbc_Command dbc) cmd1 \<and>
                     \<not> StrSliceEqual (dbc_Command dbc) cmd2
                  then - 1
                  else 0)))"

section \<open>Cloud reconciler, the form of cloud/join.go\<close>

text \<open>
  cloud/join.go holds the same two joins as methods of their own, \<open>updateDBMachines\<close>
  (cloud against database) and \<open>planUpdates\<close> (blueprint against database), with one
  score \<open>machineScore\<close> for both. \<open>machineScore\<close> panics when the two machines differ in
  provider or region, so here the score given to the join may fail and the join hands
  the failure on (\<open>Inl\<close>). Beside the parameters shared with the transaction above, this
  file takes \<open>foreman.IsConnected\<close>, \<open>getMachineRole\<close> and a \<open>machine.ChooseSize\<close> of three
  arguments from outside.
\<close>

record JoinWorld =
  shared :: CloudWorld
  JoinScore :: "Machine list \<Rightarrow> Machine list \<Rightarrow> (Machine \<Rightarrow> Machine \<Rightarrow> error + int)
             \<Rightarrow> error + (Machine \<times> Machine) list \<times> Machine list \<times> Machine list"
  ChooseSize3 :: "string \<Rightarrow> real \<times> real \<Rightarrow> real \<times> real \<Rightarrow> string"
  isConnected :: "string \<Rightarrow> bool"
  getMachineRole :: "string \<Rightarrow> Role"

definition machineScore :: "Machine \<Rightarrow> Machine \<Rightarrow> error + int" where
  "machineScore l r =
     (if Provider l \<noteq> Provider r \<or> Region l \<noteq> Region r
      then Inl ''Invalid Provider or Region''
      else if Preemptible l \<noteq> Preemptible r then Inr (- 1)
      else if Size l \<noteq> Size r then Inr (- 1)
      else if DiskSize l \<noteq> 0 \<and> DiskSize r \<noteq> 0 \<and> DiskSize l \<noteq> DiskSize r then Inr (- 1)
      else if Role l \<noteq> db_None \<and> Role r \<noteq> db_None \<and> Role l \<noteq> Role r then Inr (- 1)
      else if CloudID l \<noteq> '''' \<and> CloudID r \<noteq> '''' \<and> CloudID l = CloudID r then Inr 0
      else if FloatingIP l \<noteq> '''' \<and> FloatingIP r \<noteq> '''' \<and> FloatingIP l = FloatingIP r
      then Inr 1
      else if Role l \<noteq> db_None \<and> Role r \<noteq> db_None then Inr 2
      else Inr 3)"

definition selectMachines :: "cloud \<Rightarrow> Database \<Rightarrow> Machine list" where
  "selectMachines cld view =
     SelectFromMachine view (\<lambda>dbm. Provider dbm = providerName cld \<and> Region dbm = region cld)"

text \<open>\<open>updateDBMachines\<close>: rows are inserted for the unmatched cloud machines, the
  unmatched rows are removed, then every pair is committed as the cloud machine with the
  row's \<open>ID\<close>, \<open>Status\<close> and \<open>SSHKeys\<close>.\<close>

definition insertFor ::
  "(Machine \<times> Machine) list \<times> Database \<Rightarrow> Machine list \<Rightarrow> (Machine \<times> Machine) list \<times> Database"
  where
  "insertFor start cmis =
     foldl (\<lambda>(pairs, v) cmi. case InsertMachine v of (r, v') \<Rightarrow> (pairs @ [(r, cmi)], v'))
       start cmis"

definition removeAll :: "Database \<Rightarrow> Machine list \<Rightarrow> Database" where
  "removeAll view dbmis = foldl Remove view dbmis"

definition adopt :: "Machine \<Rightarrow> Machine \<Rightarrow> Machine" where
  "adopt dbm cm = cm\<lparr>ID := ID dbm, Status := Status dbm, SSHKeys := SSHKeys dbm\<rparr>"

definition commitPairs :: "Database \<Rightarrow> (Machine \<times> Machine) list \<Rightarrow> Database" where
  "commitPairs view pairs = foldl (\<lambda>v (dbm, cm). Commit v (adopt dbm cm)) view pairs"

definition updateDBMachines :: "JoinWorld \<Rightarrow> cloud \<Rightarrow> Database \<Rightarrow> Machine list \<Rightarrow> error + Database"
  where
  "updateDBMachines w cld view cloudMachines =
     (case JoinScore w (selectMachines cld view) cloudMachines machineScore of
        Inl p \<Rightarrow> Inl p
      | Inr (pairs, dbmis, cmis) \<Rightarrow>
          (case insertFor (pairs, view) cmis of
             (pairs', v) \<Rightarrow> Inr (commitPairs (removeAll v dbmis) pairs')))"

text \<open>The desired machines of cloud/join.go: \<open>defaultRegion\<close> is asked first, for every
  machine of the blueprint.\<close>

definition join_desiredMachine :: "JoinWorld \<Rightarrow> cloud \<Rightarrow> StitchMachine \<Rightarrow> error + Machine option"
  where
  "join_desiredMachine w cld bpm =
     (case defaultRegion (shared w) (sm_Provider bpm) (sm_Region bpm) of
        Inl p \<Rightarrow> Inl p
      | Inr reg \<Rightarrow>
          if sm_Provider bpm \<noteq> providerName cld \<or> reg \<noteq> region cld then Inr None
          else
            (case ParseRole (shared w) (sm_Role bpm) of
               Inl e \<Rightarrow> Inr None
             | Inr rl \<Rightarrow>
                 (let dbm = emptyMachine\<lparr>Region := reg, FloatingIP := sm_FloatingIP bpm,
                        Role := rl, Provider := sm_Provider bpm,
                        Preemptible := sm_Preemptible bpm, Size := sm_Size bpm,
                        DiskSize := sm_DiskSize bpm, SSHKeys := sm_SSHKeys bpm\<rparr>;
                      dbm = (if Size dbm = ''''
                             then dbm\<lparr>Size := ChooseSize3 w (Provider dbm) (sm_RAM bpm)
                                                (sm_CPU bpm)\<rparr>
                             else dbm)
                  in if Size dbm = '''' then Inr None
                     else
                       (let dbm = (if DiskSize dbm = 0
                                   then dbm\<lparr>DiskSize := defaultDiskSize\<rparr> else dbm);
                            dbm = (if adminKey (shared w) \<noteq> ''''
                                   then dbm\<lparr>SSHKeys := append_string (SSHKeys dbm)
                                                             (adminKey (shared w))\<rparr>
                                   else dbm)
                        in Inr (Some dbm)))))"

fun join_desiredMachines ::
  "JoinWorld \<Rightarrow> cloud \<Rightarrow> Machine list \<Rightarrow> StitchMachine list \<Rightarrow> error + Machine list" where
  "join_desiredMachines w cld dbms [] = Inr dbms"
| "join_desiredMachines w cld dbms (bpm # bpms) =
     (case join_desiredMachine w cld bpm of
        Inl p \<Rightarrow> Inl p
      | Inr None \<Rightarrow> join_desiredMachines w cld dbms bpms
      | Inr (Some dbm) \<Rightarrow> join_desiredMachines w cld (dbms @ [dbm]) bpms)"

definition connectionStatus :: "JoinWorld \<Rightarrow> Machine \<Rightarrow> string" where
  "connectionStatus w m =
     (if PublicIP m \<noteq> '''' \<and> isConnected w (PublicIP m) then Connected
      else if Status m = Connected \<or> Status m = Reconnecting then Reconnecting
      else if PublicIP m \<noteq> '''' then Connecting
      else '''')"

text \<open>\<open>planUpdates\<close>: its three loops, over the pairs, over the unmatched rows and over
  the unmatched blueprint machines.\<close>

fun statusStep :: "JoinWorld \<Rightarrow> Database \<times> Machine list \<Rightarrow> Machine \<times> Machine \<Rightarrow> Database \<times> Machine list"
  where
  "statusStep w (v, updateIPs) (bpm, dbm) =
     (let st = connectionStatus w dbm;
          dbm = (if st \<noteq> '''' then dbm\<lparr>Status := st\<rparr> else dbm);
          v = (if st \<noteq> '''' then Commit v dbm else v)
      in if FloatingIP bpm \<noteq> FloatingIP dbm
         then (v, updateIPs @ [dbm\<lparr>FloatingIP := FloatingIP bpm\<rparr>])
         else (v, updateIPs))"

fun stopAllStep :: "Database \<times> Machine list \<Rightarrow> Machine \<Rightarrow> Database \<times> Machine list" where
  "stopAllStep (v, stops) dbm =
     (Commit v (dbm\<lparr>Status := Stopping\<rparr>), stops @ [dbm\<lparr>Status := Stopping\<rparr>])"

fun bootAllStep :: "Database \<times> Machine list \<Rightarrow> Machine \<Rightarrow> Database \<times> Machine list" where
  "bootAllStep (v, boots) bpm =
     (case InsertMachine v of
        (dbm, v') \<Rightarrow>
          (let bpm = bpm\<lparr>ID := ID dbm, Status := Booting\<rparr>
           in (Commit v' bpm, boots @ [bpm])))"

record Updates =
  viewU :: Database
  bootU :: "Machine list"
  stopU :: "Machine list"
  updateIPsU :: "Machine list"

definition planUpdates :: "JoinWorld \<Rightarrow> cloud \<Rightarrow> Database \<Rightarrow> error + Updates" where
  "planUpdates w cld view =
     (let bp = (case GetBlueprint view of Inl e \<Rightarrow> emptyBlueprint | Inr b \<Rightarrow> b)
      in case join_desiredMachines w cld [] (Machines bp) of
           Inl p \<Rightarrow> Inl p
         | Inr bpms \<Rightarrow>
             (case JoinScore w bpms (selectMachines cld view) machineScore of
                Inl p \<Rightarrow> Inl p
              | Inr (pairs, bpmis, dbmis) \<Rightarrow>
                  (case foldl (statusStep w) (view, []) pairs of
                     (v1, updateIPs) \<Rightarrow>
                       (case foldl stopAllStep (v1, []) dbmis of
                          (v2, stops) \<Rightarrow>
                            (case foldl bootAllStep (v2, []) bpmis of
                               (v3, boots) \<Rightarrow>
                                 Inr \<lparr>viewU = v3, bootU = boots, stopU = stops,
                                      updateIPsU = updateIPs\<rparr>)))))"

text \<open>\<open>joinImpl\<close>: \<open>Inl\<close> of the outer sum is a panic, \<open>Inl\<close> of the inner one the error
  returned (from \<open>List\<close>, from \<open>GetBlueprint\<close> or for a changed namespace), with the view
  as it was.\<close>

record joinResult =
  jr_acls :: "ACL list"
  jr_boot :: "Machine list"
  jr_terminate :: "Machine list"
  jr_updateIPs :: "Machine list"

definition joinImpl ::
  "JoinWorld \<Rightarrow> cloud \<Rightarrow> Database \<Rightarrow> error + (Database \<times> (error + joinResult))" where
  "joinImpl w cld view =
     (case provider_List (shared w) of
        Inl e \<Rightarrow> Inr (view, Inl e)
      | Inr listed \<Rightarrow>
          (let ms = map (\<lambda>m. m\<lparr>Role := getMachineRole w (PublicIP m)\<rparr>) listed
           in case GetBlueprint view of
                Inl e \<Rightarrow> Inr (view, Inl e)
              | Inr bp \<Rightarrow>
                  if namespace cld \<noteq> Namespace bp
                  then Inr (view, Inl ''namespace change during a cloud run'')
                  else
                    (case updateDBMachines w cld view ms of
                       Inl p \<Rightarrow> Inl p
                     | Inr v1 \<Rightarrow>
                         (case planUpdates w cld v1 of
                            Inl p \<Rightarrow> Inl p
                          | Inr u \<Rightarrow>
                              Inr (viewU u,
                                   Inr \<lparr>jr_acls = (if length ms > 0 then getACLs bp else []),
                                        jr_boot = bootU u, jr_terminate = stopU u,
                                        jr_updateIPs = updateIPsU u\<rparr>)))))"

section \<open>Blueprint bindings: content-hash ids\<close>

text \<open>
  The JavaScript bindings give every Machine and Container an \<open>id\<close> in \<open>setQuiltIDs\<close>.
  JavaScript values that reach \<open>stringify\<close> are modelled as a datatype; an object is the
  list of its own properties in insertion order.
\<close>

datatype json =
  JString string
| JNumber real
| JBool bool
| JArray "json list"
| JObject "(string \<times> json) list"

text \<open>
  \<open>omitSSHKey\<close> is the replacer handed to \<open>stringify\<close>: it answers \<open>undefined\<close> for the
  key \<open>sshKeys\<close> and the value otherwise. json-stable-stringify asks the replacer for
  every property of every object it descends into and leaves out a property whose
  answer is \<open>undefined\<close>; \<open>omitted\<close> is the value that is left to be written.
\<close>

definition omitSSHKey :: "string \<Rightarrow> json \<Rightarrow> json option" where
  "omitSSHKey k v = (if k = ''sshKeys'' then None else Some v)"

primrec omitted :: "json \<Rightarrow> json" where
  "omitted (JString s) = JString s"
| "omitted (JNumber n) = JNumber n"
| "omitted (JBool b) = JBool b"
| "omitted (JArray vs) = JArray (map omitted vs)"
| "omitted (JObject kvs) =
     JObject (filter (\<lambda>kv. omitSSHKey (fst kv) (snd kv) \<noteq> None) (map (map_prod id omitted) kvs))"

text \<open>The libraries: the writer of json-stable-stringify (applied to what the replacer
  leaves) and the hexadecimal SHA-1 of Node's \<open>crypto\<close>. Both are parameters.\<close>

record Libraries =
  stringify :: "json \<Rightarrow> string"
  sha1 :: "string \<Rightarrow> string"

text \<open>\<open>function hash(str)\<close>.\<close>

definition hash :: "Libraries \<Rightarrow> string \<Rightarrow> string" where
  "hash lib str = sha1 lib str"

text \<open>The objects. \<open>id\<close> and \<open>hostname\<close> are \<open>undefined\<close> until they are set; an
  \<open>Image\<close> is a name and, possibly, a Dockerfile.\<close>

record jsMachine =
  jm_refID :: nat
  jm_id :: "string option"
  jm_provider :: string
  jm_role :: string
  jm_region :: string
  jm_size :: string
  jm_floatingIp :: string
  jm_diskSize :: real
  jm_sshKeys :: "string list"
  jm_cpu :: "real \<times> real"
  jm_ram :: "real \<times> real"
  jm_preemptible :: bool

record jsContainer =
  jc_refID :: nat
  jc_id :: "string option"
  jc_image :: "string \<times> string option"
  jc_command :: "string list"
  jc_env :: "(string \<times> string) list"
  jc_filepathToContent :: "(string \<times> string) list"
  jc_hostname :: "string option"

definition rangeJSON :: "real \<times> real \<Rightarrow> json" where
  "rangeJSON r = JObject [(''min'', JNumber (fst r)), (''max'', JNumber (snd r))]"

text \<open>
  \<open>key(obj)\<close>: the clone of the object with \<open>_refID\<close> set to the empty string, written by
  \<open>stringify\<close> under the replacer. \<open>Machine.clone\<close> builds a new Machine from the fields
  the constructor reads; \<open>Container.clone\<close> copies image, command, env and
  filepathToContent. Neither clone carries \<open>id\<close>, and a Container's clone has no
  \<open>hostname\<close>. (Each clone draws a fresh \<open>_refID\<close> from the counter before \<open>key\<close>
  overwrites it; the counter is not otherwise read here.)
\<close>

definition machineKeyObj :: "jsMachine \<Rightarrow> json" where
  "machineKeyObj m =
     JObject [(''_refID'', JString ''''),
              (''provider'', JString (jm_provider m)),
              (''role'', JString (jm_role m)),
              (''region'', JString (jm_region m)),
              (''size'', JString (jm_size m)),
              (''floatingIp'', JString (jm_floatingIp m)),
              (''diskSize'', JNumber (jm_diskSize m)),
              (''sshKeys'', JArray (map JString (jm_sshKeys m))),
              (''cpu'', rangeJSON (jm_cpu m)),
              (''ram'', rangeJSON (jm_ram m)),
              (''preemptible'', JBool (jm_preemptible m))]"

definition imageJSON :: "string \<times> string option \<Rightarrow> json" where
  "imageJSON img =
     JObject ((''name'', JString (fst img)) #
              (case snd img of None \<Rightarrow> [] | Some d \<Rightarrow> [(''dockerfile'', JString d)]))"

definition containerKeyObj :: "jsContainer \<Rightarrow> json" where
  "containerKeyObj c =
     JObject [(''_refID'', JString ''''),
              (''image'', imageJSON (jc_image c)),
              (''command'', JArray (map JString (jc_command c))),
              (''env'', JObject (map (map_prod id JString) (jc_env c))),
              (''filepathToContent'',
                 JObject (map (map_prod id JString) (jc_filepathToContent c)))]"

definition machineKey :: "Libraries \<Rightarrow> jsMachine \<Rightarrow> string" where
  "machineKey lib m = stringify lib (omitted (machineKeyObj m))"

definition containerKey :: "Libraries \<Rightarrow> jsContainer \<Rightarrow> string" where
  "containerKey lib c = stringify lib (omitted (containerKeyObj c))"

text \<open>A number appended to a string: its decimal numeral.\<close>

fun showNat :: "nat \<Rightarrow> string" where
  "showNat n =
     (if n < 10 then [''0123456789'' ! n]
      else showNat (n div 10) @ [''0123456789'' ! (n mod 10)])"

declare showNat.simps [simp del]

definition showInt :: "int \<Rightarrow> string" where
  "showInt i = (if i < 0 then ''-'' @ showNat (nat (- i)) else showNat (nat i))"

text \<open>\<open>Array.prototype.indexOf\<close>: the first index of the element, or \<open>-1\<close>.\<close>

fun indexOf :: "nat list \<Rightarrow> nat \<Rightarrow> int" where
  "indexOf [] x = - 1"
| "indexOf (y # ys) x =
     (if y = x then 0 else (let i = indexOf ys x in if i < 0 then - 1 else i + 1))"

text \<open>
  \<open>setQuiltIDs(objs)\<close>, for objects with the given \<open>key\<close>, \<open>_refID\<close> and assignment to
  \<open>id\<close>. \<open>collectRefIDs\<close> is the first loop, \<open>uniqSorted\<close> the pass
  \<open>_.sortBy(_.uniq(refIDs[k]), _.identity)\<close> over every key, \<open>assignIDs\<close> the last loop;
  reading \<open>indexOf\<close> of a key that \<open>refIDs\<close> lacks would throw a TypeError (\<open>Inl\<close>).
\<close>

definition collectRefIDs :: "('o \<Rightarrow> string) \<Rightarrow> ('o \<Rightarrow> nat) \<Rightarrow> 'o list \<Rightarrow> (string \<rightharpoonup> nat list)"
  where
  "collectRefIDs key refID objs =
     foldl (\<lambda>refIDs obj.
              (let k = key obj;
                   refIDs = (if refIDs k = None then refIDs(k \<mapsto> []) else refIDs)
               in refIDs(k \<mapsto> the (refIDs k) @ [refID obj])))
       Map.empty objs"

definition uniqSorted :: "(string \<rightharpoonup> nat list) \<Rightarrow> (string \<rightharpoonup> nat list)" where
  "uniqSorted refIDs = (\<lambda>k. map_option (\<lambda>l. sort (remdups l)) (refIDs k))"

fun assignIDs ::
  "Libraries \<Rightarrow> ('o \<Rightarrow> string) \<Rightarrow> ('o \<Rightarrow> nat) \<Rightarrow> (string \<Rightarrow> 'o \<Rightarrow> 'o) \<Rightarrow> (string \<rightharpoonup> nat list)
     \<Rightarrow> 'o list \<Rightarrow> error + 'o list" where
  "assignIDs lib key refID setID refIDs [] = Inr []"
| "assignIDs lib key refID setID refIDs (obj # objs) =
     (let k = key obj
      in case refIDs k of
           None \<Rightarrow> Inl ''TypeError''
         | Some l \<Rightarrow>
             (case assignIDs lib key refID setID refIDs objs of
                Inl e \<Rightarrow> Inl e
              | Inr objs' \<Rightarrow>
                  Inr (setID (hash lib (k @ showInt (indexOf l (refID obj)))) obj # objs')))"

definition setQuiltIDs ::
  "Libraries \<Rightarrow> ('o \<Rightarrow> string) \<Rightarrow> ('o \<Rightarrow> nat) \<Rightarrow> (string \<Rightarrow> 'o \<Rightarrow> 'o) \<Rightarrow> 'o list
     \<Rightarrow> error + 'o list" where
  "setQuiltIDs lib key refID setID objs =
     assignIDs lib key refID setID (uniqSorted (collectRefIDs key refID objs)) objs"

text \<open>The two calls in \<open>toQuiltRepresentation\<close>.\<close>

definition setMachineIDs :: "Libraries \<Rightarrow> jsMachine list \<Rightarrow> error + jsMachine list" where
  "setMachineIDs lib ms =
     setQuiltIDs lib (machineKey lib) jm_refID (\<lambda>i m. m\<lparr>jm_id := Some i\<rparr>) ms"

definition setContainerIDs :: "Libraries \<Rightarrow> jsContainer list \<Rightarrow> error + jsContainer list" where
  "setContainerIDs lib cs =
     setQuiltIDs lib (containerKey lib) jc_refID (\<lambda>i c. c\<lparr>jc_id := Some i\<rparr>) cs"

text \<open>The id strings in closed form: for each object, the hash of its key followed by the
  rank of its \<open>_refID\<close> among the distinct \<open>_refID\<close>s of the objects with the same key.\<close>

definition quiltIDs :: "Libraries \<Rightarrow> ('o \<Rightarrow> string) \<Rightarrow> ('o \<Rightarrow> nat) \<Rightarrow> 'o list \<Rightarrow> string list" where
  "quiltIDs lib key refID objs =
     map (\<lambda>obj. hash lib (key obj @
            showInt (indexOf (sort (remdups (map refID (filter (\<lambda>p. key p = key obj) objs))))
                       (refID obj))))
       objs"

section \<open>Concrete inputs\<close>

text \<open>A machine the foreman manages, still marked Booting, and a view holding it.\<close>

definition foremanMachine :: Machine where
  "foremanMachine = emptyMachine\<lparr>ID := 1, PublicIP := ''1.2.3.4'', PrivateIP := ''10.0.0.1'',
     Status := Booting, StatusTime := 1000\<rparr>"

definition foremanView :: Database where
  "foremanView = \<lparr>machineRows = [foremanMachine], blueprintRow = None, idAlloc = 2\<rparr>"

text \<open>A connected foreman whose minion stops answering.\<close>

definition connectedMachine :: Machine where
  "connectedMachine = emptyMachine\<lparr>ID := 1, Role := Worker, PublicIP := ''1.2.3.4'',
     PrivateIP := ''10.0.0.1'', Status := Connected, StatusTime := 1000\<rparr>"

definition connectedView :: Database where
  "connectedView = \<lparr>machineRows = [connectedMachine], blueprintRow = None, idAlloc = 2\<rparr>"

definition connectedForeman :: foreman where
  "connectedForeman = \<lparr>fm_client = Some (MinionClient ''1.2.3.4''), fm_ip = ''1.2.3.4'',
     fm_status = Connected\<rparr>"

definition failingWorld :: ForemanWorld where
  "failingWorld = \<lparr>PBToRole = (\<lambda>n. if n = 1 then Worker else if n = 2 then Master else db_None),
     StitchString = (\<lambda>bp. Namespace bp),
     newClient = (\<lambda>a. Inr (MinionClient a)),
     getMinion = Inl ''rpc error: deadline exceeded'',
     setMinion = (\<lambda>cfg. None)\<rparr>"

text \<open>A DB container and a Docker container running it; the hashing functions are
  stand-ins for SHA-1 and \<open>util.MapAsString\<close>.\<close>

definition plainHashing :: Hashing where
  "plainHashing = \<lparr>sha1_hex = (\<lambda>s. ''sha1:'' @ s), MapAsString = (\<lambda>m. ''map[]'')\<rparr>"

definition alpineDB :: dbContainer where
  "alpineDB = \<lparr>dbc_IP = ''10.0.0.2'', dbc_Minion = ''10.0.0.1'', dbc_Hostname = '''',
     dbc_Image = ''alpine'', dbc_ImageID = '''', dbc_Command = [],
     dbc_Env = Mapping.empty, dbc_FilepathToContent = Mapping.empty,
     dbc_DockerID = '''', dbc_EndpointID = '''', dbc_Status = '''', dbc_Created = 0\<rparr>"

definition alpineDocker :: dkContainer where
  "alpineDocker = \<lparr>dkc_ID = ''abc'', dkc_EID = ''e1'', dkc_Image = ''alpine'',
     dkc_ImageID = ''sha256:1'', dkc_IP = ''10.0.0.2'', dkc_Path = ''tail'',
     dkc_Args = [''-f'', ''/dev/null''],
     dkc_Env = Mapping.update ''PATH'' ''/bin'' Mapping.empty,
     dkc_Labels = Mapping.update ''files'' (filesHash plainHashing Mapping.empty) Mapping.empty,
     dkc_Status = ''running'', dkc_Created = 5\<rparr>"

text \<open>
  A reconciler for Amazon, us-west-1, namespace \<open>ns\<close>, and answers of its surroundings:
  the greedy join, parsers that accept the documented names, one machine size, a local
  IP, an empty provider listing.
\<close>

definition awsCloud :: cloud where
  "awsCloud = \<lparr>namespace = ''ns'', providerName = Amazon, region = ''us-west-1''\<rparr>"

definition quietWorld :: CloudWorld where
  "quietWorld = \<lparr>Join = greedyJoin,
     ParseProvider = (\<lambda>s. if s = Amazon \<or> s = Google \<or> s = DigitalOcean \<or> s = Vagrant
                          then Inr s else Inl ''unknown provider''),
     ParseRole = (\<lambda>s. if s = Master \<or> s = Worker \<or> s = db_None
                      then Inr s else Inl ''unknown role''),
     ChooseSize = (\<lambda>provider ram cpu maxPrice. ''m3.medium''),
     amazon_DefaultRegion = ''us-west-1'',
     digitalocean_DefaultRegion = ''sfo1'',
     google_DefaultRegion = ''us-east1-b'',
     adminKey = '''',
     blueprintToACLs = getACLs,
     myIP = Inr ''8.8.8.8'',
     empty = False,
     provider_List = Inr []\<rparr>"

definition workerSpec :: StitchMachine where
  "workerSpec = \<lparr>sm_Provider = Amazon, sm_Role = Worker, sm_Region = ''us-west-1'',
     sm_Size = ''m3.medium'', sm_FloatingIP = '''', sm_DiskSize = 32, sm_SSHKeys = nil,
     sm_Preemptible = False, sm_RAM = (0, 0), sm_CPU = (0, 0)\<rparr>"

definition outboundBlueprint :: Blueprint where
  "outboundBlueprint = \<lparr>Namespace = ''ns'', Machines = [], MaxPrice = 0, AdminACL = [],
     Connections = [\<lparr>From = ''web'', To = PublicInternetLabel, conn_MinPort = 80,
                     conn_MaxPort = 80\<rparr>,
                    \<lparr>From = PublicInternetLabel, To = ''web'', conn_MinPort = 443,
                     conn_MaxPort = 443\<rparr>]\<rparr>"

definition idleView :: Database where
  "idleView = \<lparr>machineRows = [], blueprintRow = Some outboundBlueprint, idAlloc = 1\<rparr>"

text \<open>A row that has been Booting for six minutes without a cloud ID, in a cluster whose
  blueprint asks for one worker of the same shape; the provider lists no machine.\<close>

definition workerBlueprint :: Blueprint where
  "workerBlueprint = \<lparr>Namespace = ''ns'', Machines = [workerSpec], MaxPrice = 0,
     AdminACL = [], Connections = []\<rparr>"

definition staleRow :: Machine where
  "staleRow = emptyMachine\<lparr>ID := 1, Provider := Amazon, Region := ''us-west-1'',
     Size := ''m3.medium'', DiskSize := 32, Status := Booting, StatusTime := 0\<rparr>"

definition staleView :: Database where
  "staleView = \<lparr>machineRows = [staleRow], blueprintRow = Some workerBlueprint, idAlloc = 2\<rparr>"

text \<open>Three rows in the table and two machines in the provider's listing: one pair, one
  row the provider no longer lists, one row still booting, one machine of a size that no
  row has.\<close>

definition rowA :: Machine where
  "rowA = emptyMachine\<lparr>ID := 1, Role := Worker, Provider := Amazon, Region := ''us-west-1'',
     Size := ''m3.medium'', DiskSize := 32, CloudID := ''i-1'', PublicIP := ''1.2.3.4'',
     PrivateIP := ''10.0.0.1'', Status := Connected, StatusTime := 1000\<rparr>"

definition rowB :: Machine where
  "rowB = emptyMachine\<lparr>ID := 2, Role := Worker, Provider := Amazon, Region := ''us-west-1'',
     Size := ''m3.medium'', DiskSize := 32, CloudID := ''i-2'', PublicIP := ''1.2.3.5'',
     PrivateIP := ''10.0.0.2'', Status := Connected, StatusTime := 1000\<rparr>"

definition rowC :: Machine where
  "rowC = emptyMachine\<lparr>ID := 3, DesiredRole := Worker, Provider := Amazon,
     Region := ''us-west-1'', Size := ''m4.large'', DiskSize := 32, Status := Booting,
     StatusTime := 2000\<rparr>"

definition cloudA :: Machine where
  "cloudA = emptyMachine\<lparr>Provider := Amazon, Region := ''us-west-1'', Size := ''m3.medium'',
     DiskSize := 32, CloudID := ''i-1'', PublicIP := ''1.2.3.4'', PrivateIP := ''10.0.0.1''\<rparr>"

definition cloudN :: Machine where
  "cloudN = emptyMachine\<lparr>Provider := Amazon, Region := ''us-west-1'', Size := ''t2.micro'',
     DiskSize := 32, CloudID := ''i-9'', PublicIP := ''5.6.7.8'', PrivateIP := ''10.0.0.9''\<rparr>"

definition threeRows :: Database where
  "threeRows = \<lparr>machineRows = [rowA, rowB, rowC], blueprintRow = Some workerBlueprint,
     idAlloc = 4\<rparr>"

text \<open>A fourth row, already Stopping, and the machine the blueprint \<open>workerBlueprint\<close>
  asks for.\<close>

definition rowS :: Machine where
  "rowS = emptyMachine\<lparr>ID := 4, Role := Worker, Provider := Amazon, Region := ''us-west-1'',
     Size := ''m3.medium'', DiskSize := 32, CloudID := ''i-4'', PublicIP := ''1.2.3.7'',
     PrivateIP := ''10.0.0.4'', Status := Stopping, StatusTime := 3000\<rparr>"

definition fourRows :: Database where
  "fourRows = \<lparr>machineRows = [rowA, rowB, rowC, rowS], blueprintRow = Some workerBlueprint,
     idAlloc = 5\<rparr>"

definition desiredWorker :: Machine where
  "desiredWorker = emptyMachine\<lparr>Role := Worker, Provider := Amazon, Region := ''us-west-1'',
     Size := ''m3.medium'', DiskSize := 32\<rparr>"

text \<open>The surroundings of cloud/join.go: the join that hands on a panic of the score,
  no foreman connected and no role known.\<close>

definition joinWorld :: JoinWorld where
  "joinWorld = \<lparr>shared = quietWorld, JoinScore = scoredJoin,
     ChooseSize3 = (\<lambda>provider ram cpu. ''m3.medium''),
     isConnected = (\<lambda>ip. False),
     getMachineRole = (\<lambda>ip. db_None)\<rparr>"

text \<open>Stand-ins for the two library functions, a Machine and a Container of the bindings,
  and two blueprints built from them in the same order with different SSH keys.\<close>

definition plainLibraries :: Libraries where
  "plainLibraries =
     \<lparr>stringify = (\<lambda>j. case j of JObject kvs \<Rightarrow> concat (map (\<lambda>kv. fst kv @ '';'') kvs) | _ \<Rightarrow> ''''),
      sha1 = (\<lambda>s. ''sha1('' @ s @ '')'')\<rparr>"

definition workerJS :: jsMachine where
  "workerJS = \<lparr>jm_refID = 0, jm_id = None, jm_provider = ''Amazon'', jm_role = ''Worker'',
     jm_region = ''us-west-1'', jm_size = ''m3.medium'', jm_floatingIp = '''',
     jm_diskSize = 32, jm_sshKeys = [''ssh-rsa AAAA''], jm_cpu = (0, 0), jm_ram = (0, 0),
     jm_preemptible = False\<rparr>"

definition alpineJS :: jsContainer where
  "alpineJS = \<lparr>jc_refID = 2, jc_id = None, jc_image = (''alpine'', None),
     jc_command = [''tail'', ''-f'', ''/dev/null''], jc_env = [], jc_filepathToContent = [],
     jc_hostname = None\<rparr>"

definition twoWorkers :: "jsMachine list" where
  "twoWorkers = [workerJS, workerJS\<lparr>jm_refID := 1\<rparr>]"

definition twoWorkersAgain :: "jsMachine list" where
  "twoWorkersAgain = [workerJS\<lparr>jm_refID := 5, jm_sshKeys := []\<rparr>,
                      workerJS\<lparr>jm_refID := 7, jm_sshKeys := [''ssh-rsa BBBB''], jm_id := Some ''old''\<rparr>]"

definition sharedContainer :: "jsContainer list" where
  "sharedContainer = [alpineJS, alpineJS]"

definition sharedContainerAgain :: "jsContainer list" where
  "sharedContainerAgain = [alpineJS\<lparr>jc_refID := 9, jc_hostname := Some ''web''\<rparr>,
                           alpineJS\<lparr>jc_refID := 9, jc_hostname := Some ''web''\<rparr>]"

text \<open>Two Containers that differ in their hostnames only, created one after the other
  and listed in that order; and the same two, listed in the same places, where the one
  listed second was created first.\<close>

definition twoContainers :: "jsContainer list" where
  "twoContainers = [alpineJS\<lparr>jc_refID := 2, jc_hostname := Some ''web''\<rparr>,
                    alpineJS\<lparr>jc_refID := 3, jc_hostname := Some ''db''\<rparr>]"

definition twoContainersSwapped :: "jsContainer list" where
  "twoContainersSwapped = [alpineJS\<lparr>jc_refID := 3, jc_hostname := Some ''web''\<rparr>,
                           alpineJS\<lparr>jc_refID := 2, jc_hostname := Some ''db''\<rparr>]"

section \<open>Tables as lists of rows: auxiliary facts\<close>

lemma find_app:
  "find P (xs @ ys) = (case find P xs of Some x \<Rightarrow> Some x | None \<Rightarrow> find P ys)"
  by (induction xs) auto

text \<open>A loop of commits over rows \<open>ys\<close>: each table row ends as the image of the last
  committed row that carries its key.\<close>

lemma foldl_commit_last:
  assumes g: "\<And>y. ID (g y) = ID y"
  shows "foldl (\<lambda>rows y. if p y then commitRow rows (g y) else rows) cur ys =
     map (\<lambda>x. case find (\<lambda>y. ID y = ID x \<and> p y) (rev ys) of Some y \<Rightarrow> g y | None \<Rightarrow> x) cur"
proof (induction ys rule: rev_induct)
  case Nil
  show ?case by simp
next
  case (snoc y ys)
  have "ID (case find (\<lambda>y. ID y = ID x \<and> p y) (rev ys) of Some y \<Rightarrow> g y | None \<Rightarrow> x) = ID x" for x
    by (auto split: option.splits simp: g find_Some_iff)
  with snoc show ?case
    by (auto simp: commitRow_def g split: option.splits)
qed

lemma find_filter_distinct:
  assumes "distinct (map ID rows)" "x \<in> set rows"
  shows "find (\<lambda>y. ID y = ID x \<and> p y) (rev (filter q rows)) = (if p x \<and> q x then Some x else None)"
  using assms
proof (induction rows rule: rev_induct)
  case Nil
  then show ?case by simp
next
  case (snoc r rows)
  then show ?case by (auto simp: find_None_iff image_iff)
qed

text \<open>The table read by primary key.\<close>

lemma lookupRow_None: "lookupRow rows k = None \<longleftrightarrow> k \<notin> ID ` set rows"
  by (auto simp: lookupRow_def find_None_iff)

lemma lookupRow_SomeD: "lookupRow rows k = Some x \<Longrightarrow> x \<in> set rows \<and> ID x = k"
  by (auto simp: lookupRow_def find_Some_iff)

lemma lookupRow_member:
  "distinct (map ID rows) \<Longrightarrow> x \<in> set rows \<Longrightarrow> lookupRow rows (ID x) = Some x"
  unfolding lookupRow_def by (induction rows) (auto simp: image_iff)

lemma lookupRow_removeRow:
  "lookupRow (removeRow rows r) k = (if k = ID r then None else lookupRow rows k)"
  unfolding lookupRow_def removeRow_def by (induction rows) auto

lemma lookupRow_commitRow:
  "lookupRow (commitRow rows r) k =
     (if k = ID r then (case lookupRow rows k of None \<Rightarrow> None | Some x \<Rightarrow> Some r)
      else lookupRow rows k)"
  unfolding lookupRow_def commitRow_def by (induction rows) auto

lemma lookupRow_append:
  "lookupRow (rows @ rows') k =
     (case lookupRow rows k of Some x \<Rightarrow> Some x | None \<Rightarrow> lookupRow rows' k)"
  unfolding lookupRow_def by (simp add: find_app)

lemma lookupRow_map:
  "(\<And>x. ID (h x) = ID x) \<Longrightarrow> lookupRow (map h rows) k = map_option h (lookupRow rows k)"
  unfolding lookupRow_def by (induction rows) auto

lemma lookupRow_filter:
  "lookupRow (filter (\<lambda>x. ID x \<notin> K) rows) k = (if k \<in> K then None else lookupRow rows k)"
  unfolding lookupRow_def by (induction rows) auto

lemma find_unique_key:
  "distinct (map f zs) \<Longrightarrow> z \<in> set zs \<Longrightarrow> find (\<lambda>y. f y = f z) zs = Some z"
  by (induction zs) (auto simp: image_iff)

lemma foldl_commit_any:
  "foldl (\<lambda>rows y. commitRow rows (g y)) cur ys =
     map (\<lambda>x. case find (\<lambda>y. ID (g y) = ID x) (rev ys) of Some y \<Rightarrow> g y | None \<Rightarrow> x) cur"
proof (induction ys rule: rev_induct)
  case Nil
  show ?case by simp
next
  case (snoc y ys)
  have "ID (case find (\<lambda>y. ID (g y) = ID x) (rev ys) of Some y \<Rightarrow> g y | None \<Rightarrow> x) = ID x" for x
    by (auto split: option.splits simp: find_Some_iff)
  with snoc show ?case
    by (auto simp: commitRow_def split: option.splits)
qed

section \<open>The foreman's update coalescer\<close>

lemma foldl_upd_find:
  "foldl (\<lambda>updateMap u. updateMap(ip u \<mapsto> u)) mp0 ms i =
     (case find (\<lambda>u. ip u = i) (rev ms) of Some u \<Rightarrow> Some u | None \<Rightarrow> mp0 i)"
  by (induction ms rule: rev_induct) auto

lemma drain_find: "drain m ms i = find (\<lambda>u. ip u = i) (rev (m # ms))"
  by (simp add: drain_def foldl_upd_find find_app split: option.splits)

lemma ID_applyUpdate [simp]: "ID (applyUpdate u dbm) = ID dbm"
  by (simp add: applyUpdate_def Let_def)

lemma updateTxn_rows:
  "machineRows (foldl (\<lambda>v dbm. case updateMap (PublicIP dbm) of
                       Some u \<Rightarrow> Commit v (applyUpdate u dbm) | None \<Rightarrow> v) view ys) =
   foldl (\<lambda>rows y. if updateMap (PublicIP y) \<noteq> None
                     then commitRow rows (applyUpdate (the (updateMap (PublicIP y))) y) else rows)
     (machineRows view) ys"
  by (induction ys arbitrary: view) (auto simp: Commit_def split: option.splits)

text \<open>With distinct primary keys the coalescer's transaction rewrites exactly the selected
  rows whose public IP has a pending update.\<close>

lemma updateTxn_closed:
  assumes "distinct (map ID (machineRows view))"
  shows "machineRows (updateTxn updateMap view) =
    map (\<lambda>dbm. if PublicIP dbm \<noteq> '''' \<and> Status dbm \<noteq> Stopping
                then (case updateMap (PublicIP dbm) of Some u \<Rightarrow> applyUpdate u dbm | None \<Rightarrow> dbm)
                else dbm) (machineRows view)"
  unfolding updateTxn_def SelectFromMachine_def updateTxn_rows
  by (subst foldl_commit_last) (auto simp: find_filter_distinct [OF assms] split: option.splits)

text \<open>
  C10. Within one drain window the update map keeps, for each machine IP, only the last
  update received for that IP (the later update replaces the earlier one whole, no field
  is merged). When the surviving update is applied, \<open>Status\<close> is written only if its
  status field is non-empty and \<open>Role\<close> only if its role field is not \<open>None\<close>. So a status
  update followed, in the same window, by a role-only update for the same machine commits
  the role and leaves the row's \<open>Status\<close> as it was.
\<close>

theorem updateRoutine_later_update_replaces:
  assumes "distinct (map ID (machineRows view))" and "s \<noteq> ''''" and "r \<noteq> db_None"
  shows "drain m ms i = find (\<lambda>u. ip u = i) (rev (m # ms)) \<and>
    machineRows (updateWindow m ms view) =
      map (\<lambda>dbm. if PublicIP dbm \<noteq> '''' \<and> Status dbm \<noteq> Stopping
                  then (case find (\<lambda>u. ip u = PublicIP dbm) (rev (m # ms)) of
                          Some u \<Rightarrow> dbm\<lparr>Status := (if status u \<noteq> '''' then status u else Status dbm),
                                          Role := (if role u \<noteq> db_None then role u else Role dbm)\<rparr>
                        | None \<Rightarrow> dbm)
                  else dbm) (machineRows view) \<and>
    machineRows (updateWindow \<lparr>ip = i, role = db_None, status = s\<rparr>
                              [\<lparr>ip = i, role = r, status = ''''\<rparr>] view) =
      map (\<lambda>dbm. if PublicIP dbm \<noteq> '''' \<and> Status dbm \<noteq> Stopping \<and> PublicIP dbm = i
                  then dbm\<lparr>Role := r\<rparr> else dbm) (machineRows view)"
proof -
  have ap: "applyUpdate u dbm = dbm\<lparr>Status := (if status u \<noteq> '''' then status u else Status dbm),
                Role := (if role u \<noteq> db_None then role u else Role dbm)\<rparr>" for u dbm
    by (simp add: applyUpdate_def)
  have 1: "drain m ms i = find (\<lambda>u. ip u = i) (rev (m # ms))" by (rule drain_find)
  have 2: "machineRows (updateWindow m ms view) =
      map (\<lambda>dbm. if PublicIP dbm \<noteq> '''' \<and> Status dbm \<noteq> Stopping
                  then (case find (\<lambda>u. ip u = PublicIP dbm) (rev (m # ms)) of
                          Some u \<Rightarrow> applyUpdate u dbm | None \<Rightarrow> dbm)
                  else dbm) (machineRows view)" for m ms
    unfolding updateWindow_def updateTxn_closed [OF assms(1)] drain_find ..
  have 3: "machineRows (updateWindow \<lparr>ip = i, role = db_None, status = s\<rparr>
                              [\<lparr>ip = i, role = r, status = ''''\<rparr>] view) =
      map (\<lambda>dbm. if PublicIP dbm \<noteq> '''' \<and> Status dbm \<noteq> Stopping \<and> PublicIP dbm = i
                  then dbm\<lparr>Role := r\<rparr> else dbm) (machineRows view)"
    unfolding 2 using assms(3) by (auto simp: applyUpdate_def)
  show ?thesis using 1 2 [of m ms] 3 unfolding ap by blast
qed

theorem updateRoutine_later_update_replaces_witness:
  "machineRows (updateWindow \<lparr>ip = ''1.2.3.4'', role = db_None, status = Connected\<rparr>
                              [\<lparr>ip = ''1.2.3.4'', role = Worker, status = ''''\<rparr>] foremanView) =
     [foremanMachine\<lparr>Role := Worker\<rparr>] \<and>
   Status (foremanMachine\<lparr>Role := Worker\<rparr>) = Booting \<and> Booting \<noteq> Connected"
  using updateRoutine_later_update_replaces [of foremanView Connected Worker]
  by (simp add: foremanView_def foremanMachine_def emptyMachine_def Connected_def Worker_def
      db_None_def Booting_def Stopping_def)

text \<open>\<open>Machine.SetStatus\<close> moves \<open>StatusTime\<close> exactly when it changes \<open>Status\<close>.\<close>

lemma SetStatus_keeps_rule:
  "Status (SetStatus now s m) = s \<and>
   StatusTime (SetStatus now s m) = (if Status m = s then StatusTime m else now)"
  by (simp add: SetStatus_def)

text \<open>
  C2. \<open>StatusTime\<close> is to change exactly when \<open>Status\<close> changes. \<open>Machine.SetStatus\<close> keeps
  that rule, but the foreman's coalescer assigns \<open>dbm.Status\<close> directly: applying the update
  \<open>{ip: 1.2.3.4, status: connected}\<close> to a row that is Booting with \<open>StatusTime\<close> 1000
  commits \<open>Status = connected\<close> and leaves \<open>StatusTime\<close> at 1000.
\<close>

theorem updateRoutine_status_without_StatusTime:
  "map (\<lambda>m. (ID m, Status m, StatusTime m)) (machineRows foremanView) = [(1, Booting, 1000)] \<and>
   map (\<lambda>m. (ID m, Status m, StatusTime m))
     (machineRows (updateWindow \<lparr>ip = ''1.2.3.4'', role = db_None, status = Connected\<rparr> []
        foremanView)) = [(1, Connected, 1000)] \<and>
   Booting \<noteq> Connected"
  by (simp add: updateWindow_def updateTxn_def drain_def SelectFromMachine_def Commit_def
      commitRow_def applyUpdate_def foremanView_def foremanMachine_def emptyMachine_def
      Connected_def db_None_def Booting_def Stopping_def)

section \<open>A foreman iteration whose GetMinionConfig fails\<close>

lemma talk_getMinion_fails:
  "getMinion w = Inl e \<Longrightarrow>
   talk w f dbm bp etcdIPs sent0 rpcs0 =
     \<lparr>after = f\<lparr>fm_client := None\<rparr>, sent = sent0 @ setStatus f Connecting,
      rpcs = rpcs0 @ [GetMinionConfig], returned = None\<rparr>"
  by (simp add: talk_def)

text \<open>A minion that reports no authorized keys (the nil slice) is sent the configuration
  of a row whose \<open>SSHKeys\<close> is an empty slice: to \<open>reflect.DeepEqual\<close> the two differ.\<close>

lemma talk_nil_differs_from_empty:
  assumes "getMinion w = Inr cfg" and "cfg_AuthorizedKeys cfg = nil" and "SSHKeys dbm = Slice []"
  shows "rpcs (talk w f dbm bp etcdIPs sent0 rpcs0) =
           rpcs0 @ [GetMinionConfig,
                    SetMinionConfig \<lparr>cfg_Role = 0, cfg_FloatingIP = FloatingIP dbm,
                      cfg_PrivateIP = PrivateIP dbm, cfg_Blueprint = StitchString w bp,
                      cfg_Provider = Provider dbm, cfg_Size = Size dbm, cfg_Region = Region dbm,
                      cfg_EtcdMembers = etcdIPs, cfg_AuthorizedKeys = Slice []\<rparr>]"
proof -
  let ?n = "\<lparr>cfg_Role = 0, cfg_FloatingIP = FloatingIP dbm,
              cfg_PrivateIP = PrivateIP dbm, cfg_Blueprint = StitchString w bp,
              cfg_Provider = Provider dbm, cfg_Size = Size dbm, cfg_Region = Region dbm,
              cfg_EtcdMembers = etcdIPs, cfg_AuthorizedKeys = Slice []\<rparr>"
  have "?n \<noteq> cfg"
  proof
    assume "?n = cfg"
    then have "cfg_AuthorizedKeys ?n = cfg_AuthorizedKeys cfg" by (rule arg_cong)
    with assms(2) show False by simp
  qed
  with assms show ?thesis
    by (simp add: talk_def Let_def split: option.splits)
qed

text \<open>
  C5 (amended). In an iteration whose \<open>getMinion\<close> call fails, the foreman drops its
  client, returns \<open>nil\<close> with no further RPC (no \<open>SetMinionConfig\<close>, no role update) and
  the only updates it has sent ask for the status Connecting: none when the row is
  already Connecting, otherwise one from the failure branch, preceded by one from the
  dial branch when the iteration started without a client. The foreman never asks for
  the status Reconnecting.
\<close>

theorem runOnce_getMinion_failure:
  assumes fails: "getMinion w = Inl e"
    and found: "scanMachines (fm_ip f) (SelectFromMachine view (\<lambda>m. Status m \<noteq> Stopping)) =
                  (dbm, False, etcdIPs)"
    and client: "fm_client f \<noteq> None \<or> newClient w (fm_ip f) = Inr c"
  shows "fm_client (after (runOnce w view f)) = None \<and>
         returned (runOnce w view f) = None \<and>
         rpcs (runOnce w view f) =
           (if fm_client f = None then [Dial (fm_ip f)] else []) @ [GetMinionConfig] \<and>
         sent (runOnce w view f) =
           (if Status dbm = Connecting then []
            else if fm_client f = None
            then [\<lparr>ip = fm_ip f, role = db_None, status = Connecting\<rparr>,
                  \<lparr>ip = fm_ip f, role = db_None, status = Connecting\<rparr>]
            else [\<lparr>ip = fm_ip f, role = db_None, status = Connecting\<rparr>])"
proof (cases "fm_client f")
  case None
  with client have "newClient w (fm_ip f) = Inr c" by simp
  with None fails found show ?thesis
    by (simp add: runOnce_def talk_getMinion_fails setStatus_def)
next
  case (Some c')
  with fails found show ?thesis
    by (simp add: runOnce_def talk_getMinion_fails setStatus_def)
qed

lemma scan_connected:
  "scanMachines ''1.2.3.4'' (SelectFromMachine connectedView (\<lambda>m. Status m \<noteq> Stopping)) =
     (connectedMachine, False, nil)"
  by (simp add: scanMachines_def SelectFromMachine_def connectedView_def connectedMachine_def
      emptyMachine_def Connected_def Stopping_def Worker_def Master_def)

theorem runOnce_getMinion_failure_witness:
  "fm_client (after (runOnce failingWorld connectedView connectedForeman)) = None \<and>
   returned (runOnce failingWorld connectedView connectedForeman) = None \<and>
   rpcs (runOnce failingWorld connectedView connectedForeman) = [GetMinionConfig] \<and>
   sent (runOnce failingWorld connectedView connectedForeman) =
     [\<lparr>ip = ''1.2.3.4'', role = db_None, status = Connecting\<rparr>]"
  using runOnce_getMinion_failure [of failingWorld "''rpc error: deadline exceeded''"
      connectedForeman connectedView connectedMachine nil "MinionClient ''1.2.3.4''"]
    scan_connected
  by (simp add: failingWorld_def connectedForeman_def connectedMachine_def Connected_def
      Connecting_def)

theorem runOnce_getMinion_failure_counterexample:
  "getMinion failingWorld = Inl ''rpc error: deadline exceeded'' \<and>
   sent (runOnce failingWorld connectedView connectedForeman) =
     [\<lparr>ip = ''1.2.3.4'', role = db_None, status = Connecting\<rparr>] \<and>
   map Status (machineRows (updateWindow \<lparr>ip = ''1.2.3.4'', role = db_None, status = Connecting\<rparr>
      [] connectedView)) = [Connecting] \<and>
   Connecting \<noteq> Reconnecting"
  using scan_connected
  by (simp add: runOnce_def talk_def setStatus_def failingWorld_def connectedForeman_def
      updateWindow_def updateTxn_def drain_def SelectFromMachine_def Commit_def commitRow_def
      applyUpdate_def connectedView_def connectedMachine_def emptyMachine_def
      Connected_def Connecting_def Reconnecting_def Stopping_def db_None_def)

section \<open>The worker's join score\<close>

lemma env_loop_iff:
  "(\<exists>key \<in> Mapping.keys env. index env' key \<noteq> the (Mapping.lookup env key)) \<longleftrightarrow>
   (\<exists>key v. Mapping.lookup env key = Some v \<and> index env' key \<noteq> v)"
proof
  assume "\<exists>key \<in> Mapping.keys env. index env' key \<noteq> the (Mapping.lookup env key)"
  then obtain key where k: "key \<in> Mapping.keys env"
    and ne: "index env' key \<noteq> the (Mapping.lookup env key)" by blast
  from k obtain v where "Mapping.lookup env key = Some v"
    by (auto simp: keys_dom_lookup)
  with ne show "\<exists>key v. Mapping.lookup env key = Some v \<and> index env' key \<noteq> v" by auto
next
  assume "\<exists>key v. Mapping.lookup env key = Some v \<and> index env' key \<noteq> v"
  then obtain key v where l: "Mapping.lookup env key = Some v" and ne: "index env' key \<noteq> v"
    by blast
  from l have "key \<in> Mapping.keys env" by (simp add: keys_dom_lookup domI)
  with l ne show "\<exists>key \<in> Mapping.keys env. index env' key \<noteq> the (Mapping.lookup env key)"
    by force
qed

text \<open>
  C8 (amended). \<open>syncJoinScore\<close> returns \<open>-1\<close> when the IPs differ, when the hash of
  the serialized \<open>FilepathToContent\<close> differs from the Docker container's \<open>files\<close> label,
  when the image identity differs (by digest when the DB row has a non-empty \<open>ImageID\<close>,
  else by name), when some entry of the DB row's \<open>Env\<close> is not repeated by the Docker
  container's \<open>Env\<close> (a key the Docker container lacks reads as the empty string), or
  when the DB row's \<open>Command\<close> is non-empty and equals neither \<open>dkc.Args\<close> nor
  \<open>[dkc.Path] ++ dkc.Args\<close>; in all other cases it returns \<open>0\<close>.
\<close>

theorem syncJoinScore_cases:
  "syncJoinScore h dbc dkc =
     (if dbc_IP dbc \<noteq> dkc_IP dkc \<or>
         sha1_hex h (MapAsString h (dbc_FilepathToContent dbc)) \<noteq> index (dkc_Labels dkc) ''files'' \<or>
         (if dbc_ImageID dbc \<noteq> '''' then dkc_ImageID dkc \<noteq> dbc_ImageID dbc
          else dkc_Image dkc \<noteq> dbc_Image dbc) \<or>
         (\<exists>key v. Mapping.lookup (dbc_Env dbc) key = Some v \<and> index (dkc_Env dkc) key \<noteq> v) \<or>
         (dbc_Command dbc \<noteq> [] \<and> dbc_Command dbc \<noteq> dkc_Args dkc \<and>
          dbc_Command dbc \<noteq> dkc_Path dkc # dkc_Args dkc)
      then - 1 else 0)"
  unfolding syncJoinScore_def Let_def env_loop_iff filesHash_def filesKey_def StrSliceEqual_def
  by auto

theorem syncJoinScore_cases_witness:
  "syncJoinScore plainHashing (alpineDB\<lparr>dbc_Env := Mapping.update ''A'' ''1'' Mapping.empty\<rparr>)
     (alpineDocker\<lparr>dkc_Env := Mapping.update ''A'' ''2'' Mapping.empty\<rparr>) = - 1 \<and>
   syncJoinScore plainHashing (alpineDB\<lparr>dbc_Env := Mapping.update ''A'' ''1'' Mapping.empty\<rparr>)
     (alpineDocker\<lparr>dkc_Env := Mapping.update ''PATH'' ''/bin'' (Mapping.update ''A'' ''1'' Mapping.empty)\<rparr>) = 0"
  using syncJoinScore_cases [of plainHashing
      "alpineDB\<lparr>dbc_Env := Mapping.update ''A'' ''1'' Mapping.empty\<rparr>"
      "alpineDocker\<lparr>dkc_Env := Mapping.update ''A'' ''2'' Mapping.empty\<rparr>"]
    syncJoinScore_cases [of plainHashing
      "alpineDB\<lparr>dbc_Env := Mapping.update ''A'' ''1'' Mapping.empty\<rparr>"
      "alpineDocker\<lparr>dkc_Env := Mapping.update ''PATH'' ''/bin'' (Mapping.update ''A'' ''1'' Mapping.empty)\<rparr>"]
  by (simp add: alpineDB_def alpineDocker_def plainHashing_def filesHash_def index_def
      lookup_update' cong: if_cong)

text \<open>The claim as first stated fails: the environments differ (the Docker container has
  an entry the DB row lacks) and the empty DB command equals neither form of the Docker
  command, yet the score is \<open>0\<close>.\<close>

lemma envs_differ: "dbc_Env alpineDB \<noteq> dkc_Env alpineDocker"
proof
  assume "dbc_Env alpineDB = dkc_Env alpineDocker"
  then have "Mapping.lookup (dbc_Env alpineDB) ''PATH'' =
             Mapping.lookup (dkc_Env alpineDocker) ''PATH''" by simp
  then show False by (simp add: alpineDB_def alpineDocker_def)
qed

theorem syncJoinScore_counterexample:
  "dbc_Env alpineDB \<noteq> dkc_Env alpineDocker \<and>
   dbc_Command alpineDB \<noteq> dkc_Args alpineDocker \<and>
   dbc_Command alpineDB \<noteq> [dkc_Path alpineDocker] @ dkc_Args alpineDocker \<and>
   syncJoinScore plainHashing alpineDB alpineDocker = 0"
  using envs_differ
  by (simp add: syncJoinScore_def alpineDB_def alpineDocker_def plainHashing_def filesHash_def
      index_def filesKey_def lookup_update')

section \<open>ACLs derived from the blueprint\<close>

lemma set_getACLs:
  "set (getACLs bp) =
     (\<lambda>cidr. \<lparr>CidrIP = cidr, MinPort = 1, MaxPort = 65535\<rparr>) ` (set (AdminACL bp) \<union> {''local''}) \<union>
     (\<lambda>conn. \<lparr>CidrIP = ''0.0.0.0/0'', MinPort = conn_MinPort conn, MaxPort = conn_MaxPort conn\<rparr>) `
        {conn \<in> set (Connections bp). From conn = PublicInternetLabel}"
  by (auto simp: getACLs_def adminACLs_def publicACLs_def)

lemma set_getACLsMachines:
  "set (getACLsMachines bp ms) =
     (\<lambda>cidr. \<lparr>CidrIP = cidr, MinPort = 1, MaxPort = 65535\<rparr>) ` (set (AdminACL bp) \<union> {''local''}) \<union>
     (\<lambda>m. \<lparr>CidrIP = PublicIP m @ ''/32'', MinPort = 1, MaxPort = 65535\<rparr>) `
        {m \<in> set ms. PublicIP m \<noteq> ''''} \<union>
     (\<lambda>conn. \<lparr>CidrIP = ''0.0.0.0/0'', MinPort = conn_MinPort conn, MaxPort = conn_MaxPort conn\<rparr>) `
        {conn \<in> set (Connections bp). From conn = PublicInternetLabel}"
  by (auto simp: getACLsMachines_def adminACLs_def publicACLs_def machineACLs_def)

text \<open>
  C6 (amended). For every Connection of the blueprint whose \<open>From\<close> is the reserved
  hostname \<open>public\<close>, the derived ACL set holds an ingress ACL with CIDR \<open>0.0.0.0/0\<close> and
  that connection's \<open>MinPort\<close> and \<open>MaxPort\<close>. Nothing else puts a connection's ports into
  the set: every other ACL spans the ports 1 to 65535 for \<open>local\<close>, an admin CIDR or a
  machine's public IP, so a connection that names \<open>public\<close> only as \<open>To\<close> adds no ACL.
\<close>

theorem getACLs_public_ingress:
  "(\<forall>conn \<in> set (Connections bp). From conn = PublicInternetLabel \<longrightarrow>
      \<lparr>CidrIP = ''0.0.0.0/0'', MinPort = conn_MinPort conn, MaxPort = conn_MaxPort conn\<rparr>
        \<in> set (getACLs bp) \<inter> set (getACLsMachines bp ms)) \<and>
   (\<forall>a \<in> set (getACLs bp) \<union> set (getACLsMachines bp ms).
      (\<exists>conn \<in> set (Connections bp). From conn = PublicInternetLabel \<and>
         a = \<lparr>CidrIP = ''0.0.0.0/0'', MinPort = conn_MinPort conn, MaxPort = conn_MaxPort conn\<rparr>) \<or>
      (MinPort a = 1 \<and> MaxPort a = 65535 \<and>
       (CidrIP a = ''local'' \<or> CidrIP a \<in> set (AdminACL bp) \<or>
        (\<exists>m \<in> set ms. PublicIP m \<noteq> '''' \<and> CidrIP a = PublicIP m @ ''/32''))))"
  unfolding set_getACLs set_getACLsMachines by auto

theorem getACLs_public_ingress_witness:
  "\<lparr>CidrIP = ''0.0.0.0/0'', MinPort = 443, MaxPort = 443\<rparr> \<in> set (getACLs outboundBlueprint) \<and>
   \<lparr>CidrIP = ''0.0.0.0/0'', MinPort = 443, MaxPort = 443\<rparr>
      \<in> set (getACLsMachines outboundBlueprint [])"
  using getACLs_public_ingress [of outboundBlueprint "[]"]
  by (simp add: outboundBlueprint_def PublicInternetLabel_def)

text \<open>A connection from \<open>web\<close> to \<open>public\<close> on port 80 leaves no ACL for port 80.\<close>

theorem getACLs_outbound_counterexample:
  "To (hd (Connections outboundBlueprint)) = PublicInternetLabel \<and>
   hd (Connections outboundBlueprint) \<in> set (Connections outboundBlueprint) \<and>
   \<lparr>CidrIP = ''0.0.0.0/0'', MinPort = conn_MinPort (hd (Connections outboundBlueprint)),
     MaxPort = conn_MaxPort (hd (Connections outboundBlueprint))\<rparr> \<notin> set (getACLs outboundBlueprint) \<and>
   \<lparr>CidrIP = ''0.0.0.0/0'', MinPort = conn_MinPort (hd (Connections outboundBlueprint)),
     MaxPort = conn_MaxPort (hd (Connections outboundBlueprint))\<rparr>
       \<notin> set (getACLsMachines outboundBlueprint [])"
  by (simp add: getACLs_def getACLsMachines_def adminACLs_def publicACLs_def machineACLs_def
      outboundBlueprint_def PublicInternetLabel_def)

section \<open>Provider calls of one reconciler iteration\<close>

lemma resolveACLs_ok:
  "(\<exists>r. resolveACLs ipAnswer out unresolved = Inr r) \<longleftrightarrow>
     (\<exists>addr. ipAnswer = Inr addr) \<or> list_all (\<lambda>a. CidrIP a \<noteq> ''local'') unresolved"
proof (induction unresolved arbitrary: out)
  case Nil
  show ?case by simp
next
  case (Cons a unresolved)
  show ?case
  proof (cases ipAnswer)
    case (Inl e)
    with Cons show ?thesis by simp
  next
    case (Inr addr)
    with Cons show ?thesis by simp
  qed
qed

lemma syncACLs_calls:
  "(\<exists>a. SetACLs a \<in> set (syncACLs w unresolved)) \<longleftrightarrow>
     (\<exists>addr. myIP w = Inr addr) \<or> list_all (\<lambda>a. CidrIP a \<noteq> ''local'') unresolved"
proof -
  have "(\<exists>a. SetACLs a \<in> set (syncACLs w unresolved)) \<longleftrightarrow>
        (\<exists>r. resolveACLs (myIP w) [] unresolved = Inr r)"
    by (cases "resolveACLs (myIP w) [] unresolved") (auto simp: syncACLs_def)
  then show ?thesis by (simp add: resolveACLs_ok)
qed

lemma syncACLs_only_SetACLs:
  "Boot ms \<notin> set (syncACLs w unresolved) \<and> Stop ms \<notin> set (syncACLs w unresolved) \<and>
   UpdateFloatingIPs ms \<notin> set (syncACLs w unresolved)"
  by (cases "resolveACLs (myIP w) [] unresolved") (simp_all add: syncACLs_def)

text \<open>
  C7 (amended). In an iteration of the reconciler whose listing and transaction went
  through, \<open>SetACLs\<close> is invoked exactly when the accumulated boot, stop and floating-IP
  batches are all empty and the \<open>local\<close> entries of the ACLs could be resolved (\<open>myIP\<close>
  answered, or no ACL is \<open>local\<close>); each non-empty batch is handed to the provider's
  \<open>Boot\<close>, \<open>Stop\<close> or \<open>UpdateFloatingIPs\<close>, and an iteration with a non-empty batch never
  pushes ACLs.
\<close>

theorem cloud_runOnce_SetACLs:
  assumes listed: "get w cld = Inr cloudMachines"
    and txn: "transact w cld now cloudMachines view = Inr (view', plan)"
  shows "\<exists>it. cloud_runOnce w cld now view = Inr it \<and> viewAfter it = view' \<and>
      ((\<exists>a. SetACLs a \<in> set (calls it)) \<longleftrightarrow>
         boot plan = [] \<and> stop plan = [] \<and> updateIP plan = [] \<and>
         ((\<exists>addr. myIP w = Inr addr) \<or> list_all (\<lambda>a. CidrIP a \<noteq> ''local'') (acls plan))) \<and>
      (Boot (boot plan) \<in> set (calls it) \<longleftrightarrow> boot plan \<noteq> []) \<and>
      (Stop (stop plan) \<in> set (calls it) \<longleftrightarrow> stop plan \<noteq> []) \<and>
      (UpdateFloatingIPs (updateIP plan) \<in> set (calls it) \<longleftrightarrow> updateIP plan \<noteq> []) \<and>
      (expedite it \<longleftrightarrow> boot plan \<noteq> [] \<or> stop plan \<noteq> [] \<or> updateIP plan \<noteq> [])"
proof (cases "boot plan = [] \<and> stop plan = [] \<and> updateIP plan = []")
  case True
  then have "apply_plan w plan = (syncACLs w (acls plan), False)"
    by (simp add: apply_plan_def)
  with listed txn True show ?thesis
    using syncACLs_calls [of w "acls plan"] syncACLs_only_SetACLs [of "[]" w "acls plan"]
    by (simp add: cloud_runOnce_def)
next
  case False
  then have "apply_plan w plan =
      ((if boot plan \<noteq> [] then [Boot (boot plan)] else []) @
       (if stop plan \<noteq> [] then [Stop (stop plan)] else []) @
       (if updateIP plan \<noteq> [] then [UpdateFloatingIPs (updateIP plan)] else []), True)"
    by (auto simp: apply_plan_def)
  with listed txn False show ?thesis
    by (auto simp: cloud_runOnce_def)
qed

lemma get_quiet: "get (quietWorld\<lparr>myIP := a\<rparr>) awsCloud = Inr []"
  by (simp add: get_def quietWorld_def)

lemma transact_idle:
  "transact (quietWorld\<lparr>myIP := a\<rparr>) awsCloud 0 [] idleView =
     Inr (idleView, \<lparr>acls = getACLs outboundBlueprint, machines = [], boot = [], stop = [],
                    updateIP = []\<rparr>)"
  by (simp add: transact_def GetBlueprint_def idleView_def outboundBlueprint_def awsCloud_def
      gcStale_def phase1_def phase1Remove_def phase1Insert_def phase1Commit_def
      phase2_def phase2Stop_def phase2Boot_def phase2Update_def desiredMachines_def
      SelectFromMachine_def quietWorld_def)

lemma acls_idle:
  "getACLs outboundBlueprint =
     [\<lparr>CidrIP = ''local'', MinPort = 1, MaxPort = 65535\<rparr>,
      \<lparr>CidrIP = ''0.0.0.0/0'', MinPort = 443, MaxPort = 443\<rparr>]"
  by (simp add: getACLs_def adminACLs_def publicACLs_def outboundBlueprint_def
      PublicInternetLabel_def)

theorem cloud_runOnce_SetACLs_witness:
  "cloud_runOnce quietWorld awsCloud 0 idleView =
     Inr \<lparr>viewAfter = idleView,
          calls = [SetACLs [\<lparr>CidrIP = ''8.8.8.8/32'', MinPort = 1, MaxPort = 65535\<rparr>,
                            \<lparr>CidrIP = ''0.0.0.0/0'', MinPort = 443, MaxPort = 443\<rparr>],
                   SetACLs [\<lparr>CidrIP = ''8.8.8.8/32'', MinPort = 1, MaxPort = 65535\<rparr>,
                            \<lparr>CidrIP = ''0.0.0.0/0'', MinPort = 443, MaxPort = 443\<rparr>]],
          expedite = False\<rparr>"
proof -
  have g: "get quietWorld awsCloud = Inr []" using get_quiet [of "myIP quietWorld"] by simp
  have t: "transact quietWorld awsCloud 0 [] idleView =
     Inr (idleView, \<lparr>acls = getACLs outboundBlueprint, machines = [], boot = [], stop = [],
                    updateIP = []\<rparr>)"
    using transact_idle [of "myIP quietWorld"] by simp
  from cloud_runOnce_SetACLs [OF g t] obtain it where
    "cloud_runOnce quietWorld awsCloud 0 idleView = Inr it" by blast
  then show ?thesis
    using g t by (simp add: cloud_runOnce_def apply_plan_def syncACLs_def acls_idle quietWorld_def)
qed

text \<open>With all three batches empty and \<open>myIP\<close> failing, the iteration makes no provider
  call at all.\<close>

theorem cloud_runOnce_SetACLs_counterexample:
  "transact (quietWorld\<lparr>myIP := Inl ''no route''\<rparr>) awsCloud 0 [] idleView =
     Inr (idleView, \<lparr>acls = getACLs outboundBlueprint, machines = [], boot = [], stop = [],
                    updateIP = []\<rparr>) \<and>
   cloud_runOnce (quietWorld\<lparr>myIP := Inl ''no route''\<rparr>) awsCloud 0 idleView =
     Inr \<lparr>viewAfter = idleView, calls = [], expedite = False\<rparr>"
  using get_quiet [of "Inl ''no route''"] transact_idle [of "Inl ''no route''"]
  by (simp add: cloud_runOnce_def apply_plan_def syncACLs_def acls_idle quietWorld_def)

section \<open>Stale boots\<close>

text \<open>The test of the garbage collection compares \<open>StatusTime\<close> with itself plus five
  minutes, so the loop removes nothing.\<close>

lemma gcStale_keeps_all: "gcStale cld view = view"
proof -
  have "foldl (\<lambda>v dbm.
              if (Status dbm = Booting \<or> Status dbm = Stopping) \<and>
                 After (StatusTime dbm) (Add (StatusTime dbm) (5 * Minute))
              then Remove v dbm else v) v0 ys = v0" for v0 ys
    by (induction ys) (simp_all add: After_def Add_def Minute_def)
  then show ?thesis by (simp add: gcStale_def)
qed

lemma desired_worker:
  "desiredMachines quietWorld awsCloud workerBlueprint =
     Inr [emptyMachine\<lparr>Role := Worker, Provider := Amazon, Region := ''us-west-1'',
            Size := ''m3.medium'', DiskSize := 32\<rparr>]"
  by (simp add: desiredMachines_def desiredMachine_def defaultRegion_def workerBlueprint_def
      workerSpec_def quietWorld_def awsCloud_def emptyMachine_def Amazon_def Worker_def
      Master_def)

text \<open>
  C1. Rows of the loop's provider and region that have been Booting or Stopping for more
  than five minutes are to be removed by the transaction. The row \<open>staleRow\<close> has been
  Booting for six minutes and has no cloud ID; the blueprint asks for a worker of its
  shape and the provider lists nothing. The garbage collection leaves the view as it is
  and the transaction ends with the row still in the table, Booting as before.
\<close>

theorem transact_keeps_stale_boot:
  "Status staleRow = Booting \<and> CloudID staleRow = '''' \<and>
   5 * Minute < 6 * Minute - StatusTime staleRow \<and>
   mFilter awsCloud staleRow \<and>
   machineRows staleView = [staleRow] \<and>
   gcStale awsCloud staleView = staleView \<and>
   transact quietWorld awsCloud (6 * Minute) [] staleView =
     Inr (staleView\<lparr>machineRows := [staleRow\<lparr>DesiredRole := Worker\<rparr>]\<rparr>,
          \<lparr>acls = [\<lparr>CidrIP = ''local'', MinPort = 1, MaxPort = 65535\<rparr>],
           machines = [staleRow\<lparr>DesiredRole := Worker\<rparr>], boot = [], stop = [],
           updateIP = []\<rparr>)"
proof -
  have j2: "greedyJoin [staleRow]
       [emptyMachine\<lparr>Role := Worker, Provider := Amazon, Region := ''us-west-1'',
            Size := ''m3.medium'', DiskSize := 32\<rparr>] phase2Score =
     ([(staleRow, emptyMachine\<lparr>Role := Worker, Provider := Amazon, Region := ''us-west-1'',
            Size := ''m3.medium'', DiskSize := 32\<rparr>)], [], [])"
    by (simp add: phase2Score_def staleRow_def emptyMachine_def db_None_def Worker_def)
  have p1: "phase1 quietWorld awsCloud [] staleView = staleView"
    by (simp add: phase1_def phase1Remove_def phase1Insert_def phase1Commit_def
        SelectFromMachine_def quietWorld_def staleView_def staleRow_def mFilter_def
        awsCloud_def)
  have sel: "SelectFromMachine staleView (mFilter awsCloud) = [staleRow]"
    by (simp add: SelectFromMachine_def staleView_def staleRow_def mFilter_def awsCloud_def)
  have p2: "phase2 quietWorld awsCloud (6 * Minute) workerBlueprint staleView =
      Inr \<lparr>view2 = staleView\<lparr>machineRows := [staleRow\<lparr>DesiredRole := Worker\<rparr>]\<rparr>,
           boot2 = [], stop2 = [], updateIP2 = []\<rparr>"
    unfolding phase2_def desired_worker sel
    using j2
    by (simp add: quietWorld_def phase2Stop_def phase2Boot_def phase2Update_def Commit_def
        commitRow_def staleView_def)
       (simp add: staleRow_def emptyMachine_def)
  have acl: "getACLs workerBlueprint = [\<lparr>CidrIP = ''local'', MinPort = 1, MaxPort = 65535\<rparr>]"
    by (simp add: getACLs_def adminACLs_def publicACLs_def workerBlueprint_def)
  have t: "transact quietWorld awsCloud (6 * Minute) [] staleView =
     Inr (staleView\<lparr>machineRows := [staleRow\<lparr>DesiredRole := Worker\<rparr>]\<rparr>,
          \<lparr>acls = [\<lparr>CidrIP = ''local'', MinPort = 1, MaxPort = 65535\<rparr>],
           machines = [staleRow\<lparr>DesiredRole := Worker\<rparr>], boot = [], stop = [],
           updateIP = []\<rparr>)"
    unfolding transact_def gcStale_keeps_all p1
    using p2 acl
    by (simp add: GetBlueprint_def staleView_def workerBlueprint_def awsCloud_def
        SelectFromMachine_def quietWorld_def)
  have row: "Status staleRow = Booting \<and> CloudID staleRow = [] \<and>
      5 * Minute < 6 * Minute - StatusTime staleRow \<and> mFilter awsCloud staleRow"
    by (simp add: staleRow_def emptyMachine_def Minute_def mFilter_def awsCloud_def)
  have rows: "machineRows staleView = [staleRow]" by (simp add: staleView_def)
  show ?thesis
    using t row rows gcStale_keeps_all [of awsCloud staleView] by simp
qed

section \<open>Phase 1: the cloud's machines against the database\<close>

lemma phase1Remove_rows:
  "phase1Remove view dbmis =
     view\<lparr>machineRows :=
       filter (\<lambda>x. ID x \<notin> set (map ID (filter (\<lambda>d. Status d \<noteq> Booting) dbmis)))
         (machineRows view)\<rparr>"
  unfolding phase1Remove_def
proof (induction dbmis rule: rev_induct)
  case Nil
  show ?case by simp
next
  case (snoc d ds)
  then show ?case
    by (simp add: Remove_def removeRow_def conj_commute)
qed

lemma phase1Insert_closed:
  "phase1Insert (pairs, v) cmis =
     (pairs @ zip cmis (freshRows (idAlloc v) (length cmis)),
      v\<lparr>machineRows := machineRows v @ freshRows (idAlloc v) (length cmis),
        idAlloc := idAlloc v + int (length cmis)\<rparr>)"
  unfolding phase1Insert_def
proof (induction cmis rule: rev_induct)
  case Nil
  show ?case by (simp add: freshRows_def)
next
  case (snoc c cs)
  then show ?case
    by (simp add: InsertMachine_def Let_def freshRows_def)
qed

lemma ID_copyCloud [simp]: "ID (copyCloud cm dbm) = ID dbm"
  by (simp add: copyCloud_def Let_def)

lemma phase1Commit_rows:
  "machineRows (phase1Commit v pairs) =
     map (\<lambda>x. case find (\<lambda>(cm, dbm). ID dbm = ID x) (rev pairs) of
                 Some (cm, dbm) \<Rightarrow> copyCloud cm dbm | None \<Rightarrow> x) (machineRows v)"
proof -
  have "machineRows (foldl (\<lambda>v (cm, dbm). Commit v (copyCloud cm dbm)) v ps) =
        foldl (\<lambda>rows y. commitRow rows (case y of (cm, dbm) \<Rightarrow> copyCloud cm dbm))
          (machineRows v) ps" for ps
    by (induction ps arbitrary: v) (auto simp: Commit_def)
  then show ?thesis
    unfolding phase1Commit_def foldl_commit_any
    by (auto simp: case_prod_unfold intro!: map_cong split: option.splits)
qed

lemma lookupRow_freshRows:
  "lookupRow (freshRows a n) k =
     (if a \<le> k \<and> k < a + int n then Some (emptyMachine\<lparr>ID := k\<rparr>) else None)"
proof (induction n)
  case 0
  show ?case by (simp add: freshRows_def lookupRow_def)
next
  case (Suc n)
  have "freshRows a (Suc n) = freshRows a n @ [emptyMachine\<lparr>ID := a + int n\<rparr>]"
    by (simp add: freshRows_def)
  moreover have "lookupRow [emptyMachine\<lparr>ID := a + int n\<rparr>] k =
      (if k = a + int n then Some (emptyMachine\<lparr>ID := k\<rparr>) else None)"
    by (auto simp: lookupRow_def)
  ultimately show ?case
    using Suc by (auto simp: lookupRow_append)
qed

lemma ID_freshRows: "map ID (freshRows a n) = map (\<lambda>i. a + int i) [0..<n]"
  by (simp add: freshRows_def comp_def)

lemma distinct_freshRows: "distinct (map ID (freshRows a n))"
  unfolding ID_freshRows by (simp add: distinct_map inj_on_def)

lemma freshRows_nth: "i < n \<Longrightarrow> freshRows a n ! i = emptyMachine\<lparr>ID := a + int i\<rparr>"
  by (simp add: freshRows_def)

lemma find_rev_app:
  "find P (rev (xs @ ys)) = (case find P (rev ys) of Some y \<Rightarrow> Some y | None \<Rightarrow> find P (rev xs))"
  by (simp add: find_app)

lemma find_zip_fresh:
  assumes "i < length cmis"
  shows "find (\<lambda>(cm, dbm). ID dbm = a + int i) (rev (zip cmis (freshRows a (length cmis)))) =
           Some (cmis ! i, emptyMachine\<lparr>ID := a + int i\<rparr>)"
proof -
  let ?zs = "zip cmis (freshRows a (length cmis))"
  have len: "length (freshRows a (length cmis)) = length cmis" by (simp add: freshRows_def)
  have "map (ID \<circ> snd) ?zs = map ID (map snd ?zs)" by simp
  also have "\<dots> = map ID (freshRows a (length cmis))" using len by (simp only: map_snd_zip)
  finally have "distinct (map (ID \<circ> snd) ?zs)" using distinct_freshRows [of a "length cmis"] by simp
  then have d: "distinct (map (ID \<circ> snd) (rev ?zs))"
    by (simp only: rev_map [symmetric] distinct_rev)
  have z: "?zs ! i = (cmis ! i, emptyMachine\<lparr>ID := a + int i\<rparr>)"
    using assms len by (simp add: freshRows_nth)
  have m: "(cmis ! i, emptyMachine\<lparr>ID := a + int i\<rparr>) \<in> set (rev ?zs)"
    using assms len z by (metis length_zip min.idem nth_mem set_rev)
  from find_unique_key [OF d m] show ?thesis
    by (simp add: case_prod_unfold)
qed

text \<open>
  Whatever the join of Phase 1 returns as pairs, unmatched cloud machines \<open>cmis\<close> and
  unmatched rows \<open>dbmis\<close> (the matched and the unmatched rows being rows of the table, with
  keys apart), after Phase 1 every unmatched row is gone from the table unless its
  \<open>Status\<close> is Booting, in which case it is still there unchanged; and for every unmatched
  cloud machine a row with a key that was not in use holds that machine's cloud fields.
\<close>

lemma phase1_rows:
  assumes joined: "Join w cloudMachines (SelectFromMachine view (mFilter cld)) phase1Score =
                     (pairs, cmis, dbmis)"
    and keys: "distinct (map ID (machineRows view))"
    and alloc: "list_all (\<lambda>x. ID x < idAlloc view) (machineRows view)"
    and part: "set (map snd pairs) \<union> set dbmis \<subseteq> set (machineRows view)"
    and apart: "distinct (map ID (map snd pairs @ dbmis))"
  shows "(\<forall>dbm \<in> set dbmis.
            lookupRow (machineRows (phase1 w cld cloudMachines view)) (ID dbm) =
              (if Status dbm = Booting then Some dbm else None)) \<and>
         (\<forall>i < length cmis.
            lookupRow (machineRows view) (idAlloc view + int i) = None \<and>
            lookupRow (machineRows (phase1 w cld cloudMachines view)) (idAlloc view + int i) =
              Some (copyCloud (cmis ! i) (emptyMachine\<lparr>ID := idAlloc view + int i\<rparr>)))"
proof -
  let ?a = "idAlloc view"
  let ?n = "length cmis"
  let ?gone = "set (map ID (filter (\<lambda>d. Status d \<noteq> Booting) dbmis))"
  let ?rows1 = "filter (\<lambda>x. ID x \<notin> ?gone) (machineRows view)"
  let ?pairs' = "pairs @ zip cmis (freshRows ?a ?n)"
  let ?h = "\<lambda>x. case find (\<lambda>(cm, dbm). ID dbm = ID x) (rev ?pairs') of
                   Some (cm, dbm) \<Rightarrow> copyCloud cm dbm | None \<Rightarrow> x"
  have rows: "machineRows (phase1 w cld cloudMachines view) =
                map ?h (?rows1 @ freshRows ?a ?n)"
    by (simp add: phase1_def joined phase1Remove_rows phase1Insert_closed phase1Commit_rows)
  have hID: "ID (?h x) = ID x" for x
    by (auto split: option.splits simp: find_Some_iff)
  have look: "lookupRow (machineRows (phase1 w cld cloudMachines view)) k =
      map_option ?h (case (if k \<in> ?gone then None else lookupRow (machineRows view) k) of
                       Some x \<Rightarrow> Some x | None \<Rightarrow> lookupRow (freshRows ?a ?n) k)" for k
    unfolding rows by (subst lookupRow_map [OF hID]) (simp add: lookupRow_append lookupRow_filter)
  have old: "ID x < ?a" if "x \<in> set (machineRows view)" for x
    using alloc that by (simp add: list_all_iff)
  have fresh_none: "lookupRow (machineRows view) k = None" if "?a \<le> k" for k
    using that old by (force simp: lookupRow_None)
  have unmatched: "lookupRow (machineRows (phase1 w cld cloudMachines view)) (ID dbm) =
              (if Status dbm = Booting then Some dbm else None)" if d: "dbm \<in> set dbmis" for dbm
  proof (cases "Status dbm = Booting")
    case False
    with d have g: "ID dbm \<in> ?gone" by auto
    from d part have "dbm \<in> set (machineRows view)" by auto
    then have "ID dbm < ?a" by (rule old)
    then have "lookupRow (freshRows ?a ?n) (ID dbm) = None" by (simp add: lookupRow_freshRows)
    with g False show ?thesis by (simp add: look)
  next
    case True
    from d part have mem: "dbm \<in> set (machineRows view)" by auto
    then have lt: "ID dbm < ?a" by (rule old)
    have "d' = dbm" if "d' \<in> set dbmis" "ID d' = ID dbm" for d'
      using apart that d by (auto simp: distinct_map inj_on_def)
    with True have ng: "ID dbm \<notin> ?gone" by auto
    have "\<not> (case p of (cm, dbm') \<Rightarrow> ID dbm' = ID dbm)" if "p \<in> set ?pairs'" for p
    proof -
      from that consider "p \<in> set pairs" | "p \<in> set (zip cmis (freshRows ?a ?n))" by auto
      then show ?thesis
      proof cases
        case 1
        then have "snd p \<in> set (map snd pairs)" by simp
        moreover from apart have "ID ` set (map snd pairs) \<inter> ID ` set dbmis = {}"
          by (simp only: map_append distinct_append set_map)
        ultimately have "ID (snd p) \<noteq> ID dbm" using d by blast
        then show ?thesis by (simp add: case_prod_unfold)
      next
        case 2
        then have "snd p \<in> set (freshRows ?a ?n)"
          using set_zip_rightD [of "fst p" "snd p" cmis "freshRows ?a ?n"] by simp
        then have "?a \<le> ID (snd p)" by (auto simp: freshRows_def)
        with lt show ?thesis by (simp add: case_prod_unfold)
      qed
    qed
    then have "find (\<lambda>(cm, dbm'). ID dbm' = ID dbm) (rev ?pairs') = None"
      by (auto simp: find_None_iff simp del: rev_append)
    then have "?h dbm = dbm" by simp
    with True ng lookupRow_member [OF keys mem] show ?thesis by (simp add: look)
  qed
  have inserted: "lookupRow (machineRows view) (?a + int i) = None \<and>
            lookupRow (machineRows (phase1 w cld cloudMachines view)) (?a + int i) =
              Some (copyCloud (cmis ! i) (emptyMachine\<lparr>ID := ?a + int i\<rparr>))" if i: "i < ?n" for i
  proof -
    have n: "lookupRow (machineRows view) (?a + int i) = None" by (rule fresh_none) simp
    have f: "lookupRow (freshRows ?a ?n) (?a + int i) = Some (emptyMachine\<lparr>ID := ?a + int i\<rparr>)"
      using i by (simp add: lookupRow_freshRows)
    have "find (\<lambda>(cm, dbm). ID dbm = ?a + int i) (rev ?pairs') =
            Some (cmis ! i, emptyMachine\<lparr>ID := ?a + int i\<rparr>)"
      unfolding find_rev_app find_zip_fresh [OF i] by simp
    then have "?h (emptyMachine\<lparr>ID := ?a + int i\<rparr>) =
                 copyCloud (cmis ! i) (emptyMachine\<lparr>ID := ?a + int i\<rparr>)" by simp
    with n f show ?thesis by (simp add: look)
  qed
  from unmatched inserted show ?thesis by blast
qed

section \<open>Phase 2: the database against the desired machines\<close>

text \<open>For a reconciler of one of the four providers \<open>desiredMachines\<close> returns: the panic
  of \<open>defaultRegion\<close> is out of reach.\<close>

lemma desiredMachine_returns:
  assumes "providerName cld = Amazon \<or> providerName cld = DigitalOcean \<or>
           providerName cld = Google \<or> providerName cld = Vagrant"
  shows "\<exists>r. desiredMachine w cld maxPrice sm = Inr r"
proof (cases "ParseProvider w (sm_Provider sm)")
  case (Inl e)
  then show ?thesis by (simp add: desiredMachine_def)
next
  case (Inr provider)
  show ?thesis
  proof (cases "provider = providerName cld")
    case False
    with Inr show ?thesis by (simp add: desiredMachine_def)
  next
    case True
    with assms have "\<exists>reg. defaultRegion w provider (sm_Region sm) = Inr reg"
      by (auto simp: defaultRegion_def)
    then obtain reg where "defaultRegion w provider (sm_Region sm) = Inr reg" by blast
    with Inr True show ?thesis
      by (cases "ParseRole w (sm_Role sm)") (simp_all add: desiredMachine_def Let_def)
  qed
qed

lemma desiredMachines_returns:
  assumes "providerName cld = Amazon \<or> providerName cld = DigitalOcean \<or>
           providerName cld = Google \<or> providerName cld = Vagrant"
  shows "\<exists>desired. desiredMachines w cld stitch = Inr desired"
proof -
  have "\<exists>desired. desiredMachinesLoop w cld maxPrice dbms sms = Inr desired" for maxPrice dbms sms
  proof (induction sms arbitrary: dbms)
    case Nil
    show ?case by simp
  next
    case (Cons sm sms)
    from desiredMachine_returns [OF assms, of w maxPrice sm]
    obtain r where "desiredMachine w cld maxPrice sm = Inr r" by blast
    with Cons show ?case by (cases r) simp_all
  qed
  then show ?thesis by (simp add: desiredMachines_def)
qed

lemma ID_SetStatus [simp]: "ID (SetStatus now s m) = ID m"
  by (simp add: SetStatus_def)

lemma ID_bootRow [simp]: "ID (bootRow now r sm) = ID r"
  by (simp add: bootRow_def)

lemma stop_loop_batch:
  "snd (phase2Stop now (v, st) dbmis) =
     st @ filter (\<lambda>dbm. CloudID dbm \<noteq> '''' \<and> Status dbm \<noteq> Stopping) dbmis"
  unfolding phase2Stop_def
proof (induction dbmis rule: rev_induct)
  case Nil
  show ?case by simp
next
  case (snoc d ds)
  then show ?case by (cases "foldl (stopStep now) (v, st) ds") auto
qed

lemma stop_loop_idAlloc: "idAlloc (fst (phase2Stop now (v, st) dbmis)) = idAlloc v"
  unfolding phase2Stop_def
proof (induction dbmis rule: rev_induct)
  case Nil
  show ?case by simp
next
  case (snoc d ds)
  then show ?case
    by (cases "foldl (stopStep now) (v, st) ds") (auto simp: Remove_def Commit_def)
qed

lemma lookupRow_stopStep:
  "lookupRow (machineRows (fst (stopStep now s dbm))) k =
     (if k \<noteq> ID dbm then lookupRow (machineRows (fst s)) k
      else if CloudID dbm = '''' then None
      else if Status dbm = Stopping then lookupRow (machineRows (fst s)) k
      else map_option (\<lambda>x. SetStatus now Stopping dbm) (lookupRow (machineRows (fst s)) k))"
  by (cases s)
     (auto simp: Remove_def Commit_def lookupRow_removeRow lookupRow_commitRow
        split: option.splits)

lemma stop_loop_other:
  "k \<notin> ID ` set dbmis \<Longrightarrow>
   lookupRow (machineRows (fst (phase2Stop now s dbmis))) k = lookupRow (machineRows (fst s)) k"
  unfolding phase2Stop_def
  by (induction dbmis rule: rev_induct) (simp_all add: lookupRow_stopStep)

lemma stop_loop_row:
  assumes "distinct (map ID dbmis)" and "dbm \<in> set dbmis"
    and "lookupRow (machineRows (fst s)) (ID dbm) = Some dbm"
  shows "lookupRow (machineRows (fst (phase2Stop now s dbmis))) (ID dbm) =
           (if CloudID dbm = '''' then None
            else if Status dbm = Stopping then Some dbm
            else Some (dbm\<lparr>Status := Stopping, StatusTime := now\<rparr>))"
  using assms
proof (induction dbmis rule: rev_induct)
  case Nil
  then show ?case by simp
next
  case (snoc d ds)
  have step: "phase2Stop now s (ds @ [d]) = stopStep now (phase2Stop now s ds) d"
    by (simp add: phase2Stop_def)
  show ?case
  proof (cases "dbm \<in> set ds")
    case True
    with snoc.prems have "ID d \<noteq> ID dbm" by (auto simp: image_iff)
    moreover from snoc True have "lookupRow (machineRows (fst (phase2Stop now s ds))) (ID dbm) =
           (if CloudID dbm = '''' then None
            else if Status dbm = Stopping then Some dbm
            else Some (dbm\<lparr>Status := Stopping, StatusTime := now\<rparr>))" by simp
    ultimately show ?thesis unfolding step by (simp add: lookupRow_stopStep)
  next
    case False
    with snoc.prems have eq: "d = dbm" and "ID dbm \<notin> ID ` set ds" by auto
    then have "lookupRow (machineRows (fst (phase2Stop now s ds))) (ID dbm) = Some dbm"
      using snoc.prems(3) by (simp add: stop_loop_other)
    with eq show ?thesis unfolding step by (simp add: lookupRow_stopStep SetStatus_def)
  qed
qed

lemma boot_loop_old:
  assumes "k < idAlloc v"
  shows "lookupRow (machineRows (fst (phase2Boot now (v, ps, bt) smis))) k =
           lookupRow (machineRows v) k \<and>
         idAlloc v \<le> idAlloc (fst (phase2Boot now (v, ps, bt) smis)) \<and>
         list_all (\<lambda>p. p \<in> set ps \<or> idAlloc v \<le> ID (fst p))
           (fst (snd (phase2Boot now (v, ps, bt) smis)))"
  unfolding phase2Boot_def
proof (induction smis rule: rev_induct)
  case Nil
  show ?case by (simp add: list_all_iff)
next
  case (snoc sm smis)
  obtain v' ps' bt' where s: "foldl (bootStep now) (v, ps, bt) smis = (v', ps', bt')"
    by (cases "foldl (bootStep now) (v, ps, bt) smis") auto
  with snoc assms have ne: "k \<noteq> idAlloc v'" and le: "idAlloc v \<le> idAlloc v'"
    and old: "lookupRow (machineRows v') k = lookupRow (machineRows v) k"
    and ps: "list_all (\<lambda>p. p \<in> set ps \<or> idAlloc v \<le> ID (fst p)) ps'" by auto
  let ?r = "emptyMachine\<lparr>ID := idAlloc v'\<rparr>"
  from ne have "lookupRow (commitRow (machineRows v' @ [?r]) (bootRow now ?r sm)) k =
             lookupRow (machineRows v') k"
    by (simp add: lookupRow_commitRow lookupRow_append)
       (simp add: lookupRow_def split: option.splits)
  with old le ps show ?case
    by (simp add: s InsertMachine_def Let_def Commit_def)
qed

lemma update_loop_other:
  assumes "list_all (\<lambda>p. ID (fst p) \<noteq> k) ps"
  shows "lookupRow (machineRows (fst (phase2Update s ps))) k = lookupRow (machineRows (fst s)) k"
  using assms unfolding phase2Update_def
proof (induction ps rule: rev_induct)
  case Nil
  show ?case by simp
next
  case (snoc p ps)
  obtain v u where s: "foldl updateStep s ps = (v, u)" by (cases "foldl updateStep s ps") auto
  from snoc show ?case
    by (cases p) (simp add: s Let_def Commit_def lookupRow_commitRow)
qed

text \<open>
  Whatever the join of Phase 2 returns (the matched and the unmatched rows being rows of
  the table, with keys apart), for every unmatched row: if its \<open>CloudID\<close> is empty the row
  is removed and is not in the stop batch; if it has a \<open>CloudID\<close> and is already Stopping
  it is left as it is and is not in the stop batch; otherwise the row is committed with
  \<open>Status = Stopping\<close> (and \<open>StatusTime\<close> the current time) and the machine is in the stop
  batch. A non-empty stop batch is what \<open>runOnce\<close> hands to the provider's \<open>Stop\<close>.
\<close>

lemma phase2_rows:
  assumes wanted: "desiredMachines w cld stitch = Inr desired"
    and joined: "Join w (SelectFromMachine view (mFilter cld)) desired phase2Score =
                   (pairs, dbmis, smis)"
    and keys: "distinct (map ID (machineRows view))"
    and alloc: "list_all (\<lambda>x. ID x < idAlloc view) (machineRows view)"
    and part: "set (map fst pairs) \<union> set dbmis \<subseteq> set (machineRows view)"
    and apart: "distinct (map ID (map fst pairs @ dbmis))"
  shows "\<exists>r. phase2 w cld now stitch view = Inr r \<and>
           stop2 r = filter (\<lambda>dbm. CloudID dbm \<noteq> '''' \<and> Status dbm \<noteq> Stopping) dbmis \<and>
           (\<forall>dbm \<in> set dbmis.
              lookupRow (machineRows (view2 r)) (ID dbm) =
                (if CloudID dbm = '''' then None
                 else if Status dbm = Stopping then Some dbm
                 else Some (dbm\<lparr>Status := Stopping, StatusTime := now\<rparr>))) \<and>
           (stop2 r \<noteq> [] \<longrightarrow>
              Stop (stop2 r) \<in> set (fst (apply_plan w
                 \<lparr>acls = as, machines = ms, boot = boot2 r, stop = stop2 r,
                  updateIP = updateIP2 r\<rparr>)))"
proof -
  obtain v1 st where s1: "phase2Stop now (view, []) dbmis = (v1, st)"
    by (cases "phase2Stop now (view, []) dbmis") auto
  obtain v2 ps' bt where s2: "phase2Boot now (v1, pairs, []) smis = (v2, ps', bt)"
    by (cases "phase2Boot now (v1, pairs, []) smis") auto
  obtain v3 up where s3: "phase2Update (v2, []) ps' = (v3, up)"
    by (cases "phase2Update (v2, []) ps'") auto
  let ?r = "\<lparr>view2 = v3, boot2 = bt, stop2 = st, updateIP2 = up\<rparr>"
  have res: "phase2 w cld now stitch view = Inr ?r"
    by (simp add: phase2_def wanted joined s1 s2 s3)
  have st: "st = filter (\<lambda>dbm. CloudID dbm \<noteq> '''' \<and> Status dbm \<noteq> Stopping) dbmis"
    using stop_loop_batch [of now view "[]" dbmis] s1 by simp
  have a1: "idAlloc v1 = idAlloc view"
    using stop_loop_idAlloc [of now view "[]" dbmis] s1 by simp
  have d: "distinct (map ID dbmis)" using apart by simp
  have rows: "lookupRow (machineRows v3) (ID dbm) =
                (if CloudID dbm = '''' then None
                 else if Status dbm = Stopping then Some dbm
                 else Some (dbm\<lparr>Status := Stopping, StatusTime := now\<rparr>))"
    if m: "dbm \<in> set dbmis" for dbm
  proof -
    from m part have mem: "dbm \<in> set (machineRows view)" by auto
    then have lt: "ID dbm < idAlloc view" using alloc by (simp add: list_all_iff)
    have "lookupRow (machineRows (fst (view, []::Machine list))) (ID dbm) = Some dbm"
      using lookupRow_member [OF keys mem] by simp
    from stop_loop_row [OF d m this, of now]
    have l1: "lookupRow (machineRows v1) (ID dbm) =
                (if CloudID dbm = '''' then None
                 else if Status dbm = Stopping then Some dbm
                 else Some (dbm\<lparr>Status := Stopping, StatusTime := now\<rparr>))"
      by (simp add: s1)
    from lt a1 have "ID dbm < idAlloc v1" by simp
    from boot_loop_old [OF this, of now pairs "[]" smis]
    have l2: "lookupRow (machineRows v2) (ID dbm) = lookupRow (machineRows v1) (ID dbm)"
      and new: "list_all (\<lambda>p. p \<in> set pairs \<or> idAlloc v1 \<le> ID (fst p)) ps'"
      by (simp_all add: s2)
    from apart have "ID ` set (map fst pairs) \<inter> ID ` set dbmis = {}"
      by (simp only: map_append distinct_append set_map)
    with m have "ID (fst p) \<noteq> ID dbm" if "p \<in> set pairs" for p
      using that by (auto simp: image_iff)
    with new lt a1 have "list_all (\<lambda>p. ID (fst p) \<noteq> ID dbm) ps'"
      by (auto simp: list_all_iff)
    from update_loop_other [OF this, of "(v2, [])"]
    have "lookupRow (machineRows v3) (ID dbm) = lookupRow (machineRows v2) (ID dbm)"
      by (simp add: s3)
    with l1 l2 show ?thesis by simp
  qed
  have call: "Stop st \<in> set (fst (apply_plan w
                 \<lparr>acls = as, machines = ms, boot = bt, stop = st, updateIP = up\<rparr>))"
    if "st \<noteq> []"
    using that by (simp add: apply_plan_def Let_def)
  from res st rows call show ?thesis by auto
qed

lemma phase2_stop_batch:
  assumes "desiredMachines w cld stitch = Inr desired"
    and "Join w (SelectFromMachine view (mFilter cld)) desired phase2Score = (pairs, dbmis, smis)"
  shows "map_sum id stop2 (phase2 w cld now stitch view) =
           Inr (filter (\<lambda>dbm. CloudID dbm \<noteq> [] \<and> Status dbm \<noteq> Stopping) dbmis)"
proof -
  obtain v1 st where s1: "phase2Stop now (view, []) dbmis = (v1, st)"
    by (cases "phase2Stop now (view, []) dbmis") auto
  obtain v2 ps' bt where s2: "phase2Boot now (v1, pairs, []) smis = (v2, ps', bt)"
    by (cases "phase2Boot now (v1, pairs, []) smis") auto
  obtain v3 up where s3: "phase2Update (v2, []) ps' = (v3, up)"
    by (cases "phase2Update (v2, []) ps'") auto
  have "st = filter (\<lambda>dbm. CloudID dbm \<noteq> [] \<and> Status dbm \<noteq> Stopping) dbmis"
    using stop_loop_batch [of now view "[]" dbmis] s1 by simp
  then show ?thesis by (simp add: phase2_def assms s1 s2 s3)
qed

lemma desired_fourRows: "desiredMachines quietWorld awsCloud workerBlueprint = Inr [desiredWorker]"
  by (simp add: desiredMachines_def desiredMachine_def defaultRegion_def workerBlueprint_def
      workerSpec_def quietWorld_def awsCloud_def emptyMachine_def Amazon_def Worker_def
      Master_def desiredWorker_def)

lemma join_fourRows:
  "Join quietWorld (SelectFromMachine fourRows (mFilter awsCloud)) [desiredWorker] phase2Score =
     ([(rowA, desiredWorker)], [rowB, rowC, rowS], [])"
  by (simp add: quietWorld_def SelectFromMachine_def fourRows_def mFilter_def awsCloud_def
      phase2Score_def rowA_def rowB_def rowC_def rowS_def desiredWorker_def emptyMachine_def
      db_None_def Worker_def)

section \<open>Content-hash ids\<close>

lemma collect_fold:
  fixes key :: "'o \<Rightarrow> string" and refID :: "'o \<Rightarrow> nat"
  defines "F \<equiv> (\<lambda>refIDs obj.
              (let k = key obj;
                   refIDs = (if refIDs k = None then refIDs(k \<mapsto> []) else refIDs)
               in refIDs(k \<mapsto> the (refIDs k) @ [refID obj])))"
  shows "foldl F m0 objs k =
     (if filter (\<lambda>p. key p = k) objs = [] then m0 k
      else Some ((case m0 k of None \<Rightarrow> [] | Some l0 \<Rightarrow> l0) @
                 map refID (filter (\<lambda>p. key p = k) objs)))"
proof (induction objs rule: rev_induct)
  case Nil
  show ?case by simp
next
  case (snoc obj objs)
  have step: "F m obj k =
      (if k = key obj then Some ((case m k of None \<Rightarrow> [] | Some l0 \<Rightarrow> l0) @ [refID obj])
       else m k)" for m
    unfolding F_def by (auto simp: Let_def split: option.splits)
  have "foldl F m0 (objs @ [obj]) k = F (foldl F m0 objs) obj k" by simp
  then show ?case
    unfolding step snoc by (auto split: option.splits)
qed

lemma collectRefIDs_key:
  "collectRefIDs key refID objs k =
     (if filter (\<lambda>p. key p = k) objs = [] then None
      else Some (map refID (filter (\<lambda>p. key p = k) objs)))"
  unfolding collectRefIDs_def by (simp add: collect_fold)

lemma assignIDs_total:
  assumes "\<And>obj. obj \<in> set objs \<Longrightarrow> refIDs (key obj) = Some (f obj)"
  shows "assignIDs lib key refID setID refIDs objs =
     Inr (map (\<lambda>obj. setID (hash lib (key obj @ showInt (indexOf (f obj) (refID obj)))) obj) objs)"
  using assms by (induction objs) (simp_all add: Let_def)

lemma setQuiltIDs_total:
  "setQuiltIDs lib key refID setID objs =
     Inr (map (\<lambda>(i, obj). setID i obj) (zip (quiltIDs lib key refID objs) objs))"
proof -
  have "uniqSorted (collectRefIDs key refID objs) (key obj) =
          Some (sort (remdups (map refID (filter (\<lambda>p. key p = key obj) objs))))"
    if "obj \<in> set objs" for obj
    using that by (auto simp: uniqSorted_def collectRefIDs_key filter_empty_conv)
  from assignIDs_total [of objs "uniqSorted (collectRefIDs key refID objs)" key
      "\<lambda>obj. sort (remdups (map refID (filter (\<lambda>p. key p = key obj) objs)))", OF this]
  show ?thesis
    by (simp add: setQuiltIDs_def quiltIDs_def zip_map1 zip_same_conv_map)
qed

lemma indexOf_nonneg: "x \<in> set xs \<Longrightarrow> 0 \<le> indexOf xs x"
  by (induction xs) (auto simp: Let_def)

lemma indexOf_sorted:
  assumes "sorted xs" "distinct xs" "x \<in> set xs"
  shows "indexOf xs x = int (card {y \<in> set xs. y < x})"
  using assms
proof (induction xs)
  case Nil
  then show ?case by simp
next
  case (Cons a xs)
  show ?case
  proof (cases "a = x")
    case True
    with Cons.prems have "{y \<in> set (a # xs). y < x} = {}" by force
    with True show ?thesis by simp
  next
    case False
    with Cons.prems have x: "x \<in> set xs" and lt: "a < x" by auto
    from Cons.prems have "a \<notin> set xs" by simp
    with lt have eq: "{y \<in> set (a # xs). y < x} = insert a {y \<in> set xs. y < x}"
      and new: "a \<notin> {y \<in> set xs. y < x}" by auto
    from Cons x have ih: "indexOf xs x = int (card {y \<in> set xs. y < x})" by simp
    with False show ?thesis
      unfolding eq using new by (simp add: Let_def)
  qed
qed

lemma indexOf_uniq_sorted:
  "x \<in> set l \<Longrightarrow> indexOf (sort (remdups l)) x = int (card {y \<in> set l. y < x})"
  using indexOf_sorted [of "sort (remdups l)" x] by simp

lemma card_below_iso:
  fixes P :: "(nat \<times> nat) set"
  assumes fin: "finite P"
    and iso: "\<And>p q. p \<in> P \<Longrightarrow> q \<in> P \<Longrightarrow> (fst p \<le> fst q) = (snd p \<le> snd q)"
    and mem: "(x, x') \<in> P"
  shows "card {y \<in> fst ` P. y < x} = card {y \<in> snd ` P. y < x'}"
proof -
  let ?A = "{p \<in> P. fst p < x}"
  have lt: "(fst p < x) = (snd p < x')" if "p \<in> P" for p
    using iso [OF mem that] by (simp add: not_le [symmetric])
  have a: "{y \<in> fst ` P. y < x} = fst ` ?A" by auto
  have b: "{y \<in> snd ` P. y < x'} = snd ` ?A" using lt by auto
  have "inj_on fst P"
  proof (rule inj_onI)
    fix p q assume "p \<in> P" "q \<in> P" "fst p = fst q"
    with iso [of p q] iso [of q p] have "snd p = snd q" by simp
    with \<open>fst p = fst q\<close> show "p = q" by (simp add: prod_eq_iff)
  qed
  then have ia: "inj_on fst ?A" by (rule inj_on_subset) auto
  have "inj_on snd P"
  proof (rule inj_onI)
    fix p q assume "p \<in> P" "q \<in> P" "snd p = snd q"
    with iso [of p q] iso [of q p] have "fst p = fst q" by simp
    with \<open>snd p = snd q\<close> show "p = q" by (simp add: prod_eq_iff)
  qed
  then have ib: "inj_on snd ?A" by (rule inj_on_subset) auto
  show ?thesis unfolding a b by (simp add: card_image ia ib)
qed

lemma quiltIDs_stable:
  assumes len: "length objs = length objs'"
    and keys: "\<And>i. i < length objs \<Longrightarrow> key (objs ! i) = key' (objs' ! i)"
    and order: "\<And>i j. i < length objs \<Longrightarrow> j < length objs \<Longrightarrow>
                  key (objs ! i) = key (objs ! j) \<Longrightarrow>
                  (refID (objs ! i) \<le> refID (objs ! j)) = (refID' (objs' ! i) \<le> refID' (objs' ! j))"
  shows "quiltIDs lib key refID objs = quiltIDs lib key' refID' objs'"
proof (rule nth_equalityI)
  show "length (quiltIDs lib key refID objs) = length (quiltIDs lib key' refID' objs')"
    using len by (simp add: quiltIDs_def)
next
  fix i assume "i < length (quiltIDs lib key refID objs)"
  then have i: "i < length objs" by (simp add: quiltIDs_def)
  let ?k = "key (objs ! i)"
  let ?l = "map refID (filter (\<lambda>p. key p = ?k) objs)"
  let ?l' = "map refID' (filter (\<lambda>p. key' p = ?k) objs')"
  let ?P = "{(refID (objs ! j), refID' (objs' ! j)) | j. j < length objs \<and> key (objs ! j) = ?k}"
  have fin: "finite ?P" by simp
  have sl: "set ?l = fst ` ?P"
    by (auto simp: in_set_conv_nth image_iff)
  have sl': "set ?l' = snd ` ?P"
  proof -
    have "set ?l' = {refID' (objs' ! j) | j. j < length objs \<and> key' (objs' ! j) = ?k}"
      using len by (auto simp: in_set_conv_nth)
    also have "\<dots> = snd ` ?P" using keys by (auto simp: image_iff) (metis snd_conv)
    finally show ?thesis .
  qed
  have mem: "(refID (objs ! i), refID' (objs' ! i)) \<in> ?P" using i by auto
  have iso: "(fst p \<le> fst q) = (snd p \<le> snd q)" if "p \<in> ?P" "q \<in> ?P" for p q
    using that order by auto
  have x: "refID (objs ! i) \<in> set ?l" using i by auto
  have x': "refID' (objs' ! i) \<in> set ?l'" using i len keys by auto
  have "indexOf (sort (remdups ?l)) (refID (objs ! i)) =
        indexOf (sort (remdups ?l')) (refID' (objs' ! i))"
    unfolding indexOf_uniq_sorted [OF x] indexOf_uniq_sorted [OF x'] sl sl'
    using card_below_iso [OF fin iso mem] by simp
  then show "quiltIDs lib key refID objs ! i = quiltIDs lib key' refID' objs' ! i"
    using i len keys [OF i] by (simp add: quiltIDs_def)
qed

lemma indexOf_nth: "distinct xs \<Longrightarrow> i < length xs \<Longrightarrow> indexOf xs (xs ! i) = int i"
proof (induction xs arbitrary: i)
  case Nil
  then show ?case by simp
next
  case (Cons a xs)
  show ?case
  proof (cases i)
    case 0
    then show ?thesis by simp
  next
    case (Suc j)
    with Cons.prems have "a \<noteq> xs ! j" "j < length xs" by auto
    with Cons Suc show ?thesis by (simp add: Let_def)
  qed
qed

lemma indexOf_range:
  assumes "distinct xs"
  shows "indexOf xs ` set xs = int ` {0..<length xs}"
proof -
  have "set xs = (\<lambda>i. xs ! i) ` {0..<length xs}"
    by (auto simp: in_set_conv_nth)
  then have "indexOf xs ` set xs = (\<lambda>i. indexOf xs (xs ! i)) ` {0..<length xs}"
    by (simp only: image_image)
  also have "\<dots> = int ` {0..<length xs}"
    using assms by (auto simp: indexOf_nth image_iff)
  finally show ?thesis .
qed

text \<open>As a set, the ids depend on the keys that occur and, for each key, on how many
  distinct \<open>_refID\<close>s carry it: they are the hashes of the key followed by 0, 1, ... up
  to that number.\<close>

lemma quiltIDs_set:
  "set (quiltIDs lib key refID objs) =
     (\<lambda>(k, i). hash lib (k @ showInt (int i))) `
       {(k, i). k \<in> key ` set objs \<and> i < card (refID ` {p \<in> set objs. key p = k})}"
proof -
  have ranks: "(\<lambda>x. indexOf (sort (remdups (map refID (filter (\<lambda>p. key p = k) objs)))) x) `
                 refID ` {p \<in> set objs. key p = k} =
               int ` {0..<card (refID ` {p \<in> set objs. key p = k})}" for k
  proof -
    let ?l = "sort (remdups (map refID (filter (\<lambda>p. key p = k) objs)))"
    have s: "set ?l = refID ` {p \<in> set objs. key p = k}" by auto
    have "distinct ?l" by simp
    then have "length ?l = card (set ?l)" by (rule distinct_card [symmetric])
    with indexOf_range [of ?l] s show ?thesis by simp
  qed
  show ?thesis
  proof (intro set_eqI iffI)
    fix x assume "x \<in> set (quiltIDs lib key refID objs)"
    then obtain obj where o: "obj \<in> set objs"
      and x: "x = hash lib (key obj @ showInt (indexOf
                 (sort (remdups (map refID (filter (\<lambda>p. key p = key obj) objs)))) (refID obj)))"
      by (auto simp: quiltIDs_def)
    from o have "indexOf (sort (remdups (map refID (filter (\<lambda>p. key p = key obj) objs)))) (refID obj)
        \<in> int ` {0..<card (refID ` {p \<in> set objs. key p = key obj})}"
      unfolding ranks [symmetric] by blast
    then obtain i where "i < card (refID ` {p \<in> set objs. key p = key obj})"
      and "indexOf (sort (remdups (map refID (filter (\<lambda>p. key p = key obj) objs)))) (refID obj) = int i"
      by auto
    with o x show "x \<in> (\<lambda>(k, i). hash lib (k @ showInt (int i))) `
       {(k, i). k \<in> key ` set objs \<and> i < card (refID ` {p \<in> set objs. key p = k})}"
      by (intro image_eqI [where x = "(key obj, i)"]) auto
  next
    fix x assume "x \<in> (\<lambda>(k, i). hash lib (k @ showInt (int i))) `
       {(k, i). k \<in> key ` set objs \<and> i < card (refID ` {p \<in> set objs. key p = k})}"
    then obtain k i where k: "k \<in> key ` set objs"
      and i: "i < card (refID ` {p \<in> set objs. key p = k})"
      and x: "x = hash lib (k @ showInt (int i))" by auto
    from i have "int i \<in> int ` {0..<card (refID ` {p \<in> set objs. key p = k})}" by simp
    then have "int i \<in> (\<lambda>x. indexOf (sort (remdups (map refID (filter (\<lambda>p. key p = k) objs)))) x) `
                 refID ` {p \<in> set objs. key p = k}"
      unfolding ranks .
    then obtain obj where "obj \<in> set objs" "key obj = k"
      and "indexOf (sort (remdups (map refID (filter (\<lambda>p. key p = k) objs)))) (refID obj) = int i"
      by auto
    with x show "x \<in> set (quiltIDs lib key refID objs)"
      by (auto simp: quiltIDs_def image_iff intro!: bexI [where x = obj])
  qed
qed

lemma omitted_machineKeyObj:
  "omitted (machineKeyObj m) =
     JObject [(''_refID'', JString ''''),
              (''provider'', JString (jm_provider m)),
              (''role'', JString (jm_role m)),
              (''region'', JString (jm_region m)),
              (''size'', JString (jm_size m)),
              (''floatingIp'', JString (jm_floatingIp m)),
              (''diskSize'', JNumber (jm_diskSize m)),
              (''cpu'', rangeJSON (jm_cpu m)),
              (''ram'', rangeJSON (jm_ram m)),
              (''preemptible'', JBool (jm_preemptible m))]"
  by (simp add: machineKeyObj_def omitSSHKey_def rangeJSON_def)

lemma machineKey_same:
  assumes "m'\<lparr>jm_refID := jm_refID m, jm_id := jm_id m, jm_sshKeys := jm_sshKeys m\<rparr> = m"
  shows "machineKey lib m = machineKey lib m'"
proof -
  from assms have "jm_provider m' = jm_provider m" "jm_role m' = jm_role m"
    "jm_region m' = jm_region m" "jm_size m' = jm_size m" "jm_floatingIp m' = jm_floatingIp m"
    "jm_diskSize m' = jm_diskSize m" "jm_cpu m' = jm_cpu m" "jm_ram m' = jm_ram m"
    "jm_preemptible m' = jm_preemptible m"
    by (cases m; cases m'; simp)+
  then show ?thesis by (simp add: machineKey_def omitted_machineKeyObj)
qed

lemma containerKey_same:
  assumes "c'\<lparr>jc_refID := jc_refID c, jc_id := jc_id c, jc_hostname := jc_hostname c\<rparr> = c"
  shows "containerKey lib c = containerKey lib c'"
proof -
  from assms have "jc_image c' = jc_image c" "jc_command c' = jc_command c"
    "jc_env c' = jc_env c" "jc_filepathToContent c' = jc_filepathToContent c"
    by (cases c; cases c'; simp)+
  then show ?thesis by (simp add: containerKey_def containerKeyObj_def)
qed

lemma zip_order_nth:
  assumes "length xs = length ys"
    and "\<forall>p \<in> set (zip xs ys). \<forall>q \<in> set (zip xs ys).
           k (fst p) = k (fst q) \<longrightarrow> (f (fst p) \<le> f (fst q)) = (g (snd p) \<le> g (snd q))"
    and "i < length xs" "j < length xs" "k (xs ! i) = k (xs ! j)"
  shows "((f (xs ! i) :: nat) \<le> f (xs ! j)) = ((g (ys ! i) :: nat) \<le> g (ys ! j))"
proof -
  from assms have "(xs ! i, ys ! i) \<in> set (zip xs ys)" "(xs ! j, ys ! j) \<in> set (zip xs ys)"
    by (auto simp: set_zip)
  with assms(2,5) show ?thesis by fastforce
qed

text \<open>
  C9 (amended). The \<open>id\<close> that \<open>setQuiltIDs\<close> gives a Machine or a Container is the hash
  of its key, which is written from the object's attributes without its SSH keys,
  followed by the disambiguator index of its \<open>_refID\<close>: the rank of the \<open>_refID\<close> among the
  distinct \<open>_refID\<close>s of the objects with the same key. So two lists of Machines that
  agree, object by object, on every attribute except the SSH keys (and the \<open>id\<close> left by
  an earlier call), and in which the objects sharing a key carry their \<open>_refID\<close>s in the
  same relative order, get the same \<open>id\<close> strings; \<open>setQuiltIDs\<close> never fails. The same
  holds for Containers, whose key also leaves the hostname out. Nothing is asked of the
  \<open>_refID\<close>s of objects with different keys.
\<close>

theorem setQuiltIDs_deterministic:
  assumes m_attrs: "list_all2 (\<lambda>m m'. m'\<lparr>jm_refID := jm_refID m, jm_id := jm_id m,
                                         jm_sshKeys := jm_sshKeys m\<rparr> = m) ms ms'"
    and m_order: "\<forall>p \<in> set (zip ms ms'). \<forall>q \<in> set (zip ms ms').
                    machineKey lib (fst p) = machineKey lib (fst q) \<longrightarrow>
                    (jm_refID (fst p) \<le> jm_refID (fst q)) = (jm_refID (snd p) \<le> jm_refID (snd q))"
    and c_attrs: "list_all2 (\<lambda>c c'. c'\<lparr>jc_refID := jc_refID c, jc_id := jc_id c,
                                         jc_hostname := jc_hostname c\<rparr> = c) cs cs'"
    and c_order: "\<forall>p \<in> set (zip cs cs'). \<forall>q \<in> set (zip cs cs').
                    containerKey lib (fst p) = containerKey lib (fst q) \<longrightarrow>
                    (jc_refID (fst p) \<le> jc_refID (fst q)) = (jc_refID (snd p) \<le> jc_refID (snd q))"
  shows "(\<exists>r r'. setMachineIDs lib ms = Inr r \<and> setMachineIDs lib ms' = Inr r' \<and>
                 map jm_id r = map jm_id r' \<and>
                 map jm_id r = map Some (quiltIDs lib (machineKey lib) jm_refID ms)) \<and>
         (\<exists>r r'. setContainerIDs lib cs = Inr r \<and> setContainerIDs lib cs' = Inr r' \<and>
                 map jc_id r = map jc_id r' \<and>
                 map jc_id r = map Some (quiltIDs lib (containerKey lib) jc_refID cs))"
proof -
  have mlen: "length ms = length ms'" using m_attrs by (rule list_all2_lengthD)
  have clen: "length cs = length cs'" using c_attrs by (rule list_all2_lengthD)
  have mk: "machineKey lib (ms ! i) = machineKey lib (ms' ! i)" if "i < length ms" for i
    using list_all2_nthD [OF m_attrs that] by (rule machineKey_same)
  have ck: "containerKey lib (cs ! i) = containerKey lib (cs' ! i)" if "i < length cs" for i
    using list_all2_nthD [OF c_attrs that] by (rule containerKey_same)
  have mo: "(jm_refID (ms ! i) \<le> jm_refID (ms ! j)) = (jm_refID (ms' ! i) \<le> jm_refID (ms' ! j))"
    if "i < length ms" "j < length ms" "machineKey lib (ms ! i) = machineKey lib (ms ! j)" for i j
    using zip_order_nth [where k = "machineKey lib" and f = jm_refID and g = jm_refID,
        OF mlen m_order that] .
  have mq: "quiltIDs lib (machineKey lib) jm_refID ms = quiltIDs lib (machineKey lib) jm_refID ms'"
    using mlen mk mo
    by (intro quiltIDs_stable [where key = "machineKey lib" and key' = "machineKey lib"
          and refID = jm_refID and refID' = jm_refID]) auto
  have co: "(jc_refID (cs ! i) \<le> jc_refID (cs ! j)) = (jc_refID (cs' ! i) \<le> jc_refID (cs' ! j))"
    if "i < length cs" "j < length cs" "containerKey lib (cs ! i) = containerKey lib (cs ! j)"
    for i j
    using zip_order_nth [where k = "containerKey lib" and f = jc_refID and g = jc_refID,
        OF clen c_order that] .
  have cq: "quiltIDs lib (containerKey lib) jc_refID cs =
            quiltIDs lib (containerKey lib) jc_refID cs'"
    using clen ck co
    by (intro quiltIDs_stable [where key = "containerKey lib" and key' = "containerKey lib"
          and refID = jc_refID and refID' = jc_refID]) auto
  have lq: "length (quiltIDs lib key refID objs) = length objs" for key refID and objs :: "'o list"
    by (simp add: quiltIDs_def)
  have mids: "map (jm_id \<circ> (\<lambda>(i, obj). obj\<lparr>jm_id := Some i\<rparr>)) (zip ids objs) = map Some ids"
    if "length ids = length objs" for ids objs
    using that by (induction ids objs rule: list_induct2) simp_all
  have cids: "map (jc_id \<circ> (\<lambda>(i, obj). obj\<lparr>jc_id := Some i\<rparr>)) (zip ids objs) = map Some ids"
    if "length ids = length objs" for ids objs
    using that by (induction ids objs rule: list_induct2) simp_all
  let ?M = "\<lambda>xs. map (\<lambda>(i, obj). obj\<lparr>jm_id := Some i\<rparr>)
                    (zip (quiltIDs lib (machineKey lib) jm_refID xs) xs)"
  let ?C = "\<lambda>xs. map (\<lambda>(i, obj). obj\<lparr>jc_id := Some i\<rparr>)
                    (zip (quiltIDs lib (containerKey lib) jc_refID xs) xs)"
  have mr: "setMachineIDs lib xs = Inr (?M xs)" for xs
    by (simp add: setMachineIDs_def setQuiltIDs_total)
  have mi: "map jm_id (?M xs) = map Some (quiltIDs lib (machineKey lib) jm_refID xs)" for xs
    using mids [OF lq [of "machineKey lib" jm_refID xs]] by simp
  have cr: "setContainerIDs lib xs = Inr (?C xs)" for xs
    by (simp add: setContainerIDs_def setQuiltIDs_total)
  have ci: "map jc_id (?C xs) = map Some (quiltIDs lib (containerKey lib) jc_refID xs)" for xs
    using cids [OF lq [of "containerKey lib" jc_refID xs]] by simp
  have m: "\<exists>r r'. setMachineIDs lib ms = Inr r \<and> setMachineIDs lib ms' = Inr r' \<and>
                 map jm_id r = map jm_id r' \<and>
                 map jm_id r = map Some (quiltIDs lib (machineKey lib) jm_refID ms)"
    using mr [of ms] mr [of ms'] mi [of ms] mi [of ms'] mq by (intro exI [of _ "?M ms"] exI [of _ "?M ms'"]) simp
  have c: "\<exists>r r'. setContainerIDs lib cs = Inr r \<and> setContainerIDs lib cs' = Inr r' \<and>
                 map jc_id r = map jc_id r' \<and>
                 map jc_id r = map Some (quiltIDs lib (containerKey lib) jc_refID cs)"
    using cr [of cs] cr [of cs'] ci [of cs] ci [of cs'] cq by (intro exI [of _ "?C cs"] exI [of _ "?C cs'"]) simp
  from m c show ?thesis by blast
qed

theorem setQuiltIDs_deterministic_witness:
  "map_sum id (map jm_id) (setMachineIDs plainLibraries twoWorkers) =
     map_sum id (map jm_id) (setMachineIDs plainLibraries twoWorkersAgain) \<and>
   map_sum id (map jm_id) (setMachineIDs plainLibraries twoWorkers) =
     Inr [Some ''sha1(_refID;provider;role;region;size;floatingIp;diskSize;cpu;ram;preemptible;0)'',
          Some ''sha1(_refID;provider;role;region;size;floatingIp;diskSize;cpu;ram;preemptible;1)''] \<and>
   map_sum id (map jc_id) (setContainerIDs plainLibraries sharedContainer) =
     map_sum id (map jc_id) (setContainerIDs plainLibraries sharedContainerAgain)"
proof -
  have a: "list_all2 (\<lambda>m m'. m'\<lparr>jm_refID := jm_refID m, jm_id := jm_id m,
                                         jm_sshKeys := jm_sshKeys m\<rparr> = m) twoWorkers twoWorkersAgain"
    by (simp add: twoWorkers_def twoWorkersAgain_def workerJS_def)
  have b: "\<forall>p \<in> set (zip twoWorkers twoWorkersAgain). \<forall>q \<in> set (zip twoWorkers twoWorkersAgain).
                    machineKey plainLibraries (fst p) = machineKey plainLibraries (fst q) \<longrightarrow>
                    (jm_refID (fst p) \<le> jm_refID (fst q)) = (jm_refID (snd p) \<le> jm_refID (snd q))"
    by (simp add: twoWorkers_def twoWorkersAgain_def workerJS_def)
  have c: "list_all2 (\<lambda>c c'. c'\<lparr>jc_refID := jc_refID c, jc_id := jc_id c,
                                         jc_hostname := jc_hostname c\<rparr> = c)
             sharedContainer sharedContainerAgain"
    by (simp add: sharedContainer_def sharedContainerAgain_def alpineJS_def)
  have d: "\<forall>p \<in> set (zip sharedContainer sharedContainerAgain).
           \<forall>q \<in> set (zip sharedContainer sharedContainerAgain).
                    containerKey plainLibraries (fst p) = containerKey plainLibraries (fst q) \<longrightarrow>
                    (jc_refID (fst p) \<le> jc_refID (fst q)) = (jc_refID (snd p) \<le> jc_refID (snd q))"
    by (simp add: sharedContainer_def sharedContainerAgain_def alpineJS_def)
  have k: "machineKey plainLibraries (workerJS\<lparr>jm_refID := n\<rparr>) =
             ''_refID;provider;role;region;size;floatingIp;diskSize;cpu;ram;preemptible;''" for n
    by (simp add: machineKey_def omitted_machineKeyObj plainLibraries_def)
  have q: "quiltIDs plainLibraries (machineKey plainLibraries) jm_refID twoWorkers =
     [''sha1(_refID;provider;role;region;size;floatingIp;diskSize;cpu;ram;preemptible;0)'',
      ''sha1(_refID;provider;role;region;size;floatingIp;diskSize;cpu;ram;preemptible;1)'']"
    using k [of 1] k [of 0]
    by (simp add: quiltIDs_def twoWorkers_def hash_def showInt_def showNat.simps
        insort_key.simps)
       (simp add: workerJS_def plainLibraries_def)
  from setQuiltIDs_deterministic [OF a b c d]
  show ?thesis using q by auto
qed

text \<open>Two Containers, \<open>web\<close> and \<open>db\<close>, that differ in their hostnames only, listed in
  the same order in two blueprints; in the second blueprint \<open>db\<close> was created before
  \<open>web\<close>, so \<open>web\<close> has the larger \<open>_refID\<close>. The two blueprints agree object by object
  on every attribute, and the \<open>id\<close> strings of \<open>web\<close> and \<open>db\<close> change places.\<close>

theorem setQuiltIDs_swapped_counterexample:
  "list_all2 (\<lambda>c c'. c'\<lparr>jc_refID := jc_refID c\<rparr> = c) twoContainers twoContainersSwapped \<and>
   map jc_hostname twoContainers = [Some ''web'', Some ''db''] \<and>
   map jc_refID twoContainers = [2, 3] \<and> map jc_refID twoContainersSwapped = [3, 2] \<and>
   map_sum id (map jc_id) (setContainerIDs plainLibraries twoContainers) =
     Inr [Some ''sha1(_refID;image;command;env;filepathToContent;0)'',
          Some ''sha1(_refID;image;command;env;filepathToContent;1)''] \<and>
   map_sum id (map jc_id) (setContainerIDs plainLibraries twoContainersSwapped) =
     Inr [Some ''sha1(_refID;image;command;env;filepathToContent;1)'',
          Some ''sha1(_refID;image;command;env;filepathToContent;0)''] \<and>
   map_sum id (map jc_id) (setContainerIDs plainLibraries twoContainers) \<noteq>
     map_sum id (map jc_id) (setContainerIDs plainLibraries twoContainersSwapped)"
proof -
  have k: "containerKey plainLibraries c = ''_refID;image;command;env;filepathToContent;''" for c
    by (simp add: containerKey_def containerKeyObj_def omitSSHKey_def plainLibraries_def)
  have q: "quiltIDs plainLibraries (containerKey plainLibraries) jc_refID twoContainers =
     [''sha1(_refID;image;command;env;filepathToContent;0)'',
      ''sha1(_refID;image;command;env;filepathToContent;1)'']"
    by (simp add: quiltIDs_def k twoContainers_def hash_def showInt_def showNat.simps
        insort_key.simps)
       (simp add: plainLibraries_def)
  have q': "quiltIDs plainLibraries (containerKey plainLibraries) jc_refID twoContainersSwapped =
     [''sha1(_refID;image;command;env;filepathToContent;1)'',
      ''sha1(_refID;image;command;env;filepathToContent;0)'']"
    by (simp add: quiltIDs_def k twoContainersSwapped_def hash_def showInt_def showNat.simps
        insort_key.simps)
       (simp add: plainLibraries_def)
  have a: "list_all2 (\<lambda>c c'. c'\<lparr>jc_refID := jc_refID c\<rparr> = c) twoContainers twoContainersSwapped"
    by (simp add: twoContainers_def twoContainersSwapped_def alpineJS_def)
  have r: "map jc_hostname twoContainers = [Some ''web'', Some ''db'']"
    "map jc_refID twoContainers = [2, 3]" "map jc_refID twoContainersSwapped = [3, 2]"
    by (simp_all add: twoContainers_def twoContainersSwapped_def alpineJS_def)
  have ids: "map_sum id (map jc_id) (setContainerIDs plainLibraries xs) =
             Inr (map Some (quiltIDs plainLibraries (containerKey plainLibraries) jc_refID xs))" for xs
  proof -
    have "map (jc_id \<circ> (\<lambda>(i, obj). obj\<lparr>jc_id := Some i\<rparr>)) (zip is objs) = map Some is"
      if "length is = length objs" for "is" :: "string list" and objs
      using that by (induction "is" objs rule: list_induct2) simp_all
    from this [of "quiltIDs plainLibraries (containerKey plainLibraries) jc_refID xs" xs]
    show ?thesis by (simp add: setContainerIDs_def setQuiltIDs_total quiltIDs_def)
  qed
  from a r show ?thesis unfolding ids q q' by simp
qed

section \<open>The two joins in the form of cloud/join.go\<close>

lemma insertFor_closed:
  "insertFor (pairs, v) cmis =
     (pairs @ zip (freshRows (idAlloc v) (length cmis)) cmis,
      v\<lparr>machineRows := machineRows v @ freshRows (idAlloc v) (length cmis),
        idAlloc := idAlloc v + int (length cmis)\<rparr>)"
  unfolding insertFor_def
proof (induction cmis rule: rev_induct)
  case Nil
  show ?case by (simp add: freshRows_def)
next
  case (snoc c cs)
  then show ?case
    by (simp add: InsertMachine_def Let_def freshRows_def)
qed

lemma removeAll_rows:
  "removeAll view dbmis =
     view\<lparr>machineRows := filter (\<lambda>x. ID x \<notin> set (map ID dbmis)) (machineRows view)\<rparr>"
  unfolding removeAll_def
proof (induction dbmis rule: rev_induct)
  case Nil
  show ?case by simp
next
  case (snoc d ds)
  then show ?case by (simp add: Remove_def removeRow_def conj_commute)
qed

lemma ID_adopt [simp]: "ID (adopt dbm cm) = ID dbm"
  by (simp add: adopt_def)

lemma commitPairs_rows:
  "machineRows (commitPairs v pairs) =
     map (\<lambda>x. case find (\<lambda>(dbm, cm). ID dbm = ID x) (rev pairs) of
                 Some (dbm, cm) \<Rightarrow> adopt dbm cm | None \<Rightarrow> x) (machineRows v)"
proof -
  have "machineRows (foldl (\<lambda>v (dbm, cm). Commit v (adopt dbm cm)) v ps) =
        foldl (\<lambda>rows y. commitRow rows (case y of (dbm, cm) \<Rightarrow> adopt dbm cm))
          (machineRows v) ps" for ps
    by (induction ps arbitrary: v) (auto simp: Commit_def)
  then show ?thesis
    unfolding commitPairs_def foldl_commit_any
    by (auto simp: case_prod_unfold intro!: map_cong split: option.splits)
qed

lemma find_fresh_zip:
  assumes "i < length cmis"
  shows "find (\<lambda>(dbm, cm). ID dbm = a + int i) (rev (zip (freshRows a (length cmis)) cmis)) =
           Some (emptyMachine\<lparr>ID := a + int i\<rparr>, cmis ! i)"
proof -
  let ?zs = "zip (freshRows a (length cmis)) cmis"
  have len: "length (freshRows a (length cmis)) = length cmis" by (simp add: freshRows_def)
  have "map (ID \<circ> fst) ?zs = map ID (map fst ?zs)" by simp
  also have "\<dots> = map ID (freshRows a (length cmis))" using len by (simp only: map_fst_zip)
  finally have "distinct (map (ID \<circ> fst) ?zs)" using distinct_freshRows [of a "length cmis"] by simp
  then have d: "distinct (map (ID \<circ> fst) (rev ?zs))"
    by (simp only: rev_map [symmetric] distinct_rev)
  have z: "?zs ! i = (emptyMachine\<lparr>ID := a + int i\<rparr>, cmis ! i)"
    using assms len by (simp add: freshRows_nth)
  have m: "(emptyMachine\<lparr>ID := a + int i\<rparr>, cmis ! i) \<in> set (rev ?zs)"
    using assms len z by (metis length_zip min.idem nth_mem set_rev)
  from find_unique_key [OF d m] show ?thesis
    by (simp add: case_prod_unfold)
qed

text \<open>\<open>updateDBMachines\<close> removes every unmatched row, whatever its \<open>Status\<close>, and
  inserts a row for every unmatched cloud machine.\<close>

lemma updateDBMachines_unmatched:
  assumes joined: "JoinScore w (selectMachines cld view) cloudMachines machineScore =
                     Inr (pairs, dbmis, cmis)"
    and alloc: "list_all (\<lambda>x. ID x < idAlloc view) (machineRows view)"
    and part: "set dbmis \<subseteq> set (machineRows view)"
  shows "\<exists>v'. updateDBMachines w cld view cloudMachines = Inr v' \<and>
           (\<forall>dbm \<in> set dbmis. lookupRow (machineRows v') (ID dbm) = None) \<and>
           (\<forall>i < length cmis.
              lookupRow (machineRows view) (idAlloc view + int i) = None \<and>
              lookupRow (machineRows v') (idAlloc view + int i) =
                Some ((cmis ! i)\<lparr>ID := idAlloc view + int i, Status := '''', SSHKeys := nil\<rparr>))"
proof -
  let ?a = "idAlloc view"
  let ?n = "length cmis"
  let ?pairs' = "pairs @ zip (freshRows ?a ?n) cmis"
  let ?h = "\<lambda>x. case find (\<lambda>(dbm, cm). ID dbm = ID x) (rev ?pairs') of
                   Some (dbm, cm) \<Rightarrow> adopt dbm cm | None \<Rightarrow> x"
  let ?v' = "commitPairs (removeAll
      (view\<lparr>machineRows := machineRows view @ freshRows ?a ?n, idAlloc := ?a + int ?n\<rparr>) dbmis) ?pairs'"
  have res: "updateDBMachines w cld view cloudMachines = Inr ?v'"
    by (simp add: updateDBMachines_def joined insertFor_closed)
  have rows: "machineRows ?v' =
      map ?h (filter (\<lambda>x. ID x \<notin> set (map ID dbmis)) (machineRows view @ freshRows ?a ?n))"
    by (simp add: commitPairs_rows removeAll_rows)
  have hID: "ID (?h x) = ID x" for x
    by (auto split: option.splits simp: find_Some_iff)
  have look: "lookupRow (machineRows ?v') k =
      map_option ?h (if k \<in> set (map ID dbmis) then None
                     else (case lookupRow (machineRows view) k of
                             Some x \<Rightarrow> Some x | None \<Rightarrow> lookupRow (freshRows ?a ?n) k))" for k
    unfolding rows
    by (subst lookupRow_map [OF hID]) (simp only: lookupRow_filter lookupRow_append)
  have old: "ID x < ?a" if "x \<in> set (machineRows view)" for x
    using alloc that by (simp add: list_all_iff)
  have gone: "lookupRow (machineRows ?v') (ID dbm) = None" if "dbm \<in> set dbmis" for dbm
    using that by (simp add: look)
  have inserted: "lookupRow (machineRows view) (?a + int i) = None \<and>
            lookupRow (machineRows ?v') (?a + int i) =
              Some ((cmis ! i)\<lparr>ID := ?a + int i, Status := '''', SSHKeys := nil\<rparr>)" if i: "i < ?n" for i
  proof -
    have n: "lookupRow (machineRows view) (?a + int i) = None"
      using old by (force simp: lookupRow_None)
    have ng: "?a + int i \<notin> set (map ID dbmis)"
      using part old by force
    have f: "lookupRow (freshRows ?a ?n) (?a + int i) = Some (emptyMachine\<lparr>ID := ?a + int i\<rparr>)"
      using i by (simp add: lookupRow_freshRows)
    have "find (\<lambda>(dbm, cm). ID dbm = ?a + int i) (rev ?pairs') =
            Some (emptyMachine\<lparr>ID := ?a + int i\<rparr>, cmis ! i)"
      unfolding find_rev_app find_fresh_zip [OF i] by simp
    then have "?h (emptyMachine\<lparr>ID := ?a + int i\<rparr>) =
                 (cmis ! i)\<lparr>ID := ?a + int i, Status := '''', SSHKeys := nil\<rparr>"
      by (simp add: adopt_def emptyMachine_def)
    with n f ng show ?thesis by (simp add: look)
  qed
  from res gone inserted show ?thesis by blast
qed

lemma lookupRow_Commit:
  "lookupRow (machineRows (Commit v r)) k =
     (if k = ID r then (case lookupRow (machineRows v) k of None \<Rightarrow> None | Some x \<Rightarrow> Some r)
      else lookupRow (machineRows v) k)"
  by (simp add: Commit_def lookupRow_commitRow)

lemma idAlloc_Commit [simp]: "idAlloc (Commit v r) = idAlloc v"
  by (simp add: Commit_def)

lemma status_loop_other:
  assumes "k \<notin> ID ` snd ` set pairs"
  shows "lookupRow (machineRows (fst (foldl (statusStep w) s pairs))) k =
           lookupRow (machineRows (fst s)) k"
  using assms
proof (induction pairs rule: rev_induct)
  case Nil
  show ?case by simp
next
  case (snoc p ps)
  obtain v u where s: "foldl (statusStep w) s ps = (v, u)"
    by (cases "foldl (statusStep w) s ps") auto
  from snoc show ?case
    by (cases p) (simp add: s Let_def lookupRow_Commit)
qed

lemma status_loop_idAlloc: "idAlloc (fst (foldl (statusStep w) s pairs)) = idAlloc (fst s)"
proof (induction pairs rule: rev_induct)
  case Nil
  show ?case by simp
next
  case (snoc p ps)
  obtain v u where s: "foldl (statusStep w) s ps = (v, u)"
    by (cases "foldl (statusStep w) s ps") auto
  from snoc show ?case
    by (cases p) (simp add: s Let_def)
qed

lemma stopAll_loop_batch:
  "snd (foldl stopAllStep (v, st) ds) = st @ map (\<lambda>dbm. dbm\<lparr>Status := Stopping\<rparr>) ds"
proof (induction ds rule: rev_induct)
  case Nil
  show ?case by simp
next
  case (snoc d ds)
  then show ?case by (cases "foldl stopAllStep (v, st) ds") auto
qed

lemma stopAll_loop_idAlloc: "idAlloc (fst (foldl stopAllStep s ds)) = idAlloc (fst s)"
proof (induction ds rule: rev_induct)
  case Nil
  show ?case by simp
next
  case (snoc d ds)
  then show ?case by (cases "foldl stopAllStep s ds") auto
qed

lemma lookupRow_stopAllStep:
  "lookupRow (machineRows (fst (stopAllStep s dbm))) k =
     (if k = ID dbm
      then (case lookupRow (machineRows (fst s)) k of
              None \<Rightarrow> None | Some x \<Rightarrow> Some (dbm\<lparr>Status := Stopping\<rparr>))
      else lookupRow (machineRows (fst s)) k)"
  by (cases s) (simp add: lookupRow_Commit)

lemma stopAll_loop_other:
  "k \<notin> ID ` set ds \<Longrightarrow>
   lookupRow (machineRows (fst (foldl stopAllStep s ds))) k = lookupRow (machineRows (fst s)) k"
  by (induction ds rule: rev_induct) (simp_all add: lookupRow_stopAllStep)

lemma stopAll_loop_row:
  assumes "distinct (map ID ds)" and "dbm \<in> set ds"
    and "lookupRow (machineRows (fst s)) (ID dbm) \<noteq> None"
  shows "lookupRow (machineRows (fst (foldl stopAllStep s ds))) (ID dbm) =
           Some (dbm\<lparr>Status := Stopping\<rparr>)"
  using assms
proof (induction ds rule: rev_induct)
  case Nil
  then show ?case by simp
next
  case (snoc d ds)
  show ?case
  proof (cases "dbm \<in> set ds")
    case True
    with snoc.prems have "ID d \<noteq> ID dbm" by (auto simp: image_iff)
    moreover from snoc True
    have "lookupRow (machineRows (fst (foldl stopAllStep s ds))) (ID dbm) =
            Some (dbm\<lparr>Status := Stopping\<rparr>)" by simp
    ultimately show ?thesis by (simp add: lookupRow_stopAllStep)
  next
    case False
    with snoc.prems have eq: "d = dbm" and "ID dbm \<notin> ID ` set ds" by auto
    then have "lookupRow (machineRows (fst (foldl stopAllStep s ds))) (ID dbm) =
                 lookupRow (machineRows (fst s)) (ID dbm)"
      by (simp add: stopAll_loop_other)
    with eq snoc.prems(3) show ?thesis by (auto simp: lookupRow_stopAllStep)
  qed
qed

lemma bootAll_loop_old:
  assumes "k < idAlloc v"
  shows "lookupRow (machineRows (fst (foldl bootAllStep (v, bt) bpmis))) k =
           lookupRow (machineRows v) k \<and>
         idAlloc v \<le> idAlloc (fst (foldl bootAllStep (v, bt) bpmis))"
proof (induction bpmis rule: rev_induct)
  case Nil
  show ?case by simp
next
  case (snoc bpm bpmis)
  obtain v' bt' where s: "foldl bootAllStep (v, bt) bpmis = (v', bt')"
    by (cases "foldl bootAllStep (v, bt) bpmis") auto
  with snoc assms have ne: "k \<noteq> idAlloc v'" and le: "idAlloc v \<le> idAlloc v'"
    and old: "lookupRow (machineRows v') k = lookupRow (machineRows v) k" by auto
  let ?r = "emptyMachine\<lparr>ID := idAlloc v'\<rparr>"
  from ne have "lookupRow (commitRow (machineRows v' @ [?r])
                   (bpm\<lparr>ID := idAlloc v', Status := Booting\<rparr>)) k =
                lookupRow (machineRows v') k"
    by (simp add: lookupRow_commitRow lookupRow_append)
       (simp add: lookupRow_def split: option.splits)
  with old le show ?case
    by (simp add: s InsertMachine_def Let_def Commit_def)
qed

text \<open>
  \<open>planUpdates\<close> returns whenever the desired machines and the join do. Whatever the join
  returns (the matched and the unmatched rows being rows of the table, with keys apart),
  every unmatched row is committed with \<open>Status = Stopping\<close> and is in the stop batch, with
  or without a cloud ID, Stopping before or not; no row is removed.
\<close>

lemma planUpdates_rows:
  assumes wanted: "join_desiredMachines w cld []
             (Machines (case GetBlueprint view of Inl e \<Rightarrow> emptyBlueprint | Inr b \<Rightarrow> b)) = Inr bpms"
    and joined: "JoinScore w bpms (selectMachines cld view) machineScore =
                   Inr (pairs, bpmis, dbmis)"
    and alloc: "list_all (\<lambda>x. ID x < idAlloc view) (machineRows view)"
    and part: "set dbmis \<subseteq> set (machineRows view)"
    and apart: "distinct (map ID (map snd pairs @ dbmis))"
  shows "\<exists>u. planUpdates w cld view = Inr u \<and>
           stopU u = map (\<lambda>dbm. dbm\<lparr>Status := Stopping\<rparr>) dbmis \<and>
           (\<forall>dbm \<in> set dbmis.
              lookupRow (machineRows (viewU u)) (ID dbm) = Some (dbm\<lparr>Status := Stopping\<rparr>))"
proof -
  obtain v1 up where s1: "foldl (statusStep w) (view, []) pairs = (v1, up)"
    by (cases "foldl (statusStep w) (view, []) pairs") auto
  obtain v2 st where s2: "foldl stopAllStep (v1, []) dbmis = (v2, st)"
    by (cases "foldl stopAllStep (v1, []) dbmis") auto
  obtain v3 bt where s3: "foldl bootAllStep (v2, []) bpmis = (v3, bt)"
    by (cases "foldl bootAllStep (v2, []) bpmis") auto
  let ?u = "\<lparr>viewU = v3, bootU = bt, stopU = st, updateIPsU = up\<rparr>"
  have res: "planUpdates w cld view = Inr ?u"
    using wanted joined by (simp add: planUpdates_def Let_def s1 s2 s3)
  have st: "st = map (\<lambda>dbm. dbm\<lparr>Status := Stopping\<rparr>) dbmis"
    using stopAll_loop_batch [of v1 "[]" dbmis] s2 by simp
  have a1: "idAlloc v1 = idAlloc view"
    using status_loop_idAlloc [of w "(view, [])" pairs] s1 by simp
  have a2: "idAlloc v2 = idAlloc view"
    using stopAll_loop_idAlloc [of "(v1, [])" dbmis] s2 a1 by simp
  have d: "distinct (map ID dbmis)" using apart by simp
  have rows: "lookupRow (machineRows v3) (ID dbm) = Some (dbm\<lparr>Status := Stopping\<rparr>)"
    if m: "dbm \<in> set dbmis" for dbm
  proof -
    from m part have mem: "dbm \<in> set (machineRows view)" by auto
    then have lt: "ID dbm < idAlloc view" using alloc by (simp add: list_all_iff)
    from mem have l0: "lookupRow (machineRows view) (ID dbm) \<noteq> None"
      by (simp add: lookupRow_None)
    from apart have "ID ` set (map snd pairs) \<inter> ID ` set dbmis = {}"
      by (simp only: map_append distinct_append set_map)
    with m have "ID dbm \<notin> ID ` snd ` set pairs" by auto
    from status_loop_other [OF this, of w "(view, [])"]
    have "lookupRow (machineRows v1) (ID dbm) = lookupRow (machineRows view) (ID dbm)"
      by (simp add: s1)
    with l0 have "lookupRow (machineRows (fst (v1, []::Machine list))) (ID dbm) \<noteq> None" by simp
    from stopAll_loop_row [OF d m this]
    have l2: "lookupRow (machineRows v2) (ID dbm) = Some (dbm\<lparr>Status := Stopping\<rparr>)"
      by (simp add: s2)
    from lt a2 have "ID dbm < idAlloc v2" by simp
    from bootAll_loop_old [OF this, of "[]" bpmis]
    have "lookupRow (machineRows v3) (ID dbm) = lookupRow (machineRows v2) (ID dbm)"
      by (simp add: s3)
    with l2 show ?thesis by simp
  qed
  from res st rows show ?thesis by auto
qed

section \<open>Unmatched rows in the two joins, in both forms of the reconciler\<close>

lemma join_threeRows:
  "Join quietWorld [cloudA, cloudN] (SelectFromMachine threeRows (mFilter awsCloud)) phase1Score =
     ([(cloudA, rowA)], [cloudN], [rowB, rowC])"
  by (simp add: quietWorld_def SelectFromMachine_def threeRows_def mFilter_def awsCloud_def
      phase1Score_def rowA_def rowB_def rowC_def cloudA_def cloudN_def emptyMachine_def)

lemma select_threeRows: "selectMachines awsCloud threeRows = [rowA, rowB, rowC]"
  by (simp add: selectMachines_def SelectFromMachine_def threeRows_def awsCloud_def
      rowA_def rowB_def rowC_def)

lemma score_threeRows:
  "machineScore rowA cloudA = Inr 0" "machineScore rowA cloudN = Inr (- 1)"
  "machineScore rowB cloudA = Inr 3" "machineScore rowB cloudN = Inr (- 1)"
  "machineScore rowC cloudA = Inr (- 1)" "machineScore rowC cloudN = Inr (- 1)"
  by (simp_all add: machineScore_def rowA_def rowB_def rowC_def cloudA_def cloudN_def
      emptyMachine_def db_None_def Worker_def)

lemma joinScore_threeRows:
  "JoinScore joinWorld (selectMachines awsCloud threeRows) [cloudA, cloudN] machineScore =
     Inr ([(rowA, cloudA)], [rowB, rowC], [cloudN])"
proof -
  have "CloudID cloudA \<noteq> CloudID cloudN" by (simp add: cloudA_def cloudN_def)
  then have ne: "cloudA \<noteq> cloudN" by auto
  show ?thesis
    unfolding select_threeRows
    by (simp add: joinWorld_def scoredJoin_def score_threeRows ne)
qed

text \<open>
  C3 (amended). In Phase 1 the provider's listed machines are joined with the database
  rows of the reconciler's provider and region. Whatever the join returns (the matched
  and the unmatched rows being rows of the table, with keys apart), every unmatched
  cloud machine gets a new row, under a key that was not in use, that holds the
  machine's cloud fields, and every unmatched row whose \<open>Status\<close> is not Booting is
  removed. An unmatched row whose \<open>Status\<close> is Booting is kept unchanged by Phase 1 of
  \<open>transact\<close>; \<open>updateDBMachines\<close> of cloud/join.go, which always returns when its join
  does, removes it like every other unmatched row.
\<close>

theorem phase1_updateDBMachines_unmatched:
  assumes joined: "Join w cloudMachines (SelectFromMachine view (mFilter cld)) phase1Score =
                     (pairs, cmis, dbmis)"
    and keys: "distinct (map ID (machineRows view))"
    and alloc: "list_all (\<lambda>x. ID x < idAlloc view) (machineRows view)"
    and part: "set (map snd pairs) \<union> set dbmis \<subseteq> set (machineRows view)"
    and apart: "distinct (map ID (map snd pairs @ dbmis))"
    and joined': "JoinScore jw (selectMachines cld view) cloudMachines machineScore =
                    Inr (pairs', dbmis', cmis')"
    and part': "set dbmis' \<subseteq> set (machineRows view)"
  shows "((\<forall>dbm \<in> set dbmis.
             lookupRow (machineRows (phase1 w cld cloudMachines view)) (ID dbm) =
               (if Status dbm = Booting then Some dbm else None)) \<and>
          (\<forall>i < length cmis.
             lookupRow (machineRows view) (idAlloc view + int i) = None \<and>
             lookupRow (machineRows (phase1 w cld cloudMachines view)) (idAlloc view + int i) =
               Some (copyCloud (cmis ! i) (emptyMachine\<lparr>ID := idAlloc view + int i\<rparr>)))) \<and>
         (\<exists>v'. updateDBMachines jw cld view cloudMachines = Inr v' \<and>
            (\<forall>dbm \<in> set dbmis'. lookupRow (machineRows v') (ID dbm) = None) \<and>
            (\<forall>i < length cmis'.
               lookupRow (machineRows view) (idAlloc view + int i) = None \<and>
               lookupRow (machineRows v') (idAlloc view + int i) =
                 Some ((cmis' ! i)\<lparr>ID := idAlloc view + int i, Status := '''', SSHKeys := nil\<rparr>)))"
proof (rule conjI)
  show "(\<forall>dbm \<in> set dbmis.
             lookupRow (machineRows (phase1 w cld cloudMachines view)) (ID dbm) =
               (if Status dbm = Booting then Some dbm else None)) \<and>
          (\<forall>i < length cmis.
             lookupRow (machineRows view) (idAlloc view + int i) = None \<and>
             lookupRow (machineRows (phase1 w cld cloudMachines view)) (idAlloc view + int i) =
               Some (copyCloud (cmis ! i) (emptyMachine\<lparr>ID := idAlloc view + int i\<rparr>)))"
    using joined keys alloc part apart by (rule phase1_rows)
next
  show "\<exists>v'. updateDBMachines jw cld view cloudMachines = Inr v' \<and>
            (\<forall>dbm \<in> set dbmis'. lookupRow (machineRows v') (ID dbm) = None) \<and>
            (\<forall>i < length cmis'.
               lookupRow (machineRows view) (idAlloc view + int i) = None \<and>
               lookupRow (machineRows v') (idAlloc view + int i) =
                 Some ((cmis' ! i)\<lparr>ID := idAlloc view + int i, Status := '''', SSHKeys := nil\<rparr>))"
    using joined' alloc part' by (rule updateDBMachines_unmatched)
qed

theorem phase1_updateDBMachines_unmatched_witness:
  "map (lookupRow (machineRows (phase1 quietWorld awsCloud [cloudA, cloudN] threeRows))) [2, 3, 4] =
     [None, Some rowC,
      Some (emptyMachine\<lparr>ID := 4, Provider := Amazon, Region := ''us-west-1'',
        Size := ''t2.micro'', DiskSize := 32, CloudID := ''i-9'', PublicIP := ''5.6.7.8'',
        PrivateIP := ''10.0.0.9''\<rparr>)] \<and>
   map_sum id (\<lambda>v. map (lookupRow (machineRows v)) [2, 3, 4])
     (updateDBMachines joinWorld awsCloud threeRows [cloudA, cloudN]) =
     Inr [None, None,
      Some (emptyMachine\<lparr>ID := 4, Provider := Amazon, Region := ''us-west-1'',
        Size := ''t2.micro'', DiskSize := 32, CloudID := ''i-9'', PublicIP := ''5.6.7.8'',
        PrivateIP := ''10.0.0.9''\<rparr>)]"
proof -
  have keys: "distinct (map ID (machineRows threeRows))"
    by (simp add: threeRows_def rowA_def rowB_def rowC_def)
  have alloc: "list_all (\<lambda>x. ID x < idAlloc threeRows) (machineRows threeRows)"
    by (simp add: threeRows_def rowA_def rowB_def rowC_def)
  have part: "set (map snd [(cloudA, rowA)]) \<union> set [rowB, rowC] \<subseteq> set (machineRows threeRows)"
    by (simp add: threeRows_def)
  have apart: "distinct (map ID (map snd [(cloudA, rowA)] @ [rowB, rowC]))"
    by (simp add: rowA_def rowB_def rowC_def)
  have part': "set [rowB, rowC] \<subseteq> set (machineRows threeRows)"
    by (simp add: threeRows_def)
  have ids: "ID rowB = 2" "ID rowC = 3" "Status rowB \<noteq> Booting" "Status rowC = Booting"
    by (simp_all add: rowB_def rowC_def Booting_def Connected_def)
  have new: "copyCloud cloudN (emptyMachine\<lparr>ID := 4\<rparr>) =
      emptyMachine\<lparr>ID := 4, Provider := Amazon, Region := ''us-west-1'',
        Size := ''t2.micro'', DiskSize := 32, CloudID := ''i-9'', PublicIP := ''5.6.7.8'',
        PrivateIP := ''10.0.0.9''\<rparr>"
    by (simp add: copyCloud_def cloudN_def emptyMachine_def)
  have new': "cloudN\<lparr>ID := 4, Status := '''', SSHKeys := nil\<rparr> =
      emptyMachine\<lparr>ID := 4, Provider := Amazon, Region := ''us-west-1'',
        Size := ''t2.micro'', DiskSize := 32, CloudID := ''i-9'', PublicIP := ''5.6.7.8'',
        PrivateIP := ''10.0.0.9''\<rparr>"
    by (simp add: cloudN_def emptyMachine_def)
  have four: "idAlloc threeRows = 4" by (simp add: threeRows_def)
  from phase1_updateDBMachines_unmatched
    [OF join_threeRows keys alloc part apart joinScore_threeRows part']
  show ?thesis using ids new new' four by auto
qed

text \<open>The unmatched row \<open>rowC\<close> is Booting: \<open>updateDBMachines\<close> removes it.\<close>

theorem updateDBMachines_booting_counterexample:
  "JoinScore joinWorld (selectMachines awsCloud threeRows) [cloudA, cloudN] machineScore =
     Inr ([(rowA, cloudA)], [rowB, rowC], [cloudN]) \<and>
   Status rowC = Booting \<and>
   lookupRow (machineRows threeRows) 3 = Some rowC \<and>
   map_sum id (\<lambda>v. lookupRow (machineRows v) 3)
     (updateDBMachines joinWorld awsCloud threeRows [cloudA, cloudN]) = Inr None"
proof -
  have alloc: "list_all (\<lambda>x. ID x < idAlloc threeRows) (machineRows threeRows)"
    by (simp add: threeRows_def rowA_def rowB_def rowC_def)
  have part': "set [rowB, rowC] \<subseteq> set (machineRows threeRows)"
    by (simp add: threeRows_def)
  have facts: "ID rowC = 3" "Status rowC = Booting"
    "lookupRow (machineRows threeRows) 3 = Some rowC"
    by (simp_all add: lookupRow_def threeRows_def rowA_def rowB_def rowC_def Booting_def)
  from updateDBMachines_unmatched [OF joinScore_threeRows alloc part']
  obtain v' where "updateDBMachines joinWorld awsCloud threeRows [cloudA, cloudN] = Inr v'"
    and "\<forall>dbm \<in> set [rowB, rowC]. lookupRow (machineRows v') (ID dbm) = None"
    by blast
  with facts joinScore_threeRows show ?thesis by simp
qed

lemma wanted_fourRows:
  "join_desiredMachines joinWorld awsCloud []
     (Machines (case GetBlueprint fourRows of Inl e \<Rightarrow> emptyBlueprint | Inr b \<Rightarrow> b)) =
     Inr [desiredWorker]"
  by (simp add: GetBlueprint_def fourRows_def join_desiredMachine_def defaultRegion_def
      workerBlueprint_def workerSpec_def joinWorld_def quietWorld_def awsCloud_def
      emptyMachine_def Amazon_def Worker_def Master_def desiredWorker_def)

lemma select_fourRows: "selectMachines awsCloud fourRows = [rowA, rowB, rowC, rowS]"
  by (simp add: selectMachines_def SelectFromMachine_def fourRows_def awsCloud_def
      rowA_def rowB_def rowC_def rowS_def)

lemma score_fourRows:
  "machineScore desiredWorker rowA = Inr 2" "machineScore desiredWorker rowB = Inr 2"
  "machineScore desiredWorker rowC = Inr (- 1)" "machineScore desiredWorker rowS = Inr 2"
  by (simp_all add: machineScore_def rowA_def rowB_def rowC_def rowS_def desiredWorker_def
      emptyMachine_def db_None_def Worker_def)

lemma joinScore_fourRows:
  "JoinScore joinWorld [desiredWorker] (selectMachines awsCloud fourRows) machineScore =
     Inr ([(desiredWorker, rowA)], [], [rowB, rowC, rowS])"
  unfolding select_fourRows
  by (simp add: joinWorld_def scoredJoin_def score_fourRows)

text \<open>
  C4 (amended). In Phase 2 the database rows of the reconciler's provider and region are
  joined with the desired machines. Whatever the join returns (the matched and the
  unmatched rows being rows of the table, with keys apart), for every unmatched row:
  in \<open>transact\<close>, if its \<open>CloudID\<close> is empty the row is removed and is not in the stop batch;
  if it has a \<open>CloudID\<close> and is already Stopping it is left as it is and is not in the
  stop batch; otherwise the row is committed with \<open>Status = Stopping\<close> (and \<open>StatusTime\<close>
  the current time) and the machine is in the stop batch, and a stop batch that is not
  empty is what \<open>runOnce\<close> hands to the provider's \<open>Stop\<close>. In \<open>planUpdates\<close> of
  cloud/join.go, which returns whenever its desired machines and its join do, every
  unmatched row is committed with \<open>Status = Stopping\<close> and is in the stop batch returned,
  whether or not it has a \<open>CloudID\<close> and whether or not it was Stopping before; no
  unmatched row is removed.
\<close>

theorem phase2_planUpdates_unmatched:
  assumes wanted: "desiredMachines w cld stitch = Inr desired"
    and joined: "Join w (SelectFromMachine view (mFilter cld)) desired phase2Score =
                   (pairs, dbmis, smis)"
    and keys: "distinct (map ID (machineRows view))"
    and alloc: "list_all (\<lambda>x. ID x < idAlloc view) (machineRows view)"
    and part: "set (map fst pairs) \<union> set dbmis \<subseteq> set (machineRows view)"
    and apart: "distinct (map ID (map fst pairs @ dbmis))"
    and wanted': "join_desiredMachines jw cld []
                    (Machines (case GetBlueprint view of Inl e \<Rightarrow> emptyBlueprint | Inr b \<Rightarrow> b)) =
                    Inr bpms"
    and joined': "JoinScore jw bpms (selectMachines cld view) machineScore =
                    Inr (pairs', bpmis, dbmis')"
    and part': "set dbmis' \<subseteq> set (machineRows view)"
    and apart': "distinct (map ID (map snd pairs' @ dbmis'))"
  shows "(\<exists>r. phase2 w cld now stitch view = Inr r \<and>
           stop2 r = filter (\<lambda>dbm. CloudID dbm \<noteq> '''' \<and> Status dbm \<noteq> Stopping) dbmis \<and>
           (\<forall>dbm \<in> set dbmis.
              lookupRow (machineRows (view2 r)) (ID dbm) =
                (if CloudID dbm = '''' then None
                 else if Status dbm = Stopping then Some dbm
                 else Some (dbm\<lparr>Status := Stopping, StatusTime := now\<rparr>))) \<and>
           (stop2 r \<noteq> [] \<longrightarrow>
              Stop (stop2 r) \<in> set (fst (apply_plan w
                 \<lparr>acls = as, machines = ms, boot = boot2 r, stop = stop2 r,
                  updateIP = updateIP2 r\<rparr>)))) \<and>
         (\<exists>u. planUpdates jw cld view = Inr u \<and>
            stopU u = map (\<lambda>dbm. dbm\<lparr>Status := Stopping\<rparr>) dbmis' \<and>
            (\<forall>dbm \<in> set dbmis'.
               lookupRow (machineRows (viewU u)) (ID dbm) = Some (dbm\<lparr>Status := Stopping\<rparr>)))"
proof (rule conjI)
  show "\<exists>r. phase2 w cld now stitch view = Inr r \<and>
           stop2 r = filter (\<lambda>dbm. CloudID dbm \<noteq> '''' \<and> Status dbm \<noteq> Stopping) dbmis \<and>
           (\<forall>dbm \<in> set dbmis.
              lookupRow (machineRows (view2 r)) (ID dbm) =
                (if CloudID dbm = '''' then None
                 else if Status dbm = Stopping then Some dbm
                 else Some (dbm\<lparr>Status := Stopping, StatusTime := now\<rparr>))) \<and>
           (stop2 r \<noteq> [] \<longrightarrow>
              Stop (stop2 r) \<in> set (fst (apply_plan w
                 \<lparr>acls = as, machines = ms, boot = boot2 r, stop = stop2 r,
                  updateIP = updateIP2 r\<rparr>)))"
    using wanted joined keys alloc part apart by (rule phase2_rows)
next
  show "\<exists>u. planUpdates jw cld view = Inr u \<and>
            stopU u = map (\<lambda>dbm. dbm\<lparr>Status := Stopping\<rparr>) dbmis' \<and>
            (\<forall>dbm \<in> set dbmis'.
               lookupRow (machineRows (viewU u)) (ID dbm) = Some (dbm\<lparr>Status := Stopping\<rparr>))"
    using wanted' joined' alloc part' apart' by (rule planUpdates_rows)
qed

lemma facts_fourRows:
  "ID rowB = 2" "ID rowC = 3" "ID rowS = 4"
  "CloudID rowB \<noteq> ''''" "CloudID rowC = ''''" "CloudID rowS = ''i-4''"
  "Status rowB \<noteq> Stopping" "Status rowS = Stopping" "rowS\<lparr>Status := Stopping\<rparr> = rowS"
  by (simp_all add: rowB_def rowC_def rowS_def emptyMachine_def Stopping_def Connected_def)

theorem phase2_planUpdates_unmatched_witness:
  "map_sum id stop2 (phase2 quietWorld awsCloud 5000 workerBlueprint fourRows) = Inr [rowB] \<and>
   map_sum id (\<lambda>r. map (lookupRow (machineRows (view2 r))) [2, 3, 4])
     (phase2 quietWorld awsCloud 5000 workerBlueprint fourRows) =
     Inr [Some (rowB\<lparr>Status := Stopping, StatusTime := 5000\<rparr>), None, Some rowS] \<and>
   map_sum id stopU (planUpdates joinWorld awsCloud fourRows) =
     Inr [rowB\<lparr>Status := Stopping\<rparr>, rowC\<lparr>Status := Stopping\<rparr>, rowS] \<and>
   map_sum id (\<lambda>u. map (lookupRow (machineRows (viewU u))) [2, 3, 4])
     (planUpdates joinWorld awsCloud fourRows) =
     Inr [Some (rowB\<lparr>Status := Stopping\<rparr>), Some (rowC\<lparr>Status := Stopping\<rparr>), Some rowS]"
proof -
  have keys: "distinct (map ID (machineRows fourRows))"
    by (simp add: fourRows_def rowA_def rowB_def rowC_def rowS_def)
  have alloc: "list_all (\<lambda>x. ID x < idAlloc fourRows) (machineRows fourRows)"
    by (simp add: fourRows_def rowA_def rowB_def rowC_def rowS_def)
  have part: "set (map fst [(rowA, desiredWorker)]) \<union> set [rowB, rowC, rowS]
                \<subseteq> set (machineRows fourRows)"
    by (simp add: fourRows_def)
  have apart: "distinct (map ID (map fst [(rowA, desiredWorker)] @ [rowB, rowC, rowS]))"
    by (simp add: rowA_def rowB_def rowC_def rowS_def)
  have part': "set [rowB, rowC, rowS] \<subseteq> set (machineRows fourRows)"
    by (simp add: fourRows_def)
  have apart': "distinct (map ID (map snd [(desiredWorker, rowA)] @ [rowB, rowC, rowS]))"
    by (simp add: rowA_def rowB_def rowC_def rowS_def)
  from phase2_planUpdates_unmatched
    [OF desired_fourRows join_fourRows keys alloc part apart wanted_fourRows
        joinScore_fourRows part' apart', of 5000]
  obtain r u where "phase2 quietWorld awsCloud 5000 workerBlueprint fourRows = Inr r"
    and "stop2 r = filter (\<lambda>dbm. CloudID dbm \<noteq> '''' \<and> Status dbm \<noteq> Stopping) [rowB, rowC, rowS]"
    and "\<forall>dbm \<in> set [rowB, rowC, rowS].
              lookupRow (machineRows (view2 r)) (ID dbm) =
                (if CloudID dbm = '''' then None
                 else if Status dbm = Stopping then Some dbm
                 else Some (dbm\<lparr>Status := Stopping, StatusTime := 5000\<rparr>))"
    and "planUpdates joinWorld awsCloud fourRows = Inr u"
    and "stopU u = map (\<lambda>dbm. dbm\<lparr>Status := Stopping\<rparr>) [rowB, rowC, rowS]"
    and "\<forall>dbm \<in> set [rowB, rowC, rowS].
               lookupRow (machineRows (viewU u)) (ID dbm) = Some (dbm\<lparr>Status := Stopping\<rparr>)"
    by blast
  then show ?thesis using facts_fourRows by simp
qed

text \<open>The unmatched row \<open>rowS\<close> has a cloud ID and is already Stopping: \<open>transact\<close> does not
  put it in the stop batch. The unmatched row \<open>rowC\<close> has no cloud ID: \<open>planUpdates\<close> does
  not remove it, and puts it in the stop batch.\<close>

theorem phase2_stopping_counterexample:
  "Join quietWorld (SelectFromMachine fourRows (mFilter awsCloud)) [desiredWorker] phase2Score =
     ([(rowA, desiredWorker)], [rowB, rowC, rowS], []) \<and>
   CloudID rowS = ''i-4'' \<and>
   map_sum id stop2 (phase2 quietWorld awsCloud 5000 workerBlueprint fourRows) = Inr [rowB] \<and>
   rowS \<notin> set [rowB] \<and>
   JoinScore joinWorld [desiredWorker] (selectMachines awsCloud fourRows) machineScore =
     Inr ([(desiredWorker, rowA)], [], [rowB, rowC, rowS]) \<and>
   CloudID rowC = '''' \<and>
   map_sum id stopU (planUpdates joinWorld awsCloud fourRows) =
     Inr [rowB\<lparr>Status := Stopping\<rparr>, rowC\<lparr>Status := Stopping\<rparr>, rowS] \<and>
   map_sum id (\<lambda>u. lookupRow (machineRows (viewU u)) 3) (planUpdates joinWorld awsCloud fourRows) =
     Inr (Some (rowC\<lparr>Status := Stopping\<rparr>))"
proof -
  have alloc: "list_all (\<lambda>x. ID x < idAlloc fourRows) (machineRows fourRows)"
    by (simp add: fourRows_def rowA_def rowB_def rowC_def rowS_def)
  have part': "set [rowB, rowC, rowS] \<subseteq> set (machineRows fourRows)"
    by (simp add: fourRows_def)
  have apart': "distinct (map ID (map snd [(desiredWorker, rowA)] @ [rowB, rowC, rowS]))"
    by (simp add: rowA_def rowB_def rowC_def rowS_def)
  have "ID rowS \<noteq> ID rowB" by (simp add: facts_fourRows)
  then have ne: "rowS \<noteq> rowB" by auto
  from phase2_stop_batch [OF desired_fourRows join_fourRows, of 5000]
  have batch: "map_sum id stop2 (phase2 quietWorld awsCloud 5000 workerBlueprint fourRows) =
                 Inr [rowB]"
    using facts_fourRows by simp
  from planUpdates_rows [OF wanted_fourRows joinScore_fourRows alloc part' apart']
  obtain u where "planUpdates joinWorld awsCloud fourRows = Inr u"
    and "stopU u = map (\<lambda>dbm. dbm\<lparr>Status := Stopping\<rparr>) [rowB, rowC, rowS]"
    and "\<forall>dbm \<in> set [rowB, rowC, rowS].
               lookupRow (machineRows (viewU u)) (ID dbm) = Some (dbm\<lparr>Status := Stopping\<rparr>)"
    by blast
  with batch ne join_fourRows joinScore_fourRows show ?thesis
    using facts_fourRows by simp
qed

end
